(* ===== verification/Prelude.thy ===== *)
theory Prelude
  imports Complex_Main
begin

text \<open>
  Shared vocabulary of the development. JavaScript values that cross component
  boundaries (JSON bodies of HTTP responses) are the datatype \<open>json\<close>; JavaScript
  strings are Isabelle strings whose characters are read as UTF-16 code units in the
  Latin-1 range U+0000..U+00FF (the range of Isabelle's 8-bit \<open>char\<close>); time is a
  number of milliseconds. The JavaScript built-ins that more than one component calls
  (\<open>String.prototype.trim\<close>, truthiness of strings) are defined here, with the
  lemmas the component proofs share, collected in \<open>js_simps\<close>.
\<close>

named_theorems js_simps "equations of the modelled JavaScript built-ins"

type_synonym ms = nat

datatype json =
    JNull
  | JBool bool
  | JNum rat
  | JStr string
  | JArr "json list"
  | JObj "(string \<times> json) list"

subsection \<open>String.prototype.trim\<close>

text \<open>
  ECMAScript's \<open>trim\<close> removes WhiteSpace and LineTerminator code points from both
  ends. In the Latin-1 range these are TAB, LF, VT, FF, CR, SPACE and NO-BREAK SPACE.
\<close>

definition is_js_space :: "char \<Rightarrow> bool" where
  "is_js_space c \<longleftrightarrow> of_char c \<in> {9, 10, 11, 12, 13, 32, 160 :: nat}"

definition js_trim :: "string \<Rightarrow> string" where
  "js_trim s = rev (dropWhile is_js_space (rev (dropWhile is_js_space s)))"

text \<open>A string is truthy in JavaScript iff it is not empty.\<close>

definition js_truthy :: "string \<Rightarrow> bool" where
  "js_truthy s \<longleftrightarrow> s \<noteq> []"

lemma js_truthy_iff [simp, js_simps]: "js_truthy s \<longleftrightarrow> s \<noteq> []"
  by (simp add: js_truthy_def)

lemma dropWhile_hd_not:
  "dropWhile P xs = y # ys \<Longrightarrow> \<not> P y"
  by (induction xs) (auto split: if_splits)

lemma dropWhile_rev_dropWhile:
  assumes "dropWhile P xs = xs"
  shows "dropWhile P (rev (dropWhile P (rev xs))) = rev (dropWhile P (rev xs))"
proof (cases "rev (dropWhile P (rev xs))")
  case Nil
  show ?thesis by (simp only: Nil dropWhile.simps(1))
next
  case (Cons y ys)
  obtain zs where xs: "xs = rev (dropWhile P (rev xs)) @ zs"
    by (metis rev_append rev_rev_ident takeWhile_dropWhile_id)
  with Cons have "xs = y # ys @ zs" by simp
  with assms have "\<not> P y"
    by (metis dropWhile_eq_Cons_conv)
  with Cons show ?thesis by simp
qed

lemma js_trim_idem [simp, js_simps]: "js_trim (js_trim s) = js_trim s"
proof -
  let ?t = "dropWhile is_js_space s"
  have "dropWhile is_js_space (rev (dropWhile is_js_space (rev ?t)))
        = rev (dropWhile is_js_space (rev ?t))"
    by (rule dropWhile_rev_dropWhile) simp
  then show ?thesis by (simp add: js_trim_def)
qed

lemma js_trim_Nil_iff [js_simps]: "js_trim s = [] \<longleftrightarrow> (\<forall>c \<in> set s. is_js_space c)"
  unfolding js_trim_def by (induction s) auto

lemma js_trim_no_space [simp]:
  "(\<forall>c \<in> set s. \<not> is_js_space c) \<Longrightarrow> js_trim s = s"
proof -
  assume "\<forall>c \<in> set s. \<not> is_js_space c"
  then have "dropWhile is_js_space s = s" and "dropWhile is_js_space (rev s) = rev s"
    by (auto simp: dropWhile_eq_self_iff neq_Nil_conv hd_rev
             dest: last_in_set hd_in_set)
  then show ?thesis by (simp add: js_trim_def)
qed

subsection \<open>Reading a JSON value from JavaScript\<close>

text \<open>
  \<open>obj.k\<close> on a value produced by \<open>JSON.parse\<close>: on an object the last pair with
  key \<open>k\<close> wins (as \<open>JSON.parse\<close> keeps the last duplicate), any other value
  but \<open>null\<close> has no such property (\<open>undefined\<close>, here \<open>None\<close>); on
  \<open>null\<close> the access throws a TypeError (\<open>Inl ()\<close>).
\<close>

definition json_prop :: "json \<Rightarrow> string \<Rightarrow> unit + json option" where
  "json_prop v k = (case v of
      JNull \<Rightarrow> Inl ()
    | JObj kvs \<Rightarrow> Inr (map_of (rev kvs) k)
    | _ \<Rightarrow> Inr None)"

text \<open>\<open>String.prototype.toLowerCase\<close> on Latin-1 strings.\<close>

definition js_toLowerCase :: "string \<Rightarrow> string" where
  "js_toLowerCase s =
     map (\<lambda>c. let n = (of_char c :: nat) in
               if (65 \<le> n \<and> n \<le> 90) \<or> (192 \<le> n \<and> n \<le> 222 \<and> n \<noteq> 215)
               then char_of (n + 32) else c) s"

text \<open>\<open>String.prototype.includes\<close>: \<open>pat\<close> occurs in \<open>s\<close> at some index.\<close>

definition js_includes :: "string \<Rightarrow> string \<Rightarrow> bool" where
  "js_includes s pat \<longleftrightarrow> list_ex (\<lambda>i. take (length pat) (drop i s) = pat) [0..<Suc (length s)]"

text \<open>Truthiness of a JSON value (\<open>if (v)\<close>, \<open>!v\<close>, \<open>v &&\<close>); \<open>None\<close> is
  \<open>undefined\<close>.\<close>

fun json_truthy :: "json \<Rightarrow> bool" where
  "json_truthy JNull = False"
| "json_truthy (JBool b) = b"
| "json_truthy (JNum r) = (r \<noteq> 0)"
| "json_truthy (JStr s) = (s \<noteq> [])"
| "json_truthy (JArr _) = True"
| "json_truthy (JObj _) = True"

definition opt_truthy :: "json option \<Rightarrow> bool" where
  "opt_truthy v = (case v of None \<Rightarrow> False | Some j \<Rightarrow> json_truthy j)"

lemma json_prop_obj [simp, js_simps]:
  "json_prop (JObj kvs) k = Inr (map_of (rev kvs) k)"
  by (simp add: json_prop_def)

subsection \<open>Integers written in decimal\<close>

text \<open>\<open>String(n)\<close> (and a template literal) for an integral number \<open>n\<close> with
  \<open>|n| < 10^21\<close>: optional minus sign, then the decimal digits.\<close>

fun nat_to_string :: "nat \<Rightarrow> string" where
  "nat_to_string n =
     (if n < 10 then [char_of (48 + n)] else nat_to_string (n div 10) @ [char_of (48 + n mod 10)])"

definition int_to_string :: "int \<Rightarrow> string" where
  "int_to_string i = (if i < 0 then CHR ''-'' # nat_to_string (nat (- i)) else nat_to_string (nat i))"

declare nat_to_string.simps [simp del]

definition is_digit :: "char \<Rightarrow> bool" where
  "is_digit c \<longleftrightarrow> (let n = (of_char c :: nat) in 48 \<le> n \<and> n \<le> 57)"

lemma is_digit_char_of [simp]: "(d::nat) < 10 \<Longrightarrow> is_digit (char_of (48 + d))"
  by (simp add: is_digit_def)

lemma nat_to_string_digits: "c \<in> set (nat_to_string n) \<Longrightarrow> is_digit c"
proof (induction n rule: nat_to_string.induct)
  case (1 n)
  then show ?case
    by (cases "n < 10") (auto simp add: nat_to_string.simps [of n])
qed

lemma nat_to_string_not_Nil [simp]: "nat_to_string n \<noteq> []"
  by (simp add: nat_to_string.simps [of n])

text \<open>Cutting a run of identical events (timer ticks) around one of them.\<close>

lemma replicate_split3: "replicate (a + 1 + b) x = replicate a x @ [x] @ replicate b x"
  by (simp add: replicate_add replicate_append_same)


text \<open>\<open>includes\<close> is substring containment.\<close>

lemma js_includes_iff: "js_includes s pat \<longleftrightarrow> (\<exists>a b. s = a @ pat @ b)"
proof
  assume "js_includes s pat"
  then obtain i where "take (length pat) (drop i s) = pat"
    unfolding js_includes_def list_ex_iff by auto
  moreover have "drop i s = take (length pat) (drop i s) @ drop (length pat) (drop i s)"
    by (rule append_take_drop_id [symmetric])
  ultimately have "s = take i s @ pat @ drop (length pat) (drop i s)"
    by (metis append_take_drop_id)
  then show "\<exists>a b. s = a @ pat @ b" by blast
next
  assume "\<exists>a b. s = a @ pat @ b"
  then obtain a b where s: "s = a @ pat @ b" by blast
  then have "length a \<in> set [0..<Suc (length s)]" and "take (length pat) (drop (length a) s) = pat"
    by auto
  then show "js_includes s pat" unfolding js_includes_def list_ex_iff by blast
qed

end
