(* ===== verification/Url.thy ===== *)
theory Url
  imports Prelude
begin

text \<open>
  The web-platform built-ins through which the program builds and reads URLs, modelled
  from their standards (they are not code of the repository): ECMAScript's
  \<open>encodeURIComponent\<close>, WHATWG percent-decoding, UTF-8, the
  \<open>application/x-www-form-urlencoded\<close> serializer and parser behind
  \<open>URLSearchParams\<close>, and the part of the URL parser that the program's URLs
  exercise. Bytes are Isabelle \<open>char\<close>s (8 bits); a string's characters are
  code points below 256, so UTF-8 uses one or two bytes per character.
  The main results are the round trips: decoding what was encoded gives back the
  original string.
\<close>

type_synonym bytes = "char list"

subsection \<open>Hexadecimal digits and percent-encoded bytes\<close>

definition hex_digit :: "nat \<Rightarrow> char" where
  "hex_digit n = (if n < 10 then char_of (48 + n) else char_of (55 + n))"

definition is_hex :: "char \<Rightarrow> bool" where
  "is_hex c \<longleftrightarrow> (let n = (of_char c :: nat) in
                (48 \<le> n \<and> n \<le> 57) \<or> (65 \<le> n \<and> n \<le> 70) \<or> (97 \<le> n \<and> n \<le> 102))"

definition hex_value :: "char \<Rightarrow> nat" where
  "hex_value c = (let n = (of_char c :: nat) in
                  if n \<le> 57 then n - 48 else if n \<le> 70 then n - 55 else n - 87)"

text \<open>A byte written as \<open>%XX\<close> with upper-case hexadecimal digits.\<close>

definition pct_byte :: "char \<Rightarrow> string" where
  "pct_byte b = [CHR ''%'', hex_digit (of_char b div 16), hex_digit (of_char b mod 16)]"

lemma of_char_hex_digit: "n < 16 \<Longrightarrow> of_char (hex_digit n) = (if n < 10 then 48 + n else 55 + n)"
  by (simp add: hex_digit_def)

lemma is_hex_hex_digit [simp]: "n < 16 \<Longrightarrow> is_hex (hex_digit n)"
  by (simp add: is_hex_def of_char_hex_digit)

lemma hex_value_hex_digit [simp]: "n < 16 \<Longrightarrow> hex_value (hex_digit n) = n"
  by (simp add: hex_value_def of_char_hex_digit)

lemma hex_digit_not_pct [simp]: "n < 16 \<Longrightarrow> hex_digit n \<noteq> CHR ''%''"
proof
  assume "n < 16" and "hex_digit n = CHR ''%''"
  then have "of_char (hex_digit n) = (37::nat)" by simp
  with \<open>n < 16\<close> show False by (simp add: of_char_hex_digit split: if_splits)
qed

lemma of_char_div_16_less [simp]: "of_char b div 16 < (16::nat)"
  using nat_of_char_less_256 [of b] by linarith

subsection \<open>Percent-decoding (WHATWG URL, 1.3)\<close>

text \<open>
  A \<open>%\<close> followed by two hexadecimal digits is replaced by the byte they denote;
  every other byte is kept.
\<close>

fun percent_decode :: "bytes \<Rightarrow> bytes" where
  "percent_decode (c # h # l # rest) =
     (if c = CHR ''%'' \<and> is_hex h \<and> is_hex l
      then char_of (16 * hex_value h + hex_value l) # percent_decode rest
      else c # percent_decode (h # l # rest))"
| "percent_decode cs = cs"

lemma percent_decode_pct_byte [simp]:
  "percent_decode (pct_byte b @ rest) = b # percent_decode rest"
  by (simp add: pct_byte_def)

lemma percent_decode_plain [simp]:
  "c \<noteq> CHR ''%'' \<Longrightarrow> percent_decode (c # rest) = c # percent_decode rest"
  by (cases rest rule: percent_decode.cases) auto

subsection \<open>UTF-8 for code points below 256\<close>

definition utf8_char :: "char \<Rightarrow> bytes" where
  "utf8_char c =
     (if of_char c < (128::nat) then [c]
      else [char_of (192 + of_char c div (64::nat)), char_of (128 + of_char c mod (64::nat))])"

definition utf8_encode :: "string \<Rightarrow> bytes" where
  "utf8_encode s = concat (map utf8_char s)"

text \<open>
  UTF-8 decoding. A sequence that is malformed, or that encodes a code point of 256 or
  more, has no value in this model (\<open>None\<close>); the program's own URLs never contain
  one (lemma \<open>utf8_decode_encode\<close>).
\<close>

fun utf8_decode :: "bytes \<Rightarrow> string option" where
  "utf8_decode [] = Some []"
| "utf8_decode [b] = (if of_char b < (128::nat) then Some [b] else None)"
| "utf8_decode (b # b2 # bs) =
     (if of_char b < (128::nat) then map_option (Cons b) (utf8_decode (b2 # bs))
      else if (of_char b = (194::nat) \<or> of_char b = (195::nat)) \<and>
              (128::nat) \<le> of_char b2 \<and> of_char b2 < (192::nat)
      then map_option (Cons (char_of ((of_char b - 192) * 64 + (of_char b2 - (128::nat)))))
             (utf8_decode bs)
      else None)"

lemma utf8_decode_Cons_ascii [simp]:
  "of_char b < (128::nat) \<Longrightarrow> utf8_decode (b # bs) = map_option (Cons b) (utf8_decode bs)"
  by (cases bs) auto

lemma two_byte_range:
  assumes "128 \<le> (n::nat)" and "n < 256"
  shows "(n div 64 = 2 \<and> 128 + n mod 64 = n) \<or> (n div 64 = 3 \<and> 192 + n mod 64 = n)"
proof -
  have "128 div 64 \<le> n div 64" using assms(1) by (rule div_le_mono)
  moreover have "n div 64 < 4" using assms(2) by (simp add: div_less_iff_less_mult)
  ultimately have d: "n div 64 = 2 \<or> n div 64 = 3" by linarith
  have e: "64 * (n div 64) + n mod 64 = n" by simp
  from d show ?thesis
  proof
    assume "n div 64 = 2" with e show ?thesis by simp
  next
    assume "n div 64 = 3" with e show ?thesis by simp
  qed
qed

lemma utf8_decode_char [simp]:
  "utf8_decode (utf8_char c @ bs) = map_option (Cons c) (utf8_decode bs)"
proof (cases "of_char c < (128::nat)")
  case True
  then show ?thesis by (simp add: utf8_char_def)
next
  case False
  let ?n = "of_char c :: nat"
  have m: "?n mod 64 < 64" by simp
  from False have "(?n div 64 = 2 \<and> 128 + ?n mod 64 = ?n) \<or> (?n div 64 = 3 \<and> 192 + ?n mod 64 = ?n)"
    by (intro two_byte_range) simp_all
  then show ?thesis
  proof
    assume d: "?n div 64 = 2 \<and> 128 + ?n mod 64 = ?n"
    then have "char_of (128 + ?n mod 64) = c" by simp
    moreover from d m have "?n < 192" by linarith
    ultimately show ?thesis using False d m by (auto simp add: utf8_char_def)
  next
    assume d: "?n div 64 = 3 \<and> 192 + ?n mod 64 = ?n"
    then have "char_of (192 + ?n mod 64) = c" by simp
    with False d m show ?thesis by (simp add: utf8_char_def)
  qed
qed

theorem utf8_decode_encode [simp]: "utf8_decode (utf8_encode s) = Some s"
  by (induction s) (simp_all add: utf8_encode_def)

subsection \<open>Percent-encoding a byte string\<close>

text \<open>Bytes in the set \<open>P\<close> are kept, every other byte becomes \<open>%XX\<close>.\<close>

definition pct_encode :: "(char \<Rightarrow> bool) \<Rightarrow> bytes \<Rightarrow> string" where
  "pct_encode P bs = concat (map (\<lambda>b. if P b then [b] else pct_byte b) bs)"

lemma pct_encode_simps [simp]:
  "pct_encode P [] = []"
  "pct_encode P (b # bs) = (if P b then [b] else pct_byte b) @ pct_encode P bs"
  "pct_encode P (bs @ cs) = pct_encode P bs @ pct_encode P cs"
  by (simp_all add: pct_encode_def)

lemma percent_decode_pct_encode_append:
  assumes "\<forall>b \<in> set bs. P b \<longrightarrow> b \<noteq> CHR ''%''"
  shows "percent_decode (pct_encode P bs @ rest) = bs @ percent_decode rest"
  using assms by (induction bs) auto

lemma percent_decode_pct_encode:
  "\<forall>b \<in> set bs. P b \<longrightarrow> b \<noteq> CHR ''%'' \<Longrightarrow> percent_decode (pct_encode P bs) = bs"
  using percent_decode_pct_encode_append [of bs P "[]"] by simp

subsection \<open>encodeURIComponent (ECMAScript 19.2.6.5)\<close>

definition is_ascii_alnum :: "char \<Rightarrow> bool" where
  "is_ascii_alnum c \<longleftrightarrow> (let n = (of_char c :: nat) in
     (48 \<le> n \<and> n \<le> 57) \<or> (65 \<le> n \<and> n \<le> 90) \<or> (97 \<le> n \<and> n \<le> 122))"

text \<open>The characters \<open>encodeURIComponent\<close> leaves unescaped: \<open>A-Z a-z 0-9 - _ . ! ~ * ' ( )\<close>.\<close>

definition uri_unreserved :: "char \<Rightarrow> bool" where
  "uri_unreserved c \<longleftrightarrow> is_ascii_alnum c \<or>
     c \<in> set [CHR ''-'', CHR ''_'', CHR ''.'', CHR ''!'', CHR ''~'', CHR ''*'', CHR 0x27, CHR ''('', CHR '')'']"

text \<open>
  Per code point: an unreserved one is copied, any other is UTF-8 encoded and each
  octet written as \<open>%XX\<close>.
\<close>

definition encodeURIComponent :: "string \<Rightarrow> string" where
  "encodeURIComponent s =
     concat (map (\<lambda>c. if uri_unreserved c then [c] else concat (map pct_byte (utf8_char c))) s)"

lemma is_ascii_alnum_ascii: "is_ascii_alnum c \<Longrightarrow> of_char c < (128::nat)"
  by (auto simp add: is_ascii_alnum_def Let_def)

lemma uri_unreserved_ascii: "uri_unreserved c \<Longrightarrow> of_char c < (128::nat)"
  by (auto simp add: uri_unreserved_def is_ascii_alnum_ascii)

lemma is_ascii_alnum_not_pct [simp]: "\<not> is_ascii_alnum CHR ''%''"
  by (simp add: is_ascii_alnum_def)

lemma uri_unreserved_not_pct [simp]: "\<not> uri_unreserved CHR ''%''"
  by (simp add: uri_unreserved_def)

lemma utf8_char_ascii [simp]: "of_char c < (128::nat) \<Longrightarrow> utf8_char c = [c]"
  by (simp add: utf8_char_def)

lemma utf8_char_high_bytes:
  assumes "b \<in> set (utf8_char c)" and "\<not> of_char c < (128::nat)"
  shows "128 \<le> (of_char b :: nat)"
proof -
  let ?n = "of_char c :: nat"
  have m: "?n mod 64 < 64" by simp
  from assms(2) have "(?n div 64 = 2 \<and> 128 + ?n mod 64 = ?n) \<or> (?n div 64 = 3 \<and> 192 + ?n mod 64 = ?n)"
    by (intro two_byte_range) simp_all
  with assms m show ?thesis by (auto simp add: utf8_char_def)
qed

lemma utf8_char_high_not_unreserved:
  "b \<in> set (utf8_char c) \<Longrightarrow> \<not> of_char c < (128::nat) \<Longrightarrow> \<not> uri_unreserved b"
  by (metis uri_unreserved_ascii utf8_char_high_bytes not_le)

text \<open>
  The same function read on bytes: \<open>encodeURIComponent\<close> is the percent-encoding of
  the UTF-8 bytes of its argument, keeping the unreserved bytes.
\<close>

lemma encode_char_bytes:
  "(if uri_unreserved c then [c] else concat (map pct_byte (utf8_char c))) =
   pct_encode uri_unreserved (utf8_char c)"
proof (cases "of_char c < (128::nat)")
  case True
  then show ?thesis by simp
next
  case False
  then have "\<forall>b \<in> set (utf8_char c). \<not> uri_unreserved b"
    using utf8_char_high_not_unreserved by blast
  with False show ?thesis
    by (auto simp add: pct_encode_def dest: uri_unreserved_ascii intro!: arg_cong [where f = concat])
qed

theorem encodeURIComponent_bytes:
  "encodeURIComponent s = pct_encode uri_unreserved (utf8_encode s)"
  by (induction s) (simp_all add: encodeURIComponent_def utf8_encode_def encode_char_bytes)

theorem percent_decode_encodeURIComponent:
  "percent_decode (encodeURIComponent s) = utf8_encode s"
  unfolding encodeURIComponent_bytes
  by (rule percent_decode_pct_encode) auto

subsection \<open>application/x-www-form-urlencoded (WHATWG URL, 5)\<close>

text \<open>The serializer keeps \<open>A-Z a-z 0-9 * - . _\<close>, writes a space as \<open>+\<close>
  and percent-encodes every other byte of the UTF-8 encoding.\<close>

definition form_safe :: "char \<Rightarrow> bool" where
  "form_safe c \<longleftrightarrow> is_ascii_alnum c \<or> c \<in> set [CHR ''*'', CHR ''-'', CHR ''.'', CHR ''_'']"

definition form_byte :: "char \<Rightarrow> string" where
  "form_byte b = (if b = CHR '' '' then ''+'' else if form_safe b then [b] else pct_byte b)"

definition form_encode :: "string \<Rightarrow> string" where
  "form_encode s = concat (map form_byte (utf8_encode s))"

fun form_serialize :: "(string \<times> string) list \<Rightarrow> string" where
  "form_serialize [] = []"
| "form_serialize [(n, v)] = form_encode n @ ''='' @ form_encode v"
| "form_serialize ((n, v) # p # ps) =
     form_encode n @ ''='' @ form_encode v @ ''&'' @ form_serialize (p # ps)"

text \<open>The parser splits at \<open>&\<close>, drops empty pieces, splits each piece at its first
  \<open>=\<close>, replaces \<open>+\<close> by a space, percent-decodes and UTF-8 decodes.\<close>

fun split_on :: "char \<Rightarrow> string \<Rightarrow> string list" where
  "split_on d [] = [[]]"
| "split_on d (c # cs) =
     (if c = d then [] # split_on d cs else (let r = split_on d cs in (c # hd r) # tl r))"

definition plus_to_space :: "bytes \<Rightarrow> bytes" where
  "plus_to_space bs = map (\<lambda>b. if b = CHR ''+'' then CHR '' '' else b) bs"

definition form_decode :: "bytes \<Rightarrow> string option" where
  "form_decode bs = utf8_decode (percent_decode (plus_to_space bs))"

definition form_parse_pair :: "bytes \<Rightarrow> (string \<times> string) option" where
  "form_parse_pair bs =
     (let n = takeWhile (\<lambda>b. b \<noteq> CHR ''='') bs; v = drop (Suc (length n)) bs in
      case (form_decode n, form_decode v) of
        (Some a, Some b) \<Rightarrow> Some (a, b)
      | _ \<Rightarrow> None)"

definition form_parse :: "bytes \<Rightarrow> (string \<times> string) list option" where
  "form_parse q = those (map form_parse_pair (filter (\<lambda>s. s \<noteq> []) (split_on CHR ''&'' q)))"

subsubsection \<open>Round trip of the form encoding\<close>

lemma hex_digit_alnum [simp]: "n < 16 \<Longrightarrow> is_ascii_alnum (hex_digit n)"
  by (simp add: is_ascii_alnum_def of_char_hex_digit)

lemma pct_byte_chars: "c \<in> set (pct_byte b) \<Longrightarrow> c = CHR ''%'' \<or> is_ascii_alnum c"
  by (auto simp add: pct_byte_def)

lemma form_byte_chars:
  "c \<in> set (form_byte b) \<Longrightarrow> c = CHR ''+'' \<or> c = CHR ''%'' \<or> form_safe c"
  by (auto simp add: form_byte_def form_safe_def split: if_splits dest: pct_byte_chars)

lemma form_safe_not_special [simp]:
  "\<not> form_safe CHR ''+''" "\<not> form_safe CHR ''%''" "\<not> form_safe CHR ''&''" "\<not> form_safe CHR ''=''"
  by (simp_all add: form_safe_def is_ascii_alnum_def)

lemma form_encode_no_amp_eq:
  "c \<in> set (form_encode s) \<Longrightarrow> c \<noteq> CHR ''&'' \<and> c \<noteq> CHR ''=''"
  by (auto simp add: form_encode_def dest!: form_byte_chars)

lemma plus_to_space_simps [simp]:
  "plus_to_space [] = []"
  "plus_to_space [b] = [if b = CHR ''+'' then CHR '' '' else b]"
  "plus_to_space (xs @ ys) = plus_to_space xs @ plus_to_space ys"
  by (simp_all add: plus_to_space_def)

lemma plus_to_space_pct_byte [simp]: "plus_to_space (pct_byte b) = pct_byte b"
proof -
  have "\<forall>c \<in> set (pct_byte b). c \<noteq> CHR ''+''"
    using pct_byte_chars by (fastforce simp add: is_ascii_alnum_def)
  then show ?thesis by (simp add: plus_to_space_def map_idI)
qed

lemma plus_to_space_form_byte:
  "plus_to_space (form_byte b) = (if b = CHR '' '' \<or> form_safe b then [b] else pct_byte b)"
  by (auto simp add: form_byte_def)

lemma plus_to_space_form_encode:
  "plus_to_space (form_encode s) = pct_encode (\<lambda>b. b = CHR '' '' \<or> form_safe b) (utf8_encode s)"
proof -
  have "\<And>bs. plus_to_space (concat (map form_byte bs)) =
          pct_encode (\<lambda>b. b = CHR '' '' \<or> form_safe b) bs"
  proof -
    fix bs show "plus_to_space (concat (map form_byte bs)) =
          pct_encode (\<lambda>b. b = CHR '' '' \<or> form_safe b) bs"
      by (induction bs) (simp_all add: plus_to_space_form_byte)
  qed
  then show ?thesis by (simp add: form_encode_def)
qed

theorem form_decode_encode [simp]: "form_decode (form_encode s) = Some s"
proof -
  have "percent_decode (pct_encode (\<lambda>b. b = CHR '' '' \<or> form_safe b) (utf8_encode s)) = utf8_encode s"
    by (rule percent_decode_pct_encode) auto
  then show ?thesis by (simp add: form_decode_def plus_to_space_form_encode)
qed

lemma split_on_not_in: "d \<notin> set xs \<Longrightarrow> split_on d xs = [xs]"
  by (induction xs) auto

lemma split_on_append:
  "d \<notin> set xs \<Longrightarrow> split_on d (xs @ d # ys) = xs # split_on d ys"
  by (induction xs) auto

lemma form_parse_pair_encode:
  "form_parse_pair (form_encode n @ CHR ''='' # form_encode v) = Some (n, v)"
proof -
  have "\<forall>c \<in> set (form_encode n). c \<noteq> CHR ''=''"
    using form_encode_no_amp_eq by blast
  then have "takeWhile (\<lambda>b. b \<noteq> CHR ''='') (form_encode n @ CHR ''='' # form_encode v) = form_encode n"
    by simp
  then show ?thesis by (simp add: form_parse_pair_def)
qed

theorem form_parse_serialize: "form_parse (form_serialize ps) = Some ps"
proof (induction ps rule: form_serialize.induct)
  case 1
  then show ?case by (simp add: form_parse_def)
next
  case (2 n v)
  have "CHR ''&'' \<notin> set (form_encode n @ CHR ''='' # form_encode v)"
    by (auto dest: form_encode_no_amp_eq)
  then show ?case by (simp add: form_parse_def split_on_not_in form_parse_pair_encode)
next
  case (3 n v p ps)
  have "CHR ''&'' \<notin> set (form_encode n @ CHR ''='' # form_encode v)"
    by (auto dest: form_encode_no_amp_eq)
  then have "split_on CHR ''&'' (form_encode n @ CHR ''='' # form_encode v @ CHR ''&'' # form_serialize (p # ps))
      = (form_encode n @ CHR ''='' # form_encode v) # split_on CHR ''&'' (form_serialize (p # ps))"
    using split_on_append [of "CHR ''&''" "form_encode n @ CHR ''='' # form_encode v"] by simp
  with "3.IH" show ?case by (simp add: form_parse_def form_parse_pair_encode)
qed

subsection \<open>Double encoding\<close>

lemma pct_encode_pct_byte:
  "P CHR ''%'' \<Longrightarrow> (\<forall>c. is_ascii_alnum c \<longrightarrow> P c) \<Longrightarrow> pct_encode P (pct_byte b) = pct_byte b"
  by (simp add: pct_byte_def)

lemma pct_encode_twice:
  assumes "Q CHR ''%''" and "\<forall>c. is_ascii_alnum c \<longrightarrow> Q c"
  shows "pct_encode Q (pct_encode P bs) = pct_encode (\<lambda>b. P b \<and> Q b) bs"
  using assms by (induction bs) (auto simp add: pct_encode_pct_byte)

lemma pct_encode_chars:
  "c \<in> set (pct_encode P bs) \<Longrightarrow> P c \<or> c = CHR ''%'' \<or> is_ascii_alnum c"
  by (auto simp add: pct_encode_def split: if_splits dest: pct_byte_chars)

lemma plus_to_space_pct_encode:
  "\<not> P CHR ''+'' \<Longrightarrow> plus_to_space (pct_encode P bs) = pct_encode P bs"
  by (induction bs) auto

lemma utf8_encode_ascii:
  "\<forall>c \<in> set s. of_char c < (128::nat) \<Longrightarrow> utf8_encode s = s"
  by (induction s) (simp_all add: utf8_encode_def)

subsection \<open>URL objects (WHATWG URL, 4 and 6)\<close>

text \<open>
  A parsed URL, with the list of its \<open>URLSearchParams\<close> object: the object is
  created from the query when the URL is parsed, and every \<open>set\<close> changes the list
  and writes its serialization back into the query.
\<close>

record url =
  url_origin :: string
  url_path :: string
  url_query :: "string option"
  url_params :: "(string \<times> string) list"

text \<open>Bytes the URL parser percent-encodes in the query of a special URL
  (the special-query percent-encode set).\<close>

definition special_query_byte :: "char \<Rightarrow> bool" where
  "special_query_byte b \<longleftrightarrow> (let n = (of_char b :: nat) in
     n < 33 \<or> 126 < n \<or> n \<in> {34, 35, 39, 60, 62})"

definition url_path_char :: "char \<Rightarrow> bool" where
  "url_path_char c \<longleftrightarrow> is_ascii_alnum c \<or> c \<in> set [CHR ''/'', CHR ''-'', CHR ''_'']"

definition url_query_char :: "char \<Rightarrow> bool" where
  "url_query_char c \<longleftrightarrow> (32::nat) < of_char c \<and> c \<noteq> CHR ''#''"

text \<open>
  \<open>new_url origin rest\<close> is \<open>new URL(origin + rest)\<close> for a special origin such as
  \<open>https://api.themoviedb.org\<close>. It is modelled on the inputs the program builds: a
  path of letters, digits, \<open>/ - _\<close> starting with \<open>/\<close> (no dot segments, nothing
  the path parser would change), and a query without spaces, control characters or a
  fragment. Other inputs are outside the model (\<open>None\<close>): \<open>tmdbFetch\<close> reports them as
  \<open>Url_outside_model\<close>, a model error, never a behaviour of the program.
\<close>

definition new_url :: "string \<Rightarrow> string \<Rightarrow> url option" where
  "new_url origin rest =
     (let p = takeWhile (\<lambda>c. c \<noteq> CHR ''?'') rest; q = drop (Suc (length p)) rest;
          query = (if length p = length rest then None
                   else Some (pct_encode (\<lambda>b. \<not> special_query_byte b) (utf8_encode q)))
      in if p \<noteq> [] \<and> hd p = CHR ''/'' \<and> (\<forall>c \<in> set p. url_path_char c) \<and>
            (\<forall>c \<in> set q. url_query_char c)
         then map_option (\<lambda>ps. \<lparr>url_origin = origin, url_path = p, url_query = query, url_params = ps\<rparr>)
                (case query of None \<Rightarrow> Some [] | Some x \<Rightarrow> form_parse x)
         else None)"

text \<open>\<open>URLSearchParams.set\<close>: the first pair with the name gets the value and the
  others with that name are removed; without one, the pair is appended.\<close>

fun params_set :: "string \<Rightarrow> string \<Rightarrow> (string \<times> string) list \<Rightarrow> (string \<times> string) list" where
  "params_set n v [] = [(n, v)]"
| "params_set n v ((m, w) # ps) =
     (if m = n then (n, v) # filter (\<lambda>(m', _). m' \<noteq> n) ps else (m, w) # params_set n v ps)"

definition url_set_param :: "string \<Rightarrow> string \<Rightarrow> url \<Rightarrow> url" where
  "url_set_param n v u =
     (let ps = params_set n v (url_params u); s = form_serialize ps in
      u\<lparr>url_params := ps, url_query := (if s = [] then None else Some s)\<rparr>)"

definition url_href :: "url \<Rightarrow> string" where
  "url_href u = url_origin u @ url_path u @ (case url_query u of None \<Rightarrow> [] | Some q \<Rightarrow> CHR ''?'' # q)"

text \<open>\<open>URLSearchParams.get\<close> returns the value of the first pair with the name.\<close>

definition params_get :: "string \<Rightarrow> (string \<times> string) list \<Rightarrow> string option" where
  "params_get n ps = map_of ps n"

lemma params_get_set_same [simp]: "params_get n (params_set n v ps) = Some v"
  by (induction ps rule: params_set.induct) (simp_all add: params_get_def)

lemma map_of_filter_other:
  "m \<noteq> n \<Longrightarrow> map_of (filter (\<lambda>(k, _). k \<noteq> n) ps) m = map_of ps m"
  by (induction ps) auto

lemma params_get_set_other [simp]:
  "m \<noteq> n \<Longrightarrow> params_get m (params_set n v ps) = params_get m ps"
  by (induction n v ps rule: params_set.induct) (auto simp add: params_get_def map_of_filter_other)

lemma params_set_fresh:
  "n \<notin> fst ` set ps \<Longrightarrow> params_set n v ps = ps @ [(n, v)]"
  by (induction ps rule: params_set.induct) auto

text \<open>The query written back by \<open>set\<close> parses to the object's list: a reader of the
  URL string sees exactly the pairs the program set.\<close>

theorem url_set_param_query:
  "url_query (url_set_param n v u) = Some q \<Longrightarrow> form_parse q = Some (url_params (url_set_param n v u))"
  by (auto simp add: url_set_param_def Let_def form_parse_serialize split: if_splits)

subsection \<open>Parsing the program's URLs\<close>

lemma url_path_char_not_qmark: "url_path_char c \<Longrightarrow> c \<noteq> CHR ''?''"
proof
  assume "url_path_char c" and "c = CHR ''?''"
  then have "url_path_char CHR ''?''" by simp
  then show False by (simp add: url_path_char_def is_ascii_alnum_def)
qed

lemma alnum_bounds: "is_ascii_alnum c \<Longrightarrow> 48 \<le> (of_char c :: nat) \<and> of_char c \<le> (122::nat)"
  by (auto simp add: is_ascii_alnum_def Let_def)

lemma alnum_not_hash [simp]: "\<not> is_ascii_alnum CHR ''#''"
  by (simp add: is_ascii_alnum_def)

lemma uri_unreserved_cases:
  "uri_unreserved c \<Longrightarrow> is_ascii_alnum c \<or>
     c = CHR ''-'' \<or> c = CHR ''_'' \<or> c = CHR ''.'' \<or> c = CHR ''!'' \<or> c = CHR ''~'' \<or>
     c = CHR ''*'' \<or> c = CHR 0x27 \<or> c = CHR ''('' \<or> c = CHR '')''"
  by (simp add: uri_unreserved_def)

lemma uri_unreserved_query_char: "uri_unreserved c \<Longrightarrow> url_query_char c"
proof (drule uri_unreserved_cases, elim disjE)
  assume a: "is_ascii_alnum c"
  then have "c \<noteq> CHR ''#''" by auto
  with alnum_bounds [OF a] show "url_query_char c" by (simp add: url_query_char_def)
qed (simp_all add: url_query_char_def)

lemma new_url_query:
  assumes "p \<noteq> []" and "hd p = CHR ''/''" and "\<forall>c \<in> set p. url_path_char c"
    and "\<forall>c \<in> set q. url_query_char c"
  shows "new_url origin (p @ CHR ''?'' # q) =
           map_option (\<lambda>ps. \<lparr>url_origin = origin, url_path = p,
                              url_query = Some (pct_encode (\<lambda>b. \<not> special_query_byte b) (utf8_encode q)),
                              url_params = ps\<rparr>)
             (form_parse (pct_encode (\<lambda>b. \<not> special_query_byte b) (utf8_encode q)))"
proof -
  from assms(3) have t: "takeWhile (\<lambda>c. c \<noteq> CHR ''?'') (p @ CHR ''?'' # q) = p"
    using url_path_char_not_qmark by (simp add: takeWhile_append2)
  have d: "drop (Suc (length p)) (p @ CHR ''?'' # q) = q" by simp
  have l: "(length p = length (p @ CHR ''?'' # q)) = False" by simp
  show ?thesis
    unfolding new_url_def Let_def t d l if_False using assms by simp
qed

lemma new_url_path:
  assumes "p \<noteq> []" and "hd p = CHR ''/''" and "\<forall>c \<in> set p. url_path_char c"
  shows "new_url origin p = Some \<lparr>url_origin = origin, url_path = p, url_query = None, url_params = []\<rparr>"
proof -
  have t: "takeWhile (\<lambda>c. c \<noteq> CHR ''?'') p = p"
    by (subst takeWhile_eq_all_conv) (use assms(3) in \<open>blast dest: url_path_char_not_qmark\<close>)
  show ?thesis
    unfolding new_url_def Let_def t using assms by simp
qed

lemma is_ascii_alnum_unreserved: "is_ascii_alnum c \<Longrightarrow> uri_unreserved c"
  by (simp add: uri_unreserved_def)

lemma encodeURIComponent_chars:
  "c \<in> set (encodeURIComponent s) \<Longrightarrow> uri_unreserved c \<or> c = CHR ''%''"
  unfolding encodeURIComponent_bytes by (blast dest: pct_encode_chars is_ascii_alnum_unreserved)

lemma encodeURIComponent_query_chars: "\<forall>c \<in> set (encodeURIComponent s). url_query_char c"
proof
  fix c assume "c \<in> set (encodeURIComponent s)"
  then have "uri_unreserved c \<or> c = CHR ''%''" by (rule encodeURIComponent_chars)
  then show "url_query_char c"
  proof
    assume "uri_unreserved c" then show ?thesis by (rule uri_unreserved_query_char)
  next
    assume "c = CHR ''%''" then show ?thesis by (simp add: url_query_char_def)
  qed
qed

lemma encodeURIComponent_ascii: "\<forall>c \<in> set (encodeURIComponent s). of_char c < (128::nat)"
proof
  fix c assume "c \<in> set (encodeURIComponent s)"
  then have "uri_unreserved c \<or> c = CHR ''%''" by (rule encodeURIComponent_chars)
  then show "of_char c < (128::nat)"
  proof
    assume "uri_unreserved c" then show ?thesis by (rule uri_unreserved_ascii)
  next
    assume "c = CHR ''%''" then show ?thesis by simp
  qed
qed

lemma alnum_not_special: "is_ascii_alnum c \<Longrightarrow> \<not> special_query_byte c"
  by (auto simp add: is_ascii_alnum_def special_query_byte_def Let_def)

lemma pct_encode_query_encodeURIComponent:
  "pct_encode (\<lambda>b. \<not> special_query_byte b) (encodeURIComponent s) =
   pct_encode (\<lambda>b. uri_unreserved b \<and> \<not> special_query_byte b) (utf8_encode s)"
  unfolding encodeURIComponent_bytes
proof (rule pct_encode_twice)
  show "\<not> special_query_byte CHR ''%''" by (simp add: special_query_byte_def)
  show "\<forall>c. is_ascii_alnum c \<longrightarrow> \<not> special_query_byte c" using alnum_not_special by blast
qed

lemma form_decode_pct_encode:
  assumes "\<not> P CHR ''+''" and "\<forall>b. P b \<longrightarrow> b \<noteq> CHR ''%''"
  shows "form_decode (pct_encode P (utf8_encode s)) = Some s"
proof -
  have "percent_decode (pct_encode P (utf8_encode s)) = utf8_encode s"
    using assms(2) by (intro percent_decode_pct_encode) blast
  with assms(1) show ?thesis by (simp add: form_decode_def plus_to_space_pct_encode)
qed

text \<open>A query of one parameter whose value went through \<open>encodeURIComponent\<close>.\<close>

abbreviation query_value_bytes :: "string \<Rightarrow> string" where
  "query_value_bytes s \<equiv> pct_encode (\<lambda>b. uri_unreserved b \<and> \<not> special_query_byte b) (utf8_encode s)"

lemma query_value_bytes_no_amp: "CHR ''&'' \<notin> set (query_value_bytes s)"
proof
  assume "CHR ''&'' \<in> set (query_value_bytes s)"
  then have "(uri_unreserved CHR ''&'' \<and> \<not> special_query_byte CHR ''&'') \<or>
             CHR ''&'' = CHR ''%'' \<or> is_ascii_alnum CHR ''&''"
    by (rule pct_encode_chars)
  then show False by (simp add: uri_unreserved_def is_ascii_alnum_def)
qed

lemma alnum_not_plus_pct_eq:
  "is_ascii_alnum c \<Longrightarrow> c \<noteq> CHR ''+'' \<and> c \<noteq> CHR ''%'' \<and> c \<noteq> CHR ''='' \<and> c \<noteq> CHR ''&''"
  by (auto simp add: is_ascii_alnum_def)

lemma form_decode_alnum:
  "\<forall>c \<in> set n. is_ascii_alnum c \<Longrightarrow> form_decode n = Some n"
proof (induction n)
  case Nil
  then show ?case by (simp add: form_decode_def)
next
  case (Cons c n)
  then have a: "is_ascii_alnum c" and IH: "form_decode n = Some n" by simp_all
  from a have "c \<noteq> CHR ''+''" and "c \<noteq> CHR ''%''" using alnum_not_plus_pct_eq by blast+
  moreover from a have "of_char c < (128::nat)" by (rule is_ascii_alnum_ascii)
  ultimately show ?case
    using IH by (simp add: form_decode_def plus_to_space_def)
qed

lemma form_parse_single:
  assumes "\<forall>c \<in> set n. is_ascii_alnum c"
  shows "form_parse (n @ CHR ''='' # query_value_bytes s) = Some [(n, s)]"
proof -
  have noamp: "CHR ''&'' \<notin> set (n @ CHR ''='' # query_value_bytes s)"
    using assms query_value_bytes_no_amp alnum_not_plus_pct_eq by fastforce
  have tw: "takeWhile (\<lambda>b. b \<noteq> CHR ''='') (n @ CHR ''='' # query_value_bytes s) = n"
    using assms alnum_not_plus_pct_eq by (simp add: takeWhile_append2)
  have val: "form_decode (query_value_bytes s) = Some s"
  proof (rule form_decode_pct_encode)
    show "\<not> (uri_unreserved CHR ''+'' \<and> \<not> special_query_byte CHR ''+'')"
      by (simp add: uri_unreserved_def is_ascii_alnum_def)
    show "\<forall>b. uri_unreserved b \<and> \<not> special_query_byte b \<longrightarrow> b \<noteq> CHR ''%''"
      by auto
  qed
  have pair: "form_parse_pair (n @ CHR ''='' # query_value_bytes s) = Some (n, s)"
    unfolding form_parse_pair_def Let_def tw using assms val by (simp add: form_decode_alnum)
  show ?thesis
    unfolding form_parse_def split_on_not_in [OF noamp] by (simp add: pair)
qed

text \<open>\<open>new URL(origin + p + "?" + n + "=" + encodeURIComponent(s))\<close> has the one
  parameter \<open>(n, s)\<close>: what \<open>searchParams.get(n)\<close> reads back is \<open>s\<close>.\<close>

theorem new_url_encoded_param:
  assumes "p \<noteq> []" and "hd p = CHR ''/''" and "\<forall>c \<in> set p. url_path_char c"
    and "\<forall>c \<in> set n. is_ascii_alnum c"
  shows "new_url origin (p @ CHR ''?'' # n @ CHR ''='' # encodeURIComponent s) =
           Some \<lparr>url_origin = origin, url_path = p,
                 url_query = Some (n @ CHR ''='' # query_value_bytes s), url_params = [(n, s)]\<rparr>"
proof -
  let ?E = "encodeURIComponent s"
  let ?Q = "\<lambda>b. \<not> special_query_byte b"
  have nq: "\<forall>c \<in> set n. url_query_char c"
    using assms(4) is_ascii_alnum_unreserved uri_unreserved_query_char by blast
  have eq: "url_query_char CHR ''=''" by (simp add: url_query_char_def)
  have qc: "\<forall>c \<in> set (n @ CHR ''='' # ?E). url_query_char c"
    using nq eq encodeURIComponent_query_chars [of s] by auto
  have na: "\<forall>c \<in> set n. of_char c < (128::nat)"
    using assms(4) is_ascii_alnum_ascii by blast
  have ea: "of_char CHR ''='' < (128::nat)" by simp
  have "\<forall>c \<in> set (n @ CHR ''='' # ?E). of_char c < (128::nat)"
    using na ea encodeURIComponent_ascii [of s] by auto
  then have u: "utf8_encode (n @ CHR ''='' # ?E) = n @ [CHR ''=''] @ ?E"
    by (simp add: utf8_encode_ascii)
  have "\<forall>c \<in> set n. ?Q c"
    using assms(4) alnum_not_special by blast
  then have pn: "pct_encode ?Q n = n"
    by (induction n) auto
  have pe: "pct_encode ?Q [CHR ''=''] = [CHR ''='']"
    by (simp add: special_query_byte_def)
  have enc: "pct_encode ?Q (utf8_encode (n @ CHR ''='' # ?E)) = n @ CHR ''='' # query_value_bytes s"
    unfolding u pct_encode_simps(3) pn pe pct_encode_query_encodeURIComponent by simp
  show ?thesis
    unfolding new_url_query [OF assms(1-3) qc] enc form_parse_single [OF assms(4)] by simp
qed

end
