(* ===== verification/Tmdb.thy ===== *)
theory Tmdb
  imports Url
begin

text \<open>
  The metadata access shim, \<^verbatim>\<open>src/lib/tmdb.ts\<close>. The two credentials are read from
  the environment once (\<open>tmdb_env\<close>: an unset variable is \<open>None\<close>, a set one is its
  string, possibly empty). \<open>buildUrl\<close> builds the upstream URL with the
  \<open>URLSearchParams\<close> model of theory \<open>Url\<close>; \<open>tmdbFetch\<close> checks the credentials,
  builds the request and reads the upstream's answer, which is a parameter
  (\<open>upstream\<close>: the HTTP response to a request, or \<open>None\<close> when \<open>fetch\<close> rejects).
  Every \<open>throw\<close> of the source is an \<open>Inl\<close> of \<open>tmdb_error\<close>. The wrappers
  \<open>getTrendingShows\<close> \<dots> \<open>searchShows\<close> follow.
\<close>

subsection \<open>Configuration and constants\<close>

record tmdb_env =
  V3_KEY :: "string option"
  V4_TOKEN :: "string option"

definition TMDB_ORIGIN :: string where
  "TMDB_ORIGIN = ''https://api.themoviedb.org''"

definition TMDB_PATH :: string where
  "TMDB_PATH = ''/3''"

definition LANG :: string where
  "LANG = ''en-US''"

definition CACHE :: nat where
  "CACHE = 60 * 60"

text \<open>Truthiness of an environment variable: unset and empty are falsy.\<close>

definition env_truthy :: "string option \<Rightarrow> bool" where
  "env_truthy x = (case x of None \<Rightarrow> False | Some s \<Rightarrow> s \<noteq> [])"

lemma env_truthy_simps [simp]:
  "\<not> env_truthy None"
  "env_truthy (Some s) \<longleftrightarrow> s \<noteq> []"
  by (simp_all add: env_truthy_def)

subsection \<open>buildUrl\<close>

text \<open>
  \<open>new URL(TMDB + endpoint)\<close>, then \<open>searchParams.set("language", LANG)\<close>, then
  \<open>api_key\<close> when \<open>V4_TOKEN == null\<close> (unset) and \<open>V3_KEY\<close> is truthy.
  \<open>buildUrl_obj\<close> is the URL object before \<open>toString()\<close>.
\<close>

definition buildUrl_obj :: "tmdb_env \<Rightarrow> string \<Rightarrow> url option" where
  "buildUrl_obj env endpoint =
     map_option
       (\<lambda>u. let u1 = url_set_param ''language'' LANG u in
            (case V3_KEY env of
               Some k \<Rightarrow> if V4_TOKEN env = None \<and> k \<noteq> [] then url_set_param ''api_key'' k u1 else u1
             | None \<Rightarrow> u1))
       (new_url TMDB_ORIGIN (TMDB_PATH @ endpoint))"

definition buildUrl :: "tmdb_env \<Rightarrow> string \<Rightarrow> string option" where
  "buildUrl env endpoint = map_option url_href (buildUrl_obj env endpoint)"

subsection \<open>tmdbFetch\<close>

record http_request =
  req_url :: string
  req_headers :: "(string \<times> string) list"
  req_revalidate :: nat

text \<open>An HTTP response: its status and its body, \<open>None\<close> when the body is not JSON.\<close>

record http_response =
  res_status :: nat
  res_body :: "json option"

type_synonym upstream = "http_request \<Rightarrow> http_response option"

datatype tmdb_error =
    Credential_missing
  | Http_error nat
  | Network_error
  | Json_error
  | Type_error
  | Url_outside_model

text \<open>\<open>V4_TOKEN ? { Authorization: `Bearer ${V4_TOKEN}` } : {}\<close>.\<close>

definition auth_headers :: "tmdb_env \<Rightarrow> (string \<times> string) list" where
  "auth_headers env =
     (case V4_TOKEN env of
        Some t \<Rightarrow> if t \<noteq> [] then [(''Authorization'', ''Bearer '' @ t)] else []
      | None \<Rightarrow> [])"

definition res_ok :: "http_response \<Rightarrow> bool" where
  "res_ok r \<longleftrightarrow> 200 \<le> res_status r \<and> res_status r < 300"

definition tmdbFetch :: "tmdb_env \<Rightarrow> upstream \<Rightarrow> string \<Rightarrow> tmdb_error + json" where
  "tmdbFetch env up endpoint =
     (if \<not> env_truthy (V3_KEY env) \<and> \<not> env_truthy (V4_TOKEN env) then Inl Credential_missing
      else case buildUrl env endpoint of
        None \<Rightarrow> Inl Url_outside_model
      | Some url \<Rightarrow>
          (case up \<lparr>req_url = url, req_headers = auth_headers env, req_revalidate = CACHE\<rparr> of
             None \<Rightarrow> Inl Network_error
           | Some r \<Rightarrow>
               if \<not> res_ok r then Inl (Http_error (res_status r))
               else (case res_body r of None \<Rightarrow> Inl Json_error | Some j \<Rightarrow> Inr j)))"

subsection \<open>The typed calls\<close>

text \<open>\<open>.then((d) => d.results)\<close>: \<open>None\<close> is \<open>undefined\<close>; on \<open>null\<close> it throws.\<close>

definition then_results :: "tmdb_error + json \<Rightarrow> tmdb_error + json option" where
  "then_results r = (case r of
      Inl e \<Rightarrow> Inl e
    | Inr d \<Rightarrow> (case json_prop d ''results'' of Inl _ \<Rightarrow> Inl Type_error | Inr v \<Rightarrow> Inr v))"

definition getTrendingShows :: "tmdb_env \<Rightarrow> upstream \<Rightarrow> tmdb_error + json option" where
  "getTrendingShows env up = then_results (tmdbFetch env up ''/trending/tv/week'')"

definition getTopRatedShows :: "tmdb_env \<Rightarrow> upstream \<Rightarrow> tmdb_error + json option" where
  "getTopRatedShows env up = then_results (tmdbFetch env up ''/tv/top_rated'')"

definition getAiringTodayShows :: "tmdb_env \<Rightarrow> upstream \<Rightarrow> tmdb_error + json option" where
  "getAiringTodayShows env up = then_results (tmdbFetch env up ''/tv/airing_today'')"

definition getShowDetails :: "tmdb_env \<Rightarrow> upstream \<Rightarrow> int \<Rightarrow> tmdb_error + json" where
  "getShowDetails env up i = tmdbFetch env up (''/tv/'' @ int_to_string i)"

definition getSeasonDetails :: "tmdb_env \<Rightarrow> upstream \<Rightarrow> int \<Rightarrow> int \<Rightarrow> tmdb_error + json" where
  "getSeasonDetails env up i s =
     tmdbFetch env up (''/tv/'' @ int_to_string i @ ''/season/'' @ int_to_string s)"

text \<open>\<open>searchShows\<close>: a blank query resolves to \<open>{ results: [] }\<close> without a call.\<close>

definition searchShows :: "tmdb_env \<Rightarrow> upstream \<Rightarrow> string \<Rightarrow> tmdb_error + json" where
  "searchShows env up q =
     (if js_trim q = [] then Inr (JObj [(''results'', JArr [])])
      else tmdbFetch env up (''/search/tv?query='' @ encodeURIComponent (js_trim q)))"


subsection \<open>The URLs of the program's endpoints\<close>

text \<open>The parameters \<open>buildUrl\<close> leaves on a URL whose own parameters are \<open>ps\<close>.\<close>

definition tmdb_params :: "tmdb_env \<Rightarrow> (string \<times> string) list \<Rightarrow> (string \<times> string) list" where
  "tmdb_params env ps =
     (let ps1 = params_set ''language'' LANG ps in
      case V3_KEY env of
        Some k \<Rightarrow> if V4_TOKEN env = None \<and> k \<noteq> [] then params_set ''api_key'' k ps1 else ps1
      | None \<Rightarrow> ps1)"

lemma params_set_not_Nil [simp]: "params_set n v ps \<noteq> []"
  by (induction n v ps rule: params_set.induct) auto

lemma form_serialize_Nil_iff [simp]: "form_serialize ps = [] \<longleftrightarrow> ps = []"
  by (induction ps rule: form_serialize.induct) auto

lemma tmdb_params_not_Nil [simp]: "tmdb_params env ps \<noteq> []"
  by (simp add: tmdb_params_def Let_def split: option.split)

lemma buildUrl_obj_eq:
  "buildUrl_obj env e =
     map_option (\<lambda>u. u\<lparr>url_params := tmdb_params env (url_params u),
                       url_query := Some (form_serialize (tmdb_params env (url_params u)))\<rparr>)
       (new_url TMDB_ORIGIN (TMDB_PATH @ e))"
  by (auto simp add: buildUrl_obj_def tmdb_params_def url_set_param_def Let_def
           split: option.split intro!: option.map_cong0)

lemma tmdb_params_language [simp]: "params_get ''language'' (tmdb_params env ps) = Some LANG"
  by (simp add: tmdb_params_def Let_def split: option.split)

lemma tmdb_params_api_key:
  "params_get ''api_key'' (tmdb_params env ps) =
     (if V4_TOKEN env = None \<and> env_truthy (V3_KEY env) then V3_KEY env else params_get ''api_key'' ps)"
  by (auto simp add: tmdb_params_def Let_def split: option.split)


text \<open>The search endpoint: the query reaches the URL object as one parameter.\<close>

lemma new_url_search:
  "new_url TMDB_ORIGIN (TMDB_PATH @ ''/search/tv?query='' @ encodeURIComponent s) =
     Some \<lparr>url_origin = TMDB_ORIGIN, url_path = ''/3/search/tv'',
           url_query = Some (''query='' @ query_value_bytes s), url_params = [(''query'', s)]\<rparr>"
proof -
  have eq: "TMDB_PATH @ ''/search/tv?query='' @ encodeURIComponent s =
            ''/3/search/tv'' @ CHR ''?'' # ''query'' @ CHR ''='' # encodeURIComponent s"
    by (simp add: TMDB_PATH_def)
  have nn: "''/3/search/tv'' \<noteq> []" and hd: "hd ''/3/search/tv'' = CHR ''/''"
    by simp_all
  have pc: "\<forall>c \<in> set ''/3/search/tv''. url_path_char c"
    by (simp add: url_path_char_def is_ascii_alnum_def)
  have qn: "\<forall>c \<in> set ''query''. is_ascii_alnum c"
    by (simp add: is_ascii_alnum_def)
  show ?thesis
    unfolding eq new_url_encoded_param [OF nn hd pc qn] by simp
qed

lemma buildUrl_search:
  "buildUrl env (''/search/tv?query='' @ encodeURIComponent s) =
     Some (TMDB_ORIGIN @ ''/3/search/tv'' @ CHR ''?'' # form_serialize (tmdb_params env [(''query'', s)]))"
  unfolding buildUrl_def buildUrl_obj_eq new_url_search by (simp add: url_href_def)

text \<open>Path-only endpoints: the fixed lists and the numeric ones.\<close>

lemma int_to_string_chars: "c \<in> set (int_to_string i) \<Longrightarrow> is_digit c \<or> c = CHR ''-''"
  by (auto simp add: int_to_string_def split: if_splits dest: nat_to_string_digits)

lemma is_digit_path_char: "is_digit c \<Longrightarrow> url_path_char c"
  by (simp add: is_digit_def url_path_char_def is_ascii_alnum_def Let_def)

lemma tmdb_params_api_key_fresh:
  "params_get ''api_key'' ps = None \<Longrightarrow>
   params_get ''api_key'' (tmdb_params env ps) =
     (if V4_TOKEN env = None \<and> env_truthy (V3_KEY env) then V3_KEY env else None)"
  by (simp add: tmdb_params_api_key)

subsection \<open>Properties of tmdbFetch and the credentials\<close>

text \<open>C11. Without either credential \<open>tmdbFetch\<close> fails before any request: its
  result is the configuration error whatever the upstream would answer.\<close>

theorem tmdbFetch_credential_missing:
  assumes "\<not> env_truthy (V3_KEY env)" and "\<not> env_truthy (V4_TOKEN env)"
  shows "tmdbFetch env up e = Inl Credential_missing"
  using assms by (simp add: tmdbFetch_def)

lemma tmdbFetch_credential_missing_witness:
  "tmdbFetch \<lparr>V3_KEY = Some [], V4_TOKEN = None\<rparr> (\<lambda>_. Some \<lparr>res_status = 200, res_body = Some JNull\<rparr>)
     ''/tv/1'' = Inl Credential_missing"
  by (rule tmdbFetch_credential_missing) simp_all

text \<open>A non-2xx answer becomes an error carrying the status code; no retry.\<close>

theorem tmdbFetch_http_error:
  assumes "env_truthy (V3_KEY env) \<or> env_truthy (V4_TOKEN env)"
    and "buildUrl env e = Some url"
    and "up \<lparr>req_url = url, req_headers = auth_headers env, req_revalidate = CACHE\<rparr> = Some r"
    and "\<not> res_ok r"
  shows "tmdbFetch env up e = Inl (Http_error (res_status r))"
  using assms by (auto simp add: tmdbFetch_def)

lemma tmdbFetch_http_error_witness:
  "tmdbFetch \<lparr>V3_KEY = Some ''k'', V4_TOKEN = None\<rparr> (\<lambda>_. Some \<lparr>res_status = 401, res_body = None\<rparr>)
     ''/tv/1'' = Inl (Http_error 401)"
proof -
  have url: "buildUrl \<lparr>V3_KEY = Some ''k'', V4_TOKEN = None\<rparr> ''/tv/1'' =
             Some ''https://api.themoviedb.org/3/tv/1?language=en-US&api_key=k''"
    by code_simp
  show ?thesis
    using tmdbFetch_http_error [OF _ url, of "\<lambda>_. Some \<lparr>res_status = 401, res_body = None\<rparr>"]
    by (simp add: res_ok_def)
qed

lemma search_params_tmdb:
  "buildUrl env (''/search/tv?query='' @ encodeURIComponent s) =
     Some (TMDB_ORIGIN @ ''/3/search/tv?'' @ form_serialize (tmdb_params env [(''query'', s)])) \<and>
   params_get ''query'' (tmdb_params env [(''query'', s)]) = Some s \<and>
   params_get ''language'' (tmdb_params env [(''query'', s)]) = Some LANG \<and>
   params_get ''api_key'' (tmdb_params env [(''query'', s)]) =
     (if V4_TOKEN env = None \<and> env_truthy (V3_KEY env) then V3_KEY env else None)"
proof (intro conjI)
  show "buildUrl env (''/search/tv?query='' @ encodeURIComponent s) =
          Some (TMDB_ORIGIN @ ''/3/search/tv?'' @ form_serialize (tmdb_params env [(''query'', s)]))"
    unfolding buildUrl_search by simp
  show "params_get ''query'' (tmdb_params env [(''query'', s)]) = Some s"
    by (simp add: tmdb_params_def Let_def params_get_def split: option.split)
  show "params_get ''language'' (tmdb_params env [(''query'', s)]) = Some LANG" by simp
  show "params_get ''api_key'' (tmdb_params env [(''query'', s)]) =
          (if V4_TOKEN env = None \<and> env_truthy (V3_KEY env) then V3_KEY env else None)"
    by (rule tmdb_params_api_key_fresh) (simp add: params_get_def)
qed

text \<open>C12. The search request: the query string of the upstream URL, read back by the
  form-urlencoded parser as the upstream reads it, holds the query exactly, the fixed
  language and, only in the key-only configuration, the key.\<close>

theorem search_request_params:
  "\<exists>ps. buildUrl env (''/search/tv?query='' @ encodeURIComponent s) =
          Some (TMDB_ORIGIN @ ''/3/search/tv?'' @ form_serialize ps) \<and>
        form_parse (form_serialize ps) = Some ps \<and>
        params_get ''query'' ps = Some s \<and> params_get ''language'' ps = Some LANG \<and>
        params_get ''api_key'' ps =
          (if V4_TOKEN env = None \<and> env_truthy (V3_KEY env) then V3_KEY env else None)"
  using search_params_tmdb [of env s] form_parse_serialize by blast

text \<open>C27. A set but empty access token: the credential check passes (the key is truthy), yet
  \<open>buildUrl\<close> omits the key (the token is not \<open>null\<close>) and no bearer header is
  sent (the token is falsy). The request goes out with no credential at all.\<close>

theorem empty_token_sends_no_credential:
  assumes "V3_KEY env = Some k" and "k \<noteq> []" and "V4_TOKEN env = Some []"
  shows "auth_headers env = [] \<and>
         tmdbFetch env up (''/search/tv?query='' @ encodeURIComponent s) \<noteq> Inl Credential_missing \<and>
         (\<exists>ps. buildUrl env (''/search/tv?query='' @ encodeURIComponent s) =
                 Some (TMDB_ORIGIN @ ''/3/search/tv?'' @ form_serialize ps) \<and>
               params_get ''api_key'' ps = None)"
proof (intro conjI)
  show "auth_headers env = []" using assms by (simp add: auth_headers_def)
  show "tmdbFetch env up (''/search/tv?query='' @ encodeURIComponent s) \<noteq> Inl Credential_missing"
    using assms by (simp add: tmdbFetch_def buildUrl_search split: option.split)
  show "\<exists>ps. buildUrl env (''/search/tv?query='' @ encodeURIComponent s) =
                 Some (TMDB_ORIGIN @ ''/3/search/tv?'' @ form_serialize ps) \<and>
               params_get ''api_key'' ps = None"
    using search_params_tmdb [of env s] assms by auto
qed

lemma empty_token_sends_no_credential_witness:
  "auth_headers \<lparr>V3_KEY = Some ''k'', V4_TOKEN = Some []\<rparr> = [] \<and>
   buildUrl \<lparr>V3_KEY = Some ''k'', V4_TOKEN = Some []\<rparr> (''/search/tv?query='' @ encodeURIComponent ''the cr'')
     = Some ''https://api.themoviedb.org/3/search/tv?query=the+cr&language=en-US''"
proof -
  have "auth_headers \<lparr>V3_KEY = Some ''k'', V4_TOKEN = Some []\<rparr> = []"
    using empty_token_sends_no_credential [of "\<lparr>V3_KEY = Some ''k'', V4_TOKEN = Some []\<rparr>" "''k''"]
    by simp
  moreover have "buildUrl \<lparr>V3_KEY = Some ''k'', V4_TOKEN = Some []\<rparr> (''/search/tv?query='' @ encodeURIComponent ''the cr'')
     = Some ''https://api.themoviedb.org/3/search/tv?query=the+cr&language=en-US''"
    by code_simp
  ultimately show ?thesis by blast
qed

end
