(* ===== verification/SearchRoute.thy ===== *)
theory SearchRoute
  imports Tmdb
begin

text \<open>
  The pass-through search endpoint, \<^verbatim>\<open>src/app/api/search/route.ts\<close>. \<open>GET\<close>
  receives the request's URL already parsed (\<open>new URL(request.url)\<close>, theory
  \<open>Url\<close>), reads \<open>q\<close>, answers a blank query itself and otherwise calls
  \<open>Tmdb.searchShows\<close>; an exception of the call becomes the generic 500 answer.
\<close>

record api_response =
  resp_status :: nat
  resp_body :: json

definition empty_results :: json where
  "empty_results = JObj [(''results'', JArr [])]"

definition search_failed :: json where
  "search_failed = JObj [(''error'', JStr ''Failed to search shows'')]"

text \<open>\<open>searchParams.get("q")?.trim() || ""\<close>\<close>

definition route_query :: "url \<Rightarrow> string" where
  "route_query u = (case params_get ''q'' (url_params u) of None \<Rightarrow> [] | Some q \<Rightarrow> js_trim q)"

definition GET :: "tmdb_env \<Rightarrow> upstream \<Rightarrow> url \<Rightarrow> api_response" where
  "GET env up u =
     (let query = route_query u in
      if query = [] then \<lparr>resp_status = 200, resp_body = empty_results\<rparr>
      else (case searchShows env up query of
              Inr data \<Rightarrow> \<lparr>resp_status = 200, resp_body = data\<rparr>
            | Inl _ \<Rightarrow> \<lparr>resp_status = 500, resp_body = search_failed\<rparr>))"

subsection \<open>Properties of the endpoint\<close>

lemma route_query_trimmed [simp]: "js_trim (route_query u) = route_query u"
  by (simp add: route_query_def split: option.split)

text \<open>C1. A missing or blank \<open>q\<close>: 200 with an empty result list, whatever the
  upstream (it is never called).\<close>

theorem GET_blank:
  assumes "route_query u = []"
  shows "GET env up u = \<lparr>resp_status = 200, resp_body = JObj [(''results'', JArr [])]\<rparr>"
  using assms by (simp add: GET_def empty_results_def)

lemma GET_blank_witness:
  "GET \<lparr>V3_KEY = Some ''k'', V4_TOKEN = None\<rparr> (\<lambda>_. None)
     \<lparr>url_origin = ''http://localhost'', url_path = ''/api/search'', url_query = Some ''q=+'',
      url_params = [(''q'', '' '')]\<rparr>
   = \<lparr>resp_status = 200, resp_body = JObj [(''results'', JArr [])]\<rparr>"
  by (rule GET_blank) (simp add: route_query_def params_get_def js_trim_def is_js_space_def)

lemma searchShows_trimmed:
  "js_trim q = q \<Longrightarrow> q \<noteq> [] \<Longrightarrow>
   searchShows env up q = tmdbFetch env up (''/search/tv?query='' @ encodeURIComponent q)"
  by (simp add: searchShows_def)

text \<open>C2. A non-blank \<open>q\<close>: the upstream is asked for the trimmed query, and its JSON
  body is relayed unchanged with status 200.\<close>

theorem GET_forwards:
  assumes "route_query u \<noteq> []"
    and "env_truthy (V3_KEY env) \<or> env_truthy (V4_TOKEN env)"
    and "buildUrl env (''/search/tv?query='' @ encodeURIComponent (route_query u)) = Some url"
    and "up \<lparr>req_url = url, req_headers = auth_headers env, req_revalidate = CACHE\<rparr> = Some r"
    and "res_ok r" and "res_body r = Some j"
  shows "GET env up u = \<lparr>resp_status = 200, resp_body = j\<rparr>"
  using assms by (simp add: GET_def searchShows_trimmed tmdbFetch_def)

lemma GET_forwards_witness:
  "GET \<lparr>V3_KEY = Some ''k'', V4_TOKEN = None\<rparr>
       (\<lambda>rq. Some \<lparr>res_status = 200, res_body = Some (JObj [(''results'', JArr [JNum 1])])\<rparr>)
       \<lparr>url_origin = ''http://localhost'', url_path = ''/api/search'', url_query = Some ''q=the%20cr'',
        url_params = [(''q'', ''the cr'')]\<rparr>
   = \<lparr>resp_status = 200, resp_body = JObj [(''results'', JArr [JNum 1])]\<rparr>"
proof -
  let ?u = "\<lparr>url_origin = ''http://localhost'', url_path = ''/api/search'', url_query = Some ''q=the%20cr'',
             url_params = [(''q'', ''the cr'')]\<rparr>"
  have q: "route_query ?u = ''the cr''"
    by (simp add: route_query_def params_get_def js_trim_def is_js_space_def)
  have url: "buildUrl \<lparr>V3_KEY = Some ''k'', V4_TOKEN = None\<rparr> (''/search/tv?query='' @ encodeURIComponent ''the cr'') =
             Some ''https://api.themoviedb.org/3/search/tv?query=the+cr&language=en-US&api_key=k''"
    by code_simp
  show ?thesis
    using GET_forwards [of ?u, unfolded q, OF _ _ url] by (simp add: res_ok_def)
qed

text \<open>C3. Any failure of the upstream call (missing credential, network error, non-2xx
  status, undecodable body) gives status 500 and the same fixed body: nothing of the
  upstream's error reaches the client.\<close>

theorem GET_failure_generic:
  assumes "route_query u \<noteq> []" and "searchShows env up (route_query u) = Inl e"
  shows "GET env up u = \<lparr>resp_status = 500, resp_body = JObj [(''error'', JStr ''Failed to search shows'')]\<rparr>"
  using assms by (simp add: GET_def search_failed_def)

lemma GET_failure_generic_witness:
  "GET \<lparr>V3_KEY = Some ''k'', V4_TOKEN = None\<rparr> (\<lambda>_. Some \<lparr>res_status = 503, res_body = None\<rparr>)
       \<lparr>url_origin = ''http://localhost'', url_path = ''/api/search'', url_query = Some ''q=x'',
        url_params = [(''q'', ''x'')]\<rparr>
   = \<lparr>resp_status = 500, resp_body = JObj [(''error'', JStr ''Failed to search shows'')]\<rparr>"
proof -
  let ?u = "\<lparr>url_origin = ''http://localhost'', url_path = ''/api/search'', url_query = Some ''q=x'',
             url_params = [(''q'', ''x'')]\<rparr>"
  have q: "route_query ?u = ''x''"
    by (simp add: route_query_def params_get_def js_trim_def is_js_space_def)
  have s: "searchShows \<lparr>V3_KEY = Some ''k'', V4_TOKEN = None\<rparr> (\<lambda>_. Some \<lparr>res_status = 503, res_body = None\<rparr>) ''x''
           = Inl (Http_error 503)"
    by code_simp
  show ?thesis
    using GET_failure_generic [of ?u, unfolded q, OF _ s] by simp
qed

text \<open>The URL the search box fetches, parsed against any origin: one parameter
  \<open>q\<close> holding the typed text.\<close>

lemma new_url_api_search:
  "new_url origin (''/api/search?q='' @ encodeURIComponent s) =
     Some \<lparr>url_origin = origin, url_path = ''/api/search'',
           url_query = Some (''q='' @ query_value_bytes s), url_params = [(''q'', s)]\<rparr>"
proof -
  have eq: "''/api/search?q='' @ encodeURIComponent s =
            ''/api/search'' @ CHR ''?'' # ''q'' @ CHR ''='' # encodeURIComponent s"
    by simp
  have nn: "''/api/search'' \<noteq> []" and hd: "hd ''/api/search'' = CHR ''/''"
    by simp_all
  have pc: "\<forall>c \<in> set ''/api/search''. url_path_char c"
    by (simp add: url_path_char_def is_ascii_alnum_def)
  have qn: "\<forall>c \<in> set ''q''. is_ascii_alnum c"
    by (simp add: is_ascii_alnum_def)
  show ?thesis
    unfolding eq new_url_encoded_param [OF nn hd pc qn] by simp
qed

text \<open>The client's request: \<open>fetch(`/api/search?q=${encodeURIComponent(s)}`)\<close> makes
  the route read back exactly \<open>s\<close>.\<close>

theorem route_reads_client_query:
  "\<exists>u. new_url origin (''/api/search?q='' @ encodeURIComponent s) = Some u \<and>
       params_get ''q'' (url_params u) = Some s \<and> route_query u = js_trim s"
  unfolding new_url_api_search by (simp add: params_get_def route_query_def)

end
