(* ===== verification/Debounce.thy ===== *)
theory Debounce
  imports Prelude
begin

text \<open>
  The \<open>useDebounce(value, delay)\<close> hook that \<^verbatim>\<open>components/SearchBar.tsx\<close> imports
  from \<^verbatim>\<open>@/hooks/useDebounce\<close>. That file is not among the repository's sources, so
  the hook is modelled from the spec (section 4.1: the effective value is the input's
  value once no change has happened for the quiet period) in its usual form: the state
  holds the settled value, and every change of the input clears the pending
  \<open>setTimeout\<close> and starts a new one that will set the settled value.
  A timer is its deadline (in ms) and the value its callback will store.
\<close>

record 'a debounce =
  settled :: 'a
  pending :: "(ms \<times> 'a) option"

text \<open>On mount: \<open>useState(value)\<close>, and the effect starts the first timer.\<close>

definition debounce_mount :: "ms \<Rightarrow> ms \<Rightarrow> 'a \<Rightarrow> 'a debounce" where
  "debounce_mount delay now v = \<lparr>settled = v, pending = Some (now + delay, v)\<rparr>"

text \<open>The input changed at time \<open>now\<close>: the effect's cleanup clears the pending timer
  and the effect starts a new one.\<close>

definition debounce_change :: "ms \<Rightarrow> ms \<Rightarrow> 'a \<Rightarrow> 'a debounce \<Rightarrow> 'a debounce" where
  "debounce_change delay now v d = d\<lparr>pending := Some (now + delay, v)\<rparr>"

text \<open>The value whose timer has fired by time \<open>t\<close>, if any.\<close>

definition debounce_due :: "ms \<Rightarrow> 'a debounce \<Rightarrow> (ms \<times> 'a) option" where
  "debounce_due t d = (case pending d of
      Some (dl, v) \<Rightarrow> if dl \<le> t then Some (dl, v) else None
    | None \<Rightarrow> None)"

text \<open>The timer's callback: \<open>setDebouncedValue(v)\<close>.\<close>

definition debounce_fire :: "'a \<Rightarrow> 'a debounce \<Rightarrow> 'a debounce" where
  "debounce_fire v d = \<lparr>settled = v, pending = None\<rparr>"

lemma debounce_due_change [simp]:
  "debounce_due t (debounce_change delay now v d) =
     (if now + delay \<le> t then Some (now + delay, v) else None)"
  by (simp add: debounce_due_def debounce_change_def)

lemma debounce_due_None_pending:
  "pending d = None \<Longrightarrow> debounce_due t d = None"
  by (simp add: debounce_due_def)

lemma debounce_due_SomeD:
  "debounce_due t d = Some (dl, v) \<Longrightarrow> pending d = Some (dl, v) \<and> dl \<le> t"
  by (auto simp add: debounce_due_def split: option.splits if_splits)

lemma debounce_fire_simps [simp]:
  "settled (debounce_fire v d) = v" "pending (debounce_fire v d) = None"
  by (simp_all add: debounce_fire_def)

lemma debounce_change_simps [simp]:
  "settled (debounce_change delay now v d) = settled d"
  "pending (debounce_change delay now v d) = Some (now + delay, v)"
  by (simp_all add: debounce_change_def)

end
