(* ===== verification/SearchBar.thy ===== *)
theory SearchBar
  imports Debounce Url
begin

text \<open>
  The search box, \<^verbatim>\<open>components/SearchBar.tsx\<close>, with the view choice of
  \<^verbatim>\<open>components/SearchResults.tsx\<close>. The component's state (\<open>useState\<close>s), the
  debounce hook's state (theory \<open>Debounce\<close>) and what the component does to the world
  (requests sent and still unanswered, \<open>router.push\<close> calls, \<open>onClose\<close> calls) form
  one record. Every user action, timer expiry and response arrival is an event, and
  \<open>sb_step\<close> is the component's reaction to it, with React's effects (the debounce
  effect on \<open>[value]\<close>, the search effect on \<open>[debouncedQuery]\<close>) run when their
  dependency changes. A response is an event of its own, so responses can arrive in
  any order, as the spec allows; nothing cancels a request.
\<close>

subsection \<open>The results the component keeps\<close>

text \<open>\<open>data.results?.slice(0, 8) || []\<close> inside \<open>try\<close>: the response body is
  \<open>None\<close> when \<open>fetch\<close> or \<open>res.json()\<close> throws. \<open>slice\<close> exists on arrays and
  strings; on any other value the call throws (caught: \<open>[]\<close>); an empty string is
  falsy, so \<open>|| []\<close> replaces it.\<close>

definition slice_results :: "json option \<Rightarrow> json" where
  "slice_results r = (case r of
      None \<Rightarrow> JArr []
    | Some d \<Rightarrow> (case json_prop d ''results'' of
        Inr (Some (JArr xs)) \<Rightarrow> JArr (take 8 xs)
      | Inr (Some (JStr t)) \<Rightarrow> (if take 8 t = [] then JArr [] else JStr (take 8 t))
      | _ \<Rightarrow> JArr []))"

text \<open>\<open>results.length\<close> and \<open>results[0]\<close> (\<open>None\<close>: undefined).\<close>

definition results_length :: "json \<Rightarrow> nat" where
  "results_length r = (case r of JArr xs \<Rightarrow> length xs | JStr t \<Rightarrow> length t | _ \<Rightarrow> 0)"

definition first_result :: "json \<Rightarrow> json option" where
  "first_result r = (case r of
      JArr (x # _) \<Rightarrow> Some x
    | JStr (c # _) \<Rightarrow> Some (JStr [c])
    | _ \<Rightarrow> None)"

subsection \<open>State\<close>

record search_bar =
  query :: string
  results :: json
  isLoading :: bool
  isOpen :: bool
  debouncer :: "string debounce"
  now :: ms
  next_req :: nat
  inflight :: "(nat \<times> string) list"
  requests :: "string list"
  pushed :: "json option list"
  closes :: nat

definition DEBOUNCE_MS :: ms where
  "DEBOUNCE_MS = 500"

definition search_url :: "string \<Rightarrow> string" where
  "search_url q = ''/api/search?q='' @ encodeURIComponent q"

text \<open>Mounting: initial states, the debounce timer started by the hook's effect; the
  search effect's first run (empty value) leaves results empty and loading off.\<close>

definition sb_init :: search_bar where
  "sb_init = \<lparr>query = [], results = JArr [], isLoading = False, isOpen = False,
              debouncer = debounce_mount DEBOUNCE_MS 0 [], now = 0, next_req = 0,
              inflight = [], requests = [], pushed = [], closes = 0\<rparr>"

subsection \<open>Handlers and effects\<close>

text \<open>\<open>performSearch\<close> up to its \<open>await\<close>: loading on, one request sent.\<close>

definition performSearch_start :: "string \<Rightarrow> search_bar \<Rightarrow> search_bar" where
  "performSearch_start q s =
     s\<lparr>isLoading := True, next_req := Suc (next_req s),
       inflight := inflight s @ [(next_req s, search_url q)],
       requests := requests s @ [search_url q]\<rparr>"

text \<open>\<open>performSearch\<close> after its \<open>await\<close>: request \<open>i\<close> has completed with body
  \<open>r\<close>; the results are set (or cleared in \<open>catch\<close>) and loading goes off in
  \<open>finally\<close>, whatever other requests are still pending.\<close>

definition performSearch_finish :: "nat \<Rightarrow> json option \<Rightarrow> search_bar \<Rightarrow> search_bar" where
  "performSearch_finish i r s =
     (if i \<in> set (map fst (inflight s))
      then s\<lparr>results := slice_results r, isLoading := False,
             inflight := filter (\<lambda>(j, _). j \<noteq> i) (inflight s)\<rparr>
      else s)"

text \<open>The effect on \<open>[debouncedQuery]\<close>.\<close>

definition search_effect :: "search_bar \<Rightarrow> search_bar" where
  "search_effect s =
     (let q = settled (debouncer s) in
      if js_trim q \<noteq> [] then performSearch_start q s
      else s\<lparr>results := JArr [], isLoading := False\<rparr>)"

text \<open>The debounce timer fires with value \<open>v\<close>; the search effect runs when the
  debounced value changed.\<close>

definition debounced_update :: "string \<Rightarrow> search_bar \<Rightarrow> search_bar" where
  "debounced_update v s =
     (let s1 = s\<lparr>debouncer := debounce_fire v (debouncer s)\<rparr> in
      if v = settled (debouncer s) then s1 else search_effect s1)"

text \<open>\<open>setQuery(v)\<close>: a changed value re-runs the hook's effect, restarting the timer.\<close>

definition set_query :: "string \<Rightarrow> search_bar \<Rightarrow> search_bar" where
  "set_query v s =
     (if v = query s then s
      else s\<lparr>query := v, debouncer := debounce_change DEBOUNCE_MS (now s) v (debouncer s)\<rparr>)"

definition handleResultClick :: "json option \<Rightarrow> search_bar \<Rightarrow> search_bar" where
  "handleResultClick showId s =
     (let s1 = set_query [] (s\<lparr>isOpen := False\<rparr>) in
      s1\<lparr>closes := Suc (closes s1), pushed := pushed s1 @ [showId]\<rparr>)"

text \<open>\<open>handleSubmit\<close>: \<open>results[0].id\<close> throws on a \<open>null\<close> first result (no
  state change).\<close>

definition handleSubmit :: "search_bar \<Rightarrow> search_bar" where
  "handleSubmit s =
     (if 0 < results_length (results s)
      then (case first_result (results s) of
              Some x \<Rightarrow> (case json_prop x ''id'' of Inl _ \<Rightarrow> s | Inr i \<Rightarrow> handleResultClick i s)
            | None \<Rightarrow> handleResultClick None s)
      else s)"

text \<open>The dropdown is rendered when \<open>isOpen && (query || results.length > 0)\<close>.\<close>

definition dropdown_open :: "search_bar \<Rightarrow> bool" where
  "dropdown_open s \<longleftrightarrow> isOpen s \<and> (query s \<noteq> [] \<or> 0 < results_length (results s))"

subsection \<open>SearchResults: what the dropdown shows\<close>

datatype results_view =
    Searching
  | Start_typing
  | No_shows_found string
  | Result_list "json list"
  | Render_error

text \<open>In the source's order: loading first, then a blank query, then an empty (or
  falsy) result set, then the list; \<open>results.map\<close> on a string throws.\<close>

definition SearchResults :: "json \<Rightarrow> bool \<Rightarrow> string \<Rightarrow> results_view" where
  "SearchResults rs loading q =
     (if loading then Searching
      else if js_trim q = [] then Start_typing
      else if rs = JNull \<or> results_length rs = 0 then No_shows_found q
      else (case rs of JArr xs \<Rightarrow> Result_list xs | _ \<Rightarrow> Render_error))"

subsection \<open>Events\<close>

datatype sb_event =
    Type string
  | Focus
  | Outside_click
  | Clear_click
  | Tick ms
  | Respond nat "json option"
  | Result_click nat
  | Submit

text \<open>
  \<open>Type v\<close>: the input's \<open>onChange\<close> with new value \<open>v\<close>. \<open>Tick d\<close>: \<open>d\<close> ms pass,
  firing the debounce timer if it is due. \<open>Respond i r\<close>: request \<open>i\<close> completes.
  \<open>Result_click k\<close>: a click on the \<open>k\<close>-th button of the rendered list (only when the
  dropdown shows the list). \<open>Clear_click\<close>: the clear button, rendered only when the
  query is non-empty.
\<close>

fun sb_step :: "search_bar \<Rightarrow> sb_event \<Rightarrow> search_bar" where
  "sb_step s (Type v) = set_query v (s\<lparr>isOpen := True\<rparr>)"
| "sb_step s Focus = s\<lparr>isOpen := True\<rparr>"
| "sb_step s Outside_click = s\<lparr>isOpen := False\<rparr>"
| "sb_step s Clear_click =
     (if query s \<noteq> [] then (set_query [] s)\<lparr>results := JArr [], isOpen := False\<rparr> else s)"
| "sb_step s (Tick d) =
     (case debounce_due (now s + d) (debouncer s) of
        Some (_, v) \<Rightarrow> (debounced_update v s)\<lparr>now := now s + d\<rparr>
      | None \<Rightarrow> s\<lparr>now := now s + d\<rparr>)"
| "sb_step s (Respond i r) = performSearch_finish i r s"
| "sb_step s (Result_click k) =
     (if dropdown_open s
      then (case SearchResults (results s) (isLoading s) (query s) of
              Result_list xs \<Rightarrow>
                if k < length xs
                then (case json_prop (xs ! k) ''id'' of Inl _ \<Rightarrow> s | Inr i \<Rightarrow> handleResultClick i s)
                else s
            | _ \<Rightarrow> s)
      else s)"
| "sb_step s Submit = handleSubmit s"

fun sb_run :: "search_bar \<Rightarrow> sb_event list \<Rightarrow> search_bar" where
  "sb_run s [] = s"
| "sb_run s (e # es) = sb_run (sb_step s e) es"


subsection \<open>Scenarios: keystroke sequences\<close>

fun keystrokes :: "(string \<times> ms) list \<Rightarrow> sb_event list" where
  "keystrokes [] = []"
| "keystrokes ((v, d) # ks) = Type v # Tick d # keystrokes ks"

text \<open>Every keystroke changes the input's value (\<open>onChange\<close> fires on a change).\<close>

fun changes :: "string \<Rightarrow> string list \<Rightarrow> bool" where
  "changes q [] = True"
| "changes q (v # vs) = (v \<noteq> q \<and> changes v vs)"

subsection \<open>Step lemmas\<close>

lemma sb_run_append [simp]: "sb_run s (xs @ ys) = sb_run (sb_run s xs) ys"
  by (induction xs arbitrary: s) auto

lemma sb_step_Type_changed:
  "v \<noteq> query s \<Longrightarrow>
   sb_step s (Type v) =
     s\<lparr>isOpen := True, query := v, debouncer := debounce_change DEBOUNCE_MS (now s) v (debouncer s)\<rparr>"
  by (simp add: set_query_def)

lemma sb_step_Tick_quiet:
  "debounce_due (now s + d) (debouncer s) = None \<Longrightarrow> sb_step s (Tick d) = s\<lparr>now := now s + d\<rparr>"
  by simp

lemma sb_step_Tick_fire:
  "debounce_due (now s + d) (debouncer s) = Some (t, v) \<Longrightarrow>
   sb_step s (Tick d) = (debounced_update v s)\<lparr>now := now s + d\<rparr>"
  by simp

subsection \<open>Debounce: keystrokes within the quiet period\<close>

lemma keystrokes_quiet:
  assumes "changes (query s) (map fst ks)" and "\<forall>(v, d) \<in> set ks. d < DEBOUNCE_MS"
  shows "requests (sb_run s (keystrokes ks)) = requests s \<and>
         inflight (sb_run s (keystrokes ks)) = inflight s \<and>
         next_req (sb_run s (keystrokes ks)) = next_req s \<and>
         results (sb_run s (keystrokes ks)) = results s \<and>
         settled (debouncer (sb_run s (keystrokes ks))) = settled (debouncer s) \<and>
         query (sb_run s (keystrokes ks)) = last (query s # map fst ks)"
  using assms
proof (induction ks arbitrary: s)
  case Nil
  then show ?case by simp
next
  case (Cons k ks)
  obtain v d where k: "k = (v, d)" by (cases k)
  from Cons.prems k have ch: "v \<noteq> query s" and rest: "changes v (map fst ks)" and dq: "d < DEBOUNCE_MS"
    and pauses: "\<forall>(v, d) \<in> set ks. d < DEBOUNCE_MS"
    by auto
  let ?s1 = "s\<lparr>isOpen := True, query := v, debouncer := debounce_change DEBOUNCE_MS (now s) v (debouncer s)\<rparr>"
  have quiet: "debounce_due (now ?s1 + d) (debouncer ?s1) = None"
    using dq by simp
  have "sb_run s (keystrokes (k # ks)) = sb_run (sb_step (sb_step s (Type v)) (Tick d)) (keystrokes ks)"
    by (simp only: k keystrokes.simps sb_run.simps)
  also have "\<dots> = sb_run (?s1\<lparr>now := now s + d\<rparr>) (keystrokes ks)"
    by (simp only: sb_step_Type_changed [OF ch] sb_step_Tick_quiet [OF quiet]) simp
  finally have step: "sb_run s (keystrokes (k # ks)) = sb_run (?s1\<lparr>now := now s + d\<rparr>) (keystrokes ks)" .
  have "changes (query (?s1\<lparr>now := now s + d\<rparr>)) (map fst ks)" using rest by simp
  from Cons.IH [OF this pauses] show ?case
    unfolding step by (simp add: k)
qed


lemma changes_snoc: "changes q (xs @ [v]) \<longleftrightarrow> changes q xs \<and> v \<noteq> last (q # xs)"
  by (induction xs arbitrary: q) auto

lemma settle_run:
  assumes "v \<noteq> query s" and "DEBOUNCE_MS \<le> d"
  shows "sb_run s [Type v, Tick d] =
           (debounced_update v (s\<lparr>isOpen := True, query := v,
                debouncer := debounce_change DEBOUNCE_MS (now s) v (debouncer s)\<rparr>))\<lparr>now := now s + d\<rparr>"
proof -
  let ?s1 = "s\<lparr>isOpen := True, query := v, debouncer := debounce_change DEBOUNCE_MS (now s) v (debouncer s)\<rparr>"
  have due: "debounce_due (now ?s1 + d) (debouncer ?s1) = Some (now s + DEBOUNCE_MS, v)"
    using assms(2) by simp
  show ?thesis
    by (simp only: sb_run.simps sb_step_Type_changed [OF assms(1)] sb_step_Tick_fire [OF due]) simp
qed

lemma requests_debounced_update:
  "requests (debounced_update v s) =
     requests s @ (if js_trim v \<noteq> [] \<and> v \<noteq> settled (debouncer s) then [search_url v] else [])"
  by (simp add: debounced_update_def search_effect_def performSearch_start_def Let_def)

lemma results_debounced_update:
  "results (debounced_update v s) =
     (if js_trim v = [] \<and> v \<noteq> settled (debouncer s) then JArr [] else results s)"
  by (simp add: debounced_update_def search_effect_def performSearch_start_def Let_def)

lemma isLoading_debounced_update:
  "isLoading (debounced_update v s) =
     (if v = settled (debouncer s) then isLoading s else js_trim v \<noteq> [])"
  by (simp add: debounced_update_def search_effect_def performSearch_start_def Let_def)

text \<open>C4. No request is sent while keystrokes follow each other within the quiet period (500 ms), each changing the input.\<close>

theorem typing_sends_nothing:
  assumes "changes (query s) (map fst ks)" and "\<forall>(v, d) \<in> set ks. d < DEBOUNCE_MS"
  shows "requests (sb_run s (keystrokes ks)) = requests s"
  using keystrokes_quiet [OF assms] by blast

lemma typing_sends_nothing_witness:
  "requests (sb_run sb_init (keystrokes [(''t'', 120), (''th'', 300), (''the'', 499)])) = requests sb_init"
  by (rule typing_sends_nothing) (simp_all add: sb_init_def DEBOUNCE_MS_def)

text \<open>C5. After keystrokes within the quiet period, a last keystroke followed by a pause of at least 500 ms sends exactly one request, /api/search?q= with the settled value encoded, when that value is not blank and differs from the previous settled value, and none otherwise.\<close>

theorem settle_sends_one_request:
  assumes "changes (query s) (map fst ks @ [v])" and "\<forall>(u, e) \<in> set ks. e < DEBOUNCE_MS"
    and "DEBOUNCE_MS \<le> d"
  shows "requests (sb_run s (keystrokes ks @ [Type v, Tick d])) =
           requests s @ (if js_trim v \<noteq> [] \<and> v \<noteq> settled (debouncer s) then [search_url v] else [])"
proof -
  let ?s = "sb_run s (keystrokes ks)"
  from assms(1) have ch: "changes (query s) (map fst ks)" and v: "v \<noteq> last (query s # map fst ks)"
    by (simp_all add: changes_snoc)
  note q = keystrokes_quiet [OF ch assms(2)]
  from q v have "v \<noteq> query ?s" by simp
  from settle_run [OF this assms(3)] q show ?thesis
    by (simp add: requests_debounced_update)
qed

lemma settle_sends_one_request_witness:
  "requests (sb_run sb_init (keystrokes [(''t'', 120), (''th'', 300)] @ [Type ''the cr'', Tick 500])) =
     requests sb_init @
       (if js_trim ''the cr'' \<noteq> [] \<and> ''the cr'' \<noteq> settled (debouncer sb_init)
        then [search_url ''the cr''] else [])"
  by (rule settle_sends_one_request) (simp_all add: sb_init_def DEBOUNCE_MS_def)

text \<open>When the settled value is blank, the results are cleared, loading is off and no request is sent.\<close>

theorem blank_settle_clears:
  assumes "v \<noteq> query s" and "DEBOUNCE_MS \<le> d" and "js_trim v = []" and "v \<noteq> settled (debouncer s)"
  shows "requests (sb_run s [Type v, Tick d]) = requests s \<and>
         results (sb_run s [Type v, Tick d]) = JArr [] \<and> \<not> isLoading (sb_run s [Type v, Tick d])"
  unfolding settle_run [OF assms(1,2)] using assms
  by (simp add: requests_debounced_update results_debounced_update isLoading_debounced_update)

lemma blank_settle_clears_witness:
  "let s = sb_run sb_init [Type ''ab'', Tick 500] in
   requests (sb_run s [Type '' '', Tick 500]) = requests s \<and>
   results (sb_run s [Type '' '', Tick 500]) = JArr [] \<and> \<not> isLoading (sb_run s [Type '' '', Tick 500])"
  unfolding Let_def
proof (rule blank_settle_clears)
  show "'' '' \<noteq> query (sb_run sb_init [Type ''ab'', Tick 500])" by code_simp
  show "DEBOUNCE_MS \<le> 500" by (simp add: DEBOUNCE_MS_def)
  show "js_trim '' '' = []" by (simp add: js_trim_def is_js_space_def)
  show "'' '' \<noteq> settled (debouncer (sb_run sb_init [Type ''ab'', Tick 500]))" by code_simp
qed

subsection \<open>The results list holds at most eight entries\<close>

lemma results_length_slice: "results_length (slice_results r) \<le> 8"
  by (auto simp add: slice_results_def results_length_def split: option.split sum.split json.split)

lemma results_set_query [simp]: "results (set_query v s) = results s"
  by (simp add: set_query_def)

lemma results_handleResultClick [simp]: "results (handleResultClick i s) = results s"
  by (simp add: handleResultClick_def Let_def)

lemma results_handleSubmit [simp]: "results (handleSubmit s) = results s"
  by (simp add: handleSubmit_def split: option.split sum.split)

lemma results_sb_step_cases:
  "results (sb_step s e) = results s \<or> results (sb_step s e) = JArr [] \<or>
   (\<exists>r. results (sb_step s e) = slice_results r)"
proof (cases e)
  case (Tick d)
  then show ?thesis
    by (auto simp add: results_debounced_update split: option.split)
next
  case (Respond i r)
  then show ?thesis by (auto simp add: performSearch_finish_def)
next
  case (Result_click k)
  then show ?thesis
    by (auto split: results_view.split sum.split)
qed auto

lemma results_length_step:
  "results_length (results s) \<le> 8 \<Longrightarrow> results_length (results (sb_step s e)) \<le> 8"
  using results_sb_step_cases [of s e] results_length_slice
  by (auto simp add: results_length_def)

text \<open>C6. In every state reached from the mounted component the result list has at most eight entries.\<close>

theorem results_at_most_eight:
  "results_length (results (sb_run sb_init es)) \<le> 8"
proof -
  have "\<And>s. results_length (results s) \<le> 8 \<Longrightarrow> results_length (results (sb_run s es)) \<le> 8"
  proof (induction es)
    case Nil
    then show ?case by simp
  next
    case (Cons e es)
    then show ?case using results_length_step by simp
  qed
  then show ?thesis by (simp add: sb_init_def results_length_def)
qed


subsection \<open>Responses\<close>

text \<open>A response whose body has an array of results sets the result list to its first eight entries and turns loading off.\<close>

theorem response_keeps_first_eight:
  assumes "i \<in> set (map fst (inflight s))" and "map_of (rev kvs) ''results'' = Some (JArr xs)"
  shows "results (sb_step s (Respond i (Some (JObj kvs)))) = JArr (take 8 xs) \<and>
         \<not> isLoading (sb_step s (Respond i (Some (JObj kvs))))"
  using assms by (simp add: performSearch_finish_def slice_results_def)

lemma response_keeps_first_eight_witness:
  "let s = sb_run sb_init [Type ''a'', Tick 500] in
   results (sb_step s (Respond 0 (Some (JObj [(''results'', JArr (map JNum [1, 2, 3, 4, 5, 6, 7, 8, 9, 10]))])))) =
     JArr (take 8 (map JNum [1, 2, 3, 4, 5, 6, 7, 8, 9, 10])) \<and>
   \<not> isLoading (sb_step s (Respond 0 (Some (JObj [(''results'', JArr (map JNum [1, 2, 3, 4, 5, 6, 7, 8, 9, 10]))]))))"
  unfolding Let_def
proof (rule response_keeps_first_eight)
  show "0 \<in> set (map fst (inflight (sb_run sb_init [Type ''a'', Tick 500])))" by code_simp
  show "map_of (rev [(''results'', JArr (map JNum [1, 2, 3, 4, 5, 6, 7, 8, 9, 10]))]) ''results'' =
          Some (JArr (map JNum [1, 2, 3, 4, 5, 6, 7, 8, 9, 10]))" by simp
qed

text \<open>A request whose fetch or JSON decoding fails clears the result list and turns loading off.\<close>

theorem failed_response_clears:
  assumes "i \<in> set (map fst (inflight s))"
  shows "results (sb_step s (Respond i None)) = JArr [] \<and> \<not> isLoading (sb_step s (Respond i None))"
  using assms by (simp add: performSearch_finish_def slice_results_def)

lemma failed_response_clears_witness:
  "let s = sb_run sb_init [Type ''a'', Tick 500] in
   results (sb_step s (Respond 0 None)) = JArr [] \<and> \<not> isLoading (sb_step s (Respond 0 None))"
  unfolding Let_def
  by (rule failed_response_clears) code_simp

subsection \<open>Selecting a result, submitting\<close>

lemma handleResultClick_fields:
  "query (handleResultClick i s) = [] \<and> \<not> isOpen (handleResultClick i s) \<and>
   pushed (handleResultClick i s) = pushed s @ [i] \<and> closes (handleResultClick i s) = Suc (closes s)"
  by (simp add: handleResultClick_def set_query_def Let_def)

lemma sb_step_Result_click:
  assumes "dropdown_open s" and "\<not> isLoading s" and "js_trim (query s) \<noteq> []"
    and "results s = JArr xs" and "k < length xs" and "xs ! k = JObj kvs"
    and "map_of (rev kvs) ''id'' = Some i"
  shows "sb_step s (Result_click k) = handleResultClick (Some i) s"
proof -
  have "SearchResults (results s) (isLoading s) (query s) = Result_list xs"
    using assms(2-5) by (auto simp add: SearchResults_def results_length_def)
  then show ?thesis using assms(1,5-7) by simp
qed

text \<open>C9. Clicking a listed result clears the query, closes the dropdown, calls onClose and navigates to that show.\<close>

theorem result_click_navigates:
  assumes "dropdown_open s" and "\<not> isLoading s" and "js_trim (query s) \<noteq> []"
    and "results s = JArr xs" and "k < length xs" and "xs ! k = JObj kvs"
    and "map_of (rev kvs) ''id'' = Some i"
  shows "query (sb_step s (Result_click k)) = [] \<and> \<not> isOpen (sb_step s (Result_click k)) \<and>
         pushed (sb_step s (Result_click k)) = pushed s @ [Some i] \<and>
         closes (sb_step s (Result_click k)) = Suc (closes s)"
  unfolding sb_step_Result_click [OF assms] by (simp add: handleResultClick_fields)

lemma result_click_navigates_witness:
  "let s = sb_run sb_init [Type ''x'', Tick 500,
              Respond 0 (Some (JObj [(''results'', JArr [JObj [(''id'', JNum 42)]])]))] in
   query (sb_step s (Result_click 0)) = [] \<and> \<not> isOpen (sb_step s (Result_click 0)) \<and>
   pushed (sb_step s (Result_click 0)) = pushed s @ [Some (JNum 42)] \<and>
   closes (sb_step s (Result_click 0)) = Suc (closes s)"
  unfolding Let_def
proof (rule result_click_navigates)
  let ?s = "sb_run sb_init [Type ''x'', Tick 500,
              Respond 0 (Some (JObj [(''results'', JArr [JObj [(''id'', JNum 42)]])]))]"
  show "dropdown_open ?s" by code_simp
  show "\<not> isLoading ?s" by code_simp
  show "js_trim (query ?s) \<noteq> []" by code_simp
  show "results ?s = JArr [JObj [(''id'', JNum 42)]]" by code_simp
  show "0 < length [JObj [(''id'', JNum 42)]]" by simp
  show "[JObj [(''id'', JNum 42)]] ! 0 = JObj [(''id'', JNum 42)]" by simp
  show "map_of (rev [(''id'', JNum 42)]) ''id'' = Some (JNum 42)" by simp
qed

text \<open>Submitting the form with a non-empty result list selects the first result: the query is cleared, the dropdown closes and the first show is opened.\<close>

theorem submit_selects_first:
  assumes "results s = JArr (JObj kvs # xs)" and "map_of (rev kvs) ''id'' = Some i"
  shows "query (sb_step s Submit) = [] \<and> \<not> isOpen (sb_step s Submit) \<and>
         pushed (sb_step s Submit) = pushed s @ [Some i]"
proof -
  have "sb_step s Submit = handleResultClick (Some i) s"
    using assms by (simp add: handleSubmit_def results_length_def first_result_def)
  then show ?thesis by (simp add: handleResultClick_fields)
qed

lemma submit_selects_first_witness:
  "let s = sb_run sb_init [Type ''x'', Tick 500,
              Respond 0 (Some (JObj [(''results'', JArr [JObj [(''id'', JNum 42)], JObj [(''id'', JNum 43)]])]))] in
   query (sb_step s Submit) = [] \<and> \<not> isOpen (sb_step s Submit) \<and>
   pushed (sb_step s Submit) = pushed s @ [Some (JNum 42)]"
  unfolding Let_def
proof (rule submit_selects_first)
  show "results (sb_run sb_init [Type ''x'', Tick 500,
              Respond 0 (Some (JObj [(''results'', JArr [JObj [(''id'', JNum 42)], JObj [(''id'', JNum 43)]])]))])
        = JArr [JObj [(''id'', JNum 42)], JObj [(''id'', JNum 43)]]" by code_simp
  show "map_of (rev [(''id'', JNum 42)]) ''id'' = Some (JNum 42)" by simp
qed

text \<open>Submitting with an empty result list changes nothing and navigates nowhere.\<close>

theorem submit_without_results:
  "results_length (results s) = 0 \<Longrightarrow> sb_step s Submit = s"
  by (simp add: handleSubmit_def)

lemma submit_without_results_witness:
  "sb_step sb_init Submit = sb_init"
  by (rule submit_without_results) (simp add: sb_init_def results_length_def)

subsection \<open>Ordering of requests and responses\<close>

lemma inflight_set_query [simp]: "inflight (set_query v s) = inflight s \<and> pushed (set_query v s) = pushed s"
  by (simp add: set_query_def)

text \<open>C28. Responses are applied in the order they arrive, whatever the order of the
  requests: with two requests in flight, the first answer turns loading off while the other
  is still pending, and the answer that arrives last sets the results, even when it belongs
  to the other (older) query.\<close>

theorem out_of_order_responses:
  assumes "i \<in> set (map fst (inflight s))" and "j \<in> set (map fst (inflight s))" and "i \<noteq> j"
    and "json_prop bi ''results'' = Inr (Some (JArr xi))"
  shows "\<not> isLoading (sb_step s (Respond j rj)) \<and>
         i \<in> set (map fst (inflight (sb_step s (Respond j rj)))) \<and>
         results (sb_run s [Respond j rj, Respond i (Some bi)]) = JArr (take 8 xi)"
proof -
  let ?s1 = "sb_step s (Respond j rj)"
  have s1: "?s1 = s\<lparr>results := slice_results rj, isLoading := False,
                     inflight := filter (\<lambda>(k, _). k \<noteq> j) (inflight s)\<rparr>"
    using assms(2) by (simp add: performSearch_finish_def)
  have "i \<in> set (map fst (inflight ?s1))"
    using assms(1,3) unfolding s1 by force
  then show ?thesis
    using assms(4) s1 by (simp add: performSearch_finish_def slice_results_def)
qed

lemma out_of_order_responses_witness:
  "\<not> isLoading (sb_step (sb_run sb_init [Type ''ab'', Tick 500, Type ''abc'', Tick 500])
                  (Respond 1 (Some (JObj [(''results'', JArr [JNum 2])])))) \<and>
   0 \<in> set (map fst (inflight (sb_step (sb_run sb_init [Type ''ab'', Tick 500, Type ''abc'', Tick 500])
                  (Respond 1 (Some (JObj [(''results'', JArr [JNum 2])])))))) \<and>
   results (sb_run (sb_run sb_init [Type ''ab'', Tick 500, Type ''abc'', Tick 500])
     [Respond 1 (Some (JObj [(''results'', JArr [JNum 2])])), Respond 0 (Some (JObj [(''results'', JArr [JNum 1])]))]) =
     JArr (take 8 [JNum 1])"
  by (rule out_of_order_responses) code_simp+

text \<open>C29. Clear does not cancel a pending request: from any state with a non-empty query
  and a request in flight, Clear followed by that request's answer leaves the input empty
  but the list refilled, and Enter on the empty input then opens the first stale show.\<close>

theorem stale_result_after_clear:
  assumes "query s \<noteq> []" and "i \<in> set (map fst (inflight s))"
    and "json_prop b ''results'' = Inr (Some (JArr (x # xs)))" and "json_prop x ''id'' = Inr v"
  shows "query (sb_run s [Clear_click, Respond i (Some b)]) = [] \<and>
         results (sb_run s [Clear_click, Respond i (Some b)]) = JArr (take 8 (x # xs)) \<and>
         pushed (sb_step (sb_run s [Clear_click, Respond i (Some b)]) Submit) = pushed s @ [v]"
proof -
  let ?c = "sb_step s Clear_click"
  have c: "query ?c = [] \<and> inflight ?c = inflight s \<and> pushed ?c = pushed s"
    using assms(1) by (simp add: set_query_def)
  let ?r = "sb_step ?c (Respond i (Some b))"
  have r: "query ?r = [] \<and> results ?r = JArr (take 8 (x # xs)) \<and> pushed ?r = pushed s"
    using c assms(2,3) by (simp add: performSearch_finish_def slice_results_def)
  have "sb_step ?r Submit = handleResultClick v ?r"
    using r assms(4) by (simp add: handleSubmit_def results_length_def first_result_def)
  then show ?thesis
    using r by (simp add: handleResultClick_fields)
qed

lemma stale_result_after_clear_witness:
  "query (sb_run (sb_run sb_init [Type ''ab'', Tick 500])
            [Clear_click, Respond 0 (Some (JObj [(''results'', JArr [JObj [(''id'', JNum 7)]])]))]) = [] \<and>
   results (sb_run (sb_run sb_init [Type ''ab'', Tick 500])
            [Clear_click, Respond 0 (Some (JObj [(''results'', JArr [JObj [(''id'', JNum 7)]])]))]) =
     JArr (take 8 [JObj [(''id'', JNum 7)]]) \<and>
   pushed (sb_step (sb_run (sb_run sb_init [Type ''ab'', Tick 500])
            [Clear_click, Respond 0 (Some (JObj [(''results'', JArr [JObj [(''id'', JNum 7)]])]))]) Submit) =
     pushed (sb_run sb_init [Type ''ab'', Tick 500]) @ [Some (JNum 7)]"
  by (rule stale_result_after_clear) code_simp+

end
