(* ===== verification/Pages.thy ===== *)
theory Pages
  imports Tmdb
begin

text \<open>
  The server-rendered pages: \<^verbatim>\<open>app/tv/[id]/page.tsx\<close> (\<open>ShowPage\<close>), which reads
  the path segment with \<open>Number.parseInt\<close> and fetches the show and its first season
  together; \<^verbatim>\<open>app/page.tsx\<close> (\<open>HomePage\<close>), which fetches three lists together and
  hands the first five trending shows to the hero slider; and the older mock page
  \<^verbatim>\<open>app/show/[id]/page.tsx\<close> (\<open>MockShowPage\<close>), which looks the segment up in an
  object literal. \<open>Number.parseInt\<close> is modelled from ECMAScript (21.1.2.13); its
  result is kept as an integer (identifiers below 2^53 are exact in JavaScript).
\<close>

subsection \<open>\<open>Number.parseInt\<close> with no radix\<close>

definition radix_digit :: "nat \<Rightarrow> char \<Rightarrow> bool" where
  "radix_digit r c \<longleftrightarrow> (if r = 16 then is_hex c else is_digit c)"

definition digits_value :: "nat \<Rightarrow> string \<Rightarrow> nat" where
  "digits_value r ds = foldl (\<lambda>acc c. acc * r + hex_value c) 0 ds"

definition parseInt :: "string \<Rightarrow> int option" where
  "parseInt str =
     (let S = dropWhile is_js_space str;
          sign = (if S \<noteq> [] \<and> hd S = CHR ''-'' then -1 else 1 :: int);
          S1 = (if S \<noteq> [] \<and> (hd S = CHR ''+'' \<or> hd S = CHR ''-'') then tl S else S);
          (R, S2) = (if take 2 S1 = ''0x'' \<or> take 2 S1 = ''0X'' then (16, drop 2 S1) else (10, S1));
          Z = takeWhile (radix_digit R) S2
      in if Z = [] then None else Some (sign * int (digits_value R Z)))"

subsection \<open>The show page, \<^verbatim>\<open>app/tv/[id]/page.tsx\<close>\<close>

text \<open>What the server renders: the not-found view (\<open>notFound()\<close>, also from the
  \<open>catch\<close>), or the page with the show's details, the season's \<open>episodes\<close> and the
  show's \<open>name\<close> passed on (\<open>None\<close>: \<open>undefined\<close>).\<close>

datatype show_page = Not_found | Show_view json "json option" "json option"

definition ShowPage :: "tmdb_env \<Rightarrow> upstream \<Rightarrow> string \<Rightarrow> show_page" where
  "ShowPage env up params_id =
     (case parseInt params_id of
        None \<Rightarrow> Not_found
      | Some showId \<Rightarrow>
          (case (getShowDetails env up showId, getSeasonDetails env up showId 1) of
             (Inr showDetails, Inr seasonDetails) \<Rightarrow>
               (case (json_prop seasonDetails ''episodes'', json_prop showDetails ''name'') of
                  (Inr eps, Inr name) \<Rightarrow> Show_view showDetails eps name
                | _ \<Rightarrow> Not_found)
           | _ \<Rightarrow> Not_found))"

subsection \<open>The home page, \<^verbatim>\<open>app/page.tsx\<close>\<close>

text \<open>\<open>xs.slice(0, k)\<close> on what a list call resolved to: arrays and strings are
  cut, anything else (\<open>undefined\<close> included) throws (\<open>None\<close>).\<close>

definition js_slice_prefix :: "nat \<Rightarrow> json option \<Rightarrow> json option" where
  "js_slice_prefix k v = (case v of
      Some (JArr xs) \<Rightarrow> Some (JArr (take k xs))
    | Some (JStr t) \<Rightarrow> Some (JStr (take k t))
    | _ \<Rightarrow> None)"

text \<open>\<open>Promise.all\<close> of the three list calls: any rejection fails the page (the error
  page; which rejection is reported depends on timing, so none is kept). Otherwise the
  hero slider gets the first five trending shows and the carousels the three lists.\<close>

datatype home_page =
    Home_failed
  | Home_view (hero_shows: json) (trending: "json option") (top_rated: "json option")
      (airing_today: "json option")

definition HomePage :: "tmdb_env \<Rightarrow> upstream \<Rightarrow> home_page" where
  "HomePage env up =
     (case (getTrendingShows env up, getTopRatedShows env up, getAiringTodayShows env up) of
        (Inr trendingShows, Inr topRatedShows, Inr airingTodayShows) \<Rightarrow>
          (case js_slice_prefix 5 trendingShows of
             Some hero \<Rightarrow> Home_view hero trendingShows topRatedShows airingTodayShows
           | None \<Rightarrow> Home_failed)
      | _ \<Rightarrow> Home_failed)"

text \<open>The titles of the three carousels, in the page's order.\<close>

definition home_carousel_titles :: "string list" where
  "home_carousel_titles = [''Trending Now'', ''Top Rated'', ''Airing Today'']"

subsection \<open>The mock show page, \<^verbatim>\<open>app/show/[id]/page.tsx\<close>\<close>

text \<open>Reading a property of an object literal: an own property, else one inherited from
  \<open>Object.prototype\<close> (a function or the prototype object itself), else
  \<open>undefined\<close>.\<close>

definition object_prototype_keys :: "string list" where
  "object_prototype_keys =
     [''constructor'', ''__defineGetter__'', ''__defineSetter__'', ''hasOwnProperty'',
      ''__lookupGetter__'', ''__lookupSetter__'', ''isPrototypeOf'', ''propertyIsEnumerable'',
      ''toString'', ''valueOf'', ''__proto__'', ''toLocaleString'']"

datatype js_prop = Own json | Inherited string | Undefined

definition obj_get :: "(string \<times> json) list \<Rightarrow> string \<Rightarrow> js_prop" where
  "obj_get kvs k = (case map_of (rev kvs) k of
      Some v \<Rightarrow> Own v
    | None \<Rightarrow> if k \<in> set object_prototype_keys then Inherited k else Undefined)"

definition mockShows :: "(string \<times> json) list" where
  "mockShows = [(''1'', JObj [
        (''id'', JNum 1),
        (''title'', JStr ''Stranger Things''),
        (''poster'', JStr ''/placeholder.svg?height=600&width=400''),
        (''backdrop'', JStr ''/placeholder.svg?height=800&width=1400''),
        (''rating'', JNum (87 / 10)),
        (''year'', JNum 2016),
        (''genres'', JArr [JStr ''Drama'', JStr ''Fantasy'', JStr ''Horror'']),
        (''overview'', JStr ''When a young boy vanishes, a small town uncovers a mystery involving secret experiments, terrifying supernatural forces, and one strange little girl.''),
        (''episodes'', JArr [
          JObj [
            (''id'', JNum 1),
            (''title'', JStr ''Chapter One: The Vanishing of Will Byers''),
            (''overview'', JStr ''On his way home from a friend's house, young Will sees something terrifying. Nearby, a sinister secret lurks in the depths of a government lab.''),
            (''still'', JStr ''/placeholder.svg?height=400&width=700''),
            (''episode_number'', JNum 1),
            (''season_number'', JNum 1),
            (''runtime'', JNum 47)],
          JObj [
            (''id'', JNum 2),
            (''title'', JStr ''Chapter Two: The Weirdo on Maple Street''),
            (''overview'', JStr ''Lucas, Mike and Dustin try to talk to the girl they found in the woods. Hopper questions an anxious Joyce about an unsettling phone call.''),
            (''still'', JStr ''/placeholder.svg?height=400&width=700''),
            (''episode_number'', JNum 2),
            (''season_number'', JNum 1),
            (''runtime'', JNum 55)],
          JObj [
            (''id'', JNum 3),
            (''title'', JStr ''Chapter Three: Holly, Jolly''),
            (''overview'', JStr ''An increasingly concerned Nancy looks for Barb and finds out what Jonathan's been up to. Joyce is convinced Will is trying to talk to her.''),
            (''still'', JStr ''/placeholder.svg?height=400&width=700''),
            (''episode_number'', JNum 3),
            (''season_number'', JNum 1),
            (''runtime'', JNum 51)],
          JObj [
            (''id'', JNum 4),
            (''title'', JStr ''Chapter Four: The Body''),
            (''overview'', JStr ''Refusing to believe Will is dead, Joyce and Hopper team up to investigate what really happened. Nancy and Jonathan become unlikely allies.''),
            (''still'', JStr ''/placeholder.svg?height=400&width=700''),
            (''episode_number'', JNum 4),
            (''season_number'', JNum 1),
            (''runtime'', JNum 50)],
          JObj [
            (''id'', JNum 5),
            (''title'', JStr ''Chapter Five: Dig Dug''),
            (''overview'', JStr ''Nancy and Jonathan swap conspiracy theories with a new ally as Eleven searches for someone from her past. Bob sees into the future.''),
            (''still'', JStr ''/placeholder.svg?height=400&width=700''),
            (''episode_number'', JNum 5),
            (''season_number'', JNum 2),
            (''runtime'', JNum 57)],
          JObj [
            (''id'', JNum 6),
            (''title'', JStr ''Chapter Six: The Spy''),
            (''overview'', JStr ''Will's connection to a shadowy evil grows stronger but no one's quite sure how to stop it. Elsewhere, Dustin and Steve forge an unlikely bond.''),
            (''still'', JStr ''/placeholder.svg?height=400&width=700''),
            (''episode_number'', JNum 6),
            (''season_number'', JNum 2),
            (''runtime'', JNum 52)]])])]"

text \<open>\<open>const show = mockShows[params.id]; if (!show) notFound()\<close>; an inherited
  property is truthy, so the page is rendered with it as the show.\<close>

datatype mock_page = Mock_not_found | Mock_view json | Mock_prototype string

definition MockShowPage :: "string \<Rightarrow> mock_page" where
  "MockShowPage params_id = (case obj_get mockShows params_id of
      Own v \<Rightarrow> if json_truthy v then Mock_view v else Mock_not_found
    | Inherited k \<Rightarrow> Mock_prototype k
    | Undefined \<Rightarrow> Mock_not_found)"

subsection \<open>Properties of \<open>Number.parseInt\<close>\<close>

lemma digits_value_snoc [simp]: "digits_value r (xs @ [c]) = digits_value r xs * r + hex_value c"
  by (simp add: digits_value_def)

lemma hex_value_digit [simp]: "(d::nat) < 10 \<Longrightarrow> hex_value (char_of (48 + d)) = d"
  by (simp add: hex_value_def)

lemma digits_value_nat_to_string: "digits_value 10 (nat_to_string n) = n"
proof (induction n rule: nat_to_string.induct)
  case (1 n)
  show ?case
  proof (cases "n < 10")
    case True
    then show ?thesis by (simp add: nat_to_string.simps digits_value_def)
  next
    case False
    then have "digits_value 10 (nat_to_string n) = n div 10 * 10 + n mod 10"
      using 1 by (simp add: nat_to_string.simps [of n])
    then show ?thesis by simp
  qed
qed

lemma nat_to_string_digits_all: "\<forall>c \<in> set (nat_to_string n). is_digit c"
  using nat_to_string_digits by blast

lemma not_digit_x: "\<not> is_digit CHR ''x''" "\<not> is_digit CHR ''X''" "\<not> is_digit CHR ''-''"
    "\<not> is_js_space CHR ''-''"
  by (simp_all add: is_digit_def is_js_space_def)

lemma digit_not_space: "is_digit c \<Longrightarrow> \<not> is_js_space c"
  by (auto simp add: is_digit_def is_js_space_def)

lemma digit_not_sign: "is_digit c \<Longrightarrow> c \<noteq> CHR ''-'' \<and> c \<noteq> CHR ''+''"
  by (auto simp add: is_digit_def)

lemma no_hex_prefix:
  assumes "\<forall>c \<in> set ds. is_digit c"
  shows "take 2 ds \<noteq> ''0x'' \<and> take 2 ds \<noteq> ''0X''"
proof -
  have "CHR ''x'' \<notin> set ds" "CHR ''X'' \<notin> set ds"
    using assms not_digit_x by blast+
  then show ?thesis by (metis in_set_takeD list.set_intros(1) list.set_intros(2))
qed

lemma parseInt_nat_to_string: "parseInt (nat_to_string n) = Some (int n)"
proof -
  let ?s = "nat_to_string n"
  have d: "\<forall>c \<in> set ?s. is_digit c" by (rule nat_to_string_digits_all)
  have ne: "?s \<noteq> []" by (rule nat_to_string_not_Nil)
  have hd: "is_digit (hd ?s)" using d ne by simp
  have sp: "dropWhile is_js_space ?s = ?s"
    using ne hd digit_not_space by (cases ?s) auto
  have tw: "takeWhile (radix_digit 10) ?s = ?s"
    using d by (simp add: radix_digit_def)
  show ?thesis
    using sp ne hd digit_not_sign [OF hd] no_hex_prefix [OF d]
    by (simp add: parseInt_def Let_def digits_value_nat_to_string tw del: takeWhile_eq_all_conv)
qed

lemma parseInt_int_to_string: "parseInt (int_to_string i) = Some i"
proof (cases "i < 0")
  case False
  then show ?thesis by (simp add: int_to_string_def parseInt_nat_to_string)
next
  case True
  let ?s = "nat_to_string (nat (- i))"
  have d: "\<forall>c \<in> set ?s. is_digit c" by (rule nat_to_string_digits_all)
  have ne: "?s \<noteq> []" by (rule nat_to_string_not_Nil)
  have tw: "takeWhile (radix_digit 10) ?s = ?s"
    using d by (simp add: radix_digit_def)
  show ?thesis
    using True ne not_digit_x no_hex_prefix [OF d]
    by (simp add: int_to_string_def parseInt_def Let_def digits_value_nat_to_string tw
             del: takeWhile_eq_all_conv)
qed

subsection \<open>Properties of the pages\<close>

lemma ShowPage_parsed:
  "parseInt p = Some n \<Longrightarrow>
   ShowPage env up p =
     (case (getShowDetails env up n, getSeasonDetails env up n 1) of
        (Inr d, Inr sd) \<Rightarrow>
          (case (json_prop sd ''episodes'', json_prop d ''name'') of
             (Inr eps, Inr nm) \<Rightarrow> Show_view d eps nm
           | _ \<Rightarrow> Not_found)
      | _ \<Rightarrow> Not_found)"
  by (simp add: ShowPage_def)

text \<open>C10. A path segment that \<open>Number.parseInt\<close> reads as NaN gives the not-found page, whatever the upstream: no show is fetched (the spec's \<^verbatim>\<open>/tv/abc\<close> example).\<close>

theorem show_page_not_a_number:
  "parseInt params_id = None \<Longrightarrow> ShowPage env up params_id = Not_found"
  by (simp add: ShowPage_def)

lemma show_page_not_a_number_witness:
  "ShowPage \<lparr>V3_KEY = Some ''k'', V4_TOKEN = None\<rparr> (\<lambda>_. None) ''abc'' = Not_found"
  by (rule show_page_not_a_number) code_simp

text \<open>C13. The page at \<^verbatim>\<open>/tv/${id}\<close>, the link every component builds from a show id, reads back exactly that id: when the show and its first season are fetched, the page shows them.\<close>

theorem show_page_link:
  assumes "getShowDetails env up i = Inr d" and "getSeasonDetails env up i 1 = Inr sd"
    and "json_prop sd ''episodes'' = Inr eps" and "json_prop d ''name'' = Inr nm"
  shows "ShowPage env up (int_to_string i) = Show_view d eps nm"
  using assms by (simp add: ShowPage_parsed [OF parseInt_int_to_string])

text \<open>A failure of either fetch (credential, network, status, decoding) gives the not-found page.\<close>

theorem show_page_fetch_error:
  assumes "parseInt p = Some n"
    and "getShowDetails env up n = Inl e \<or> getSeasonDetails env up n 1 = Inl e"
  shows "ShowPage env up p = Not_found"
  using assms(2) by (auto simp add: ShowPage_parsed [OF assms(1)] split: sum.split)

text \<open>C30. \<open>Number.parseInt\<close> accepts a numeric prefix: \<^verbatim>\<open>/tv/12abc\<close> is the page of show 12, and hexadecimal, fractional and space-padded segments are read as numbers.\<close>

theorem show_page_lenient_ids:
  "parseInt ''12abc'' = Some 12 \<and> parseInt ''0x1A'' = Some 26 \<and> parseInt ''1.5'' = Some 1 \<and>
   parseInt '' -7'' = Some (-7) \<and> ShowPage env up ''12abc'' = ShowPage env up ''12''"
proof -
  have a: "parseInt ''12abc'' = Some 12" by code_simp
  have b: "parseInt ''12'' = Some 12" by code_simp
  have "parseInt ''0x1A'' = Some 26" "parseInt ''1.5'' = Some 1" "parseInt '' -7'' = Some (-7)"
    by code_simp+
  with a b show ?thesis by (simp add: ShowPage_parsed)
qed

text \<open>The home page is rendered exactly when all three list calls succeed and the trending list can be sliced; it then passes the three lists on unchanged.\<close>

theorem home_page_view:
  "HomePage env up = Home_view h t r a \<longleftrightarrow>
     getTrendingShows env up = Inr t \<and> getTopRatedShows env up = Inr r \<and>
     getAiringTodayShows env up = Inr a \<and> js_slice_prefix 5 t = Some h"
  by (auto simp add: HomePage_def split: sum.split option.split)

lemma js_slice_prefix_length:
  "js_slice_prefix k v = Some h \<Longrightarrow>
   (\<exists>xs. h = JArr xs \<and> length xs \<le> k) \<or> (\<exists>s. h = JStr s \<and> length s \<le> k)"
  by (auto simp add: js_slice_prefix_def split: option.splits json.splits)

text \<open>The hero slider receives at most five shows.\<close>

theorem home_hero_at_most_five:
  "HomePage env up = Home_view h t r a \<Longrightarrow>
   (\<exists>xs. h = JArr xs \<and> length xs \<le> 5) \<or> (\<exists>s. h = JStr s \<and> length s \<le> 5)"
  by (rule js_slice_prefix_length)
     (auto simp add: HomePage_def split: sum.splits option.splits)

text \<open>Without credentials the home page fails and every show page is not found, whatever the upstream.\<close>

theorem pages_without_credentials:
  assumes "\<not> env_truthy (V3_KEY env)" and "\<not> env_truthy (V4_TOKEN env)"
  shows "HomePage env up = Home_failed \<and> ShowPage env up p = Not_found"
  using assms
  by (simp add: HomePage_def ShowPage_def getTrendingShows_def getTopRatedShows_def
      getAiringTodayShows_def getShowDetails_def getSeasonDetails_def then_results_def tmdbFetch_def
      split: option.split)

text \<open>The mock page shows its one show under \<^verbatim>\<open>/show/1\<close>; any other segment is not found, except the names of \<open>Object.prototype\<close>'s properties.\<close>

theorem mock_page_lookup:
  "MockShowPage ''1'' = Mock_view (the (map_of mockShows ''1'')) \<and>
   (MockShowPage params_id = Mock_not_found \<longleftrightarrow>
      params_id \<noteq> ''1'' \<and> params_id \<notin> set object_prototype_keys)"
  by (auto simp add: MockShowPage_def obj_get_def mockShows_def)

text \<open>\<^verbatim>\<open>/show/constructor\<close>, \<^verbatim>\<open>/show/__proto__\<close> and \<^verbatim>\<open>/show/toString\<close> pass the \<open>!show\<close> check with an inherited property and render the page with it.\<close>

theorem mock_page_prototype_keys:
  "MockShowPage ''constructor'' = Mock_prototype ''constructor'' \<and>
   MockShowPage ''__proto__'' = Mock_prototype ''__proto__'' \<and>
   MockShowPage ''toString'' = Mock_prototype ''toString''"
  by (simp add: MockShowPage_def obj_get_def mockShows_def object_prototype_keys_def)

lemma show_page_link_witness:
  "ShowPage \<lparr>V3_KEY = Some ''k'', V4_TOKEN = None\<rparr>
     (\<lambda>_. Some \<lparr>res_status = 200, res_body = Some (JObj [(''name'', JStr ''X''), (''episodes'', JArr [])])\<rparr>)
     (int_to_string 7) =
   Show_view (JObj [(''name'', JStr ''X''), (''episodes'', JArr [])]) (Some (JArr [])) (Some (JStr ''X''))"
  by (rule show_page_link) code_simp+

lemma show_page_fetch_error_witness:
  "ShowPage \<lparr>V3_KEY = Some ''k'', V4_TOKEN = None\<rparr>
     (\<lambda>_. Some \<lparr>res_status = 404, res_body = None\<rparr>) ''42'' = Not_found"
  by (rule show_page_fetch_error [where n = 42 and e = "Http_error 404"]) code_simp+

lemma home_hero_at_most_five_witness:
  "(\<exists>xs. JArr (map JNum [1, 2, 3, 4, 5]) = JArr xs \<and> length xs \<le> 5) \<or>
   (\<exists>s. JArr (map JNum [1, 2, 3, 4, 5]) = JStr s \<and> length s \<le> 5)"
  by (rule home_hero_at_most_five
        [where env = "\<lparr>V3_KEY = Some ''k'', V4_TOKEN = None\<rparr>"
           and up = "\<lambda>_. Some \<lparr>res_status = 200,
                      res_body = Some (JObj [(''results'', JArr (map JNum [1, 2, 3, 4, 5, 6, 7]))])\<rparr>"
           and t = "Some (JArr (map JNum [1, 2, 3, 4, 5, 6, 7]))"
           and r = "Some (JArr (map JNum [1, 2, 3, 4, 5, 6, 7]))"
           and a = "Some (JArr (map JNum [1, 2, 3, 4, 5, 6, 7]))"])
     code_simp

lemma pages_without_credentials_witness:
  "HomePage \<lparr>V3_KEY = None, V4_TOKEN = Some []\<rparr> (\<lambda>_. None) = Home_failed \<and>
   ShowPage \<lparr>V3_KEY = None, V4_TOKEN = Some []\<rparr> (\<lambda>_. None) ''1'' = Not_found"
  by (rule pages_without_credentials) simp_all

end
