(* ===== verification/Render.thy ===== *)
theory Render
  imports Pages
begin

text \<open>
  What the components print, modelled from ECMAScript and React: \<open>toFixed(1)\<close>,
  \<open>Number::toString\<close>, \<open>new Date(string)\<close> on date-only strings and
  \<open>getFullYear\<close> (the local time zone is an input, its offset from UTC in minutes),
  a value in a template literal (\<open>js_text\<close>) and as a JSX child (\<open>jsx_text\<close>),
  \<open>cond && element\<close> (\<open>jsx_and\<close>), and the TMDB image URLs with their placeholders.
  \<open>toLocaleDateString\<close> in the \<open>en-US\<close> locale. A rendered piece of text is a
  \<open>label\<close>. Used by the cards, show headers, the hero
  slider and the episode viewer.
\<close>

subsection \<open>\<open>Number.prototype.toFixed(1)\<close>\<close>

text \<open>ECMAScript 21.1.3.3 with one fraction digit: the integer \<open>n\<close> with \<open>n / 10\<close>
  nearest \<open>x\<close> (the larger one on a tie), its digits with a zero in front when there is
  only one, and the point before the last digit. \<open>None\<close>: \<open>|x| \<ge> 10^21\<close>, printed in
  exponent form, outside the model. The value is the exact rational (a double's binary
  rounding is not modelled).\<close>

definition toFixed1 :: "rat \<Rightarrow> string option" where
  "toFixed1 x =
     (if 10 ^ 21 \<le> \<bar>x\<bar> then None
      else (let s = (if x < 0 then ''-'' else []);
                n = nat \<lfloor>\<bar>x\<bar> * 10 + 1 / 2\<rfloor>;
                m = nat_to_string n;
                m' = (if length m \<le> 1 then replicate (2 - length m) CHR ''0'' @ m else m)
            in Some (s @ take (length m' - 1) m' @ ''.'' @ drop (length m' - 1) m')))"

subsection \<open>\<open>new Date(value).getFullYear()\<close>\<close>

text \<open>A date-only string \<open>YYYY\<close>, \<open>YYYY-MM\<close> or \<open>YYYY-MM-DD\<close> is a UTC midnight
  (ECMAScript 21.4.1.32); the empty string is an invalid date. Other strings (with a
  time, or days past the month's end) go to implementation-specific parsing and are
  outside the model (\<open>None\<close>).\<close>

datatype date_value = Invalid_date | Utc_day int nat nat

definition digits_nat :: "string \<Rightarrow> nat option" where
  "digits_nat ds = (if ds \<noteq> [] \<and> (\<forall>c \<in> set ds. is_digit c) then Some (digits_value 10 ds) else None)"

definition days_in_month :: "int \<Rightarrow> nat \<Rightarrow> nat" where
  "days_in_month y m =
     (if m = 2 then (if (y mod 4 = 0 \<and> y mod 100 \<noteq> 0) \<or> y mod 400 = 0 then 29 else 28)
      else if m \<in> {4, 6, 9, 11} then 30 else 31)"

definition parse_date_only :: "string \<Rightarrow> date_value option" where
  "parse_date_only str =
     (if str = [] then Some Invalid_date
      else if length str \<notin> {4, 7, 10} then None
      else (case (digits_nat (take 4 str),
                  if length str \<ge> 7 then digits_nat (take 2 (drop 5 str)) else Some 1,
                  if length str = 10 then digits_nat (drop 8 str) else Some 1) of
              (Some y, Some m, Some d) \<Rightarrow>
                if (length str \<ge> 7 \<longrightarrow> str ! 4 = CHR ''-'') \<and> (length str = 10 \<longrightarrow> str ! 7 = CHR ''-'') \<and>
                   1 \<le> m \<and> m \<le> 12 \<and> 1 \<le> d \<and> d \<le> days_in_month (int y) m
                then Some (Utc_day (int y) m d) else None
            | _ \<Rightarrow> None))"

text \<open>\<open>new Date(v)\<close> for what a show's date field holds: \<open>undefined\<close> is NaN, \<open>null\<close>
  is the time value 0 (1970-01-01, UTC midnight), a string is parsed.\<close>

definition js_new_Date :: "json option \<Rightarrow> date_value option" where
  "js_new_Date v = (case v of
      None \<Rightarrow> Some Invalid_date
    | Some JNull \<Rightarrow> Some (Utc_day 1970 1 1)
    | Some (JStr s) \<Rightarrow> parse_date_only s
    | _ \<Rightarrow> None)"

text \<open>\<open>getFullYear\<close> reads the year in local time: a UTC midnight seen at a negative
  offset (within a day) is the evening before. \<open>None\<close> is NaN.\<close>

definition getFullYear :: "int \<Rightarrow> date_value \<Rightarrow> int option" where
  "getFullYear offset d = (case d of
      Invalid_date \<Rightarrow> None
    | Utc_day y m day \<Rightarrow> Some (if offset < 0 \<and> m = 1 \<and> day = 1 then y - 1 else y))"

text \<open>A number in JSX text: an integer is printed, NaN as \<^verbatim>\<open>NaN\<close>.\<close>

definition year_text :: "int option \<Rightarrow> string" where
  "year_text y = (case y of None \<Rightarrow> ''NaN'' | Some i \<Rightarrow> int_to_string i)"

subsection \<open>Labels\<close>

text \<open>What a JSX expression renders: text, nothing (\<open>cond && ...\<close> false), or a
  failure of the render (a \<open>TypeError\<close>, or a value outside the model).\<close>

datatype label = Label string | No_label | Render_fail

text \<open>\<open>Number::toString\<close> (ECMAScript 6.1.6.1.20): an integer of at most \<open>2^53\<close> is
  printed exactly; a non-integer of at least \<open>10^-6\<close> whose decimal expansion ends within
  15 significant digits is printed as that expansion (a double's shortest round-trip digits
  are those digits). Other numbers (exponent forms, long expansions) are outside the model.\<close>

definition num_text :: "rat \<Rightarrow> string option" where
  "num_text r =
     (if r = of_int \<lfloor>r\<rfloor> then (if \<bar>r\<bar> \<le> 2 ^ 53 then Some (int_to_string \<lfloor>r\<rfloor>) else None)
      else (case find (\<lambda>k. \<bar>r\<bar> * 10 ^ k = of_int \<lfloor>\<bar>r\<bar> * 10 ^ k\<rfloor>) [1..<16] of
              None \<Rightarrow> None
            | Some k \<Rightarrow>
                let n = nat \<lfloor>\<bar>r\<bar> * 10 ^ k\<rfloor>;
                    m = nat_to_string n;
                    m' = replicate (Suc k - length m) CHR ''0'' @ m
                in if length m \<le> 15 \<and> 1 / 10 ^ 6 \<le> \<bar>r\<bar>
                   then Some ((if r < 0 then ''-'' else []) @ take (length m' - k) m' @ ''.'' @
                              drop (length m' - k) m')
                   else None))"

text \<open>A value in a template literal (\<open>String(v)\<close>): strings as they are, numbers by
  \<^const>\<open>num_text\<close>, \<open>undefined\<close> and \<open>null\<close> by name; objects and arrays
  are outside the model.\<close>

definition js_text :: "json option \<Rightarrow> string option" where
  "js_text v = (case v of
      None \<Rightarrow> Some ''undefined''
    | Some JNull \<Rightarrow> Some ''null''
    | Some (JStr t) \<Rightarrow> Some t
    | Some (JNum r) \<Rightarrow> num_text r
    | Some (JBool b) \<Rightarrow> Some (if b then ''true'' else ''false'')
    | _ \<Rightarrow> None)"

text \<open>A value as a JSX child: \<open>undefined\<close>, \<open>null\<close> and booleans render nothing,
  strings and numbers as text; an object is not a valid React child (the render fails),
  and arrays are outside the model.\<close>

definition jsx_text :: "json option \<Rightarrow> string option" where
  "jsx_text v = (case v of
      None \<Rightarrow> Some []
    | Some JNull \<Rightarrow> Some []
    | Some (JBool _) \<Rightarrow> Some []
    | Some (JStr t) \<Rightarrow> Some t
    | Some (JNum r) \<Rightarrow> num_text r
    | _ \<Rightarrow> None)"

definition label_of :: "string option \<Rightarrow> label" where
  "label_of t = (case t of Some x \<Rightarrow> Label x | None \<Rightarrow> Render_fail)"

text \<open>A field of the show (\<open>show.f\<close>; a show that is not an object fails).\<close>

definition field :: "json \<Rightarrow> string \<Rightarrow> json option option" where
  "field sh f = (case json_prop sh f of Inl _ \<Rightarrow> None | Inr v \<Rightarrow> Some v)"

text \<open>\<open>{show.f}\<close> as a JSX child.\<close>

definition jsx_field :: "json \<Rightarrow> string \<Rightarrow> label" where
  "jsx_field sh f = (case field sh f of None \<Rightarrow> Render_fail | Some v \<Rightarrow> label_of (jsx_text v))"

text \<open>\<open>cond && element\<close> as a JSX child: the element when \<open>cond\<close> is truthy;
  otherwise \<open>cond\<close> itself is rendered, which shows a number (\<open>0\<close>) and nothing
  for the other falsy values.\<close>

definition jsx_and :: "json option \<Rightarrow> label \<Rightarrow> label" where
  "jsx_and v l = (if opt_truthy v then l else case v of Some (JNum r) \<Rightarrow> label_of (num_text r) | _ \<Rightarrow> No_label)"

text \<open>An image on the TMDB CDN at a given size, or a placeholder when the path is falsy:
  \<open>path ? `https://image.tmdb.org/t/p/${size}${path}` : placeholder\<close>.\<close>

definition tmdb_image :: "string \<Rightarrow> string \<Rightarrow> json option \<Rightarrow> label" where
  "tmdb_image sz placeholder v =
     (if opt_truthy v then label_of (map_option (\<lambda>t. ''https://image.tmdb.org/t/p/'' @ sz @ t) (js_text v))
      else Label placeholder)"

text \<open>A label with its text changed (JSX text around an expression).\<close>

definition label_map :: "(string \<Rightarrow> string) \<Rightarrow> label \<Rightarrow> label" where
  "label_map f l = (case l of Label t \<Rightarrow> Label (f t) | _ \<Rightarrow> l)"

text \<open>The local calendar day of a date value: a UTC midnight seen at a negative offset
  (within a day) is the day before. \<open>None\<close>: an invalid date.\<close>

definition prev_day :: "int \<Rightarrow> nat \<Rightarrow> nat \<Rightarrow> int \<times> nat \<times> nat" where
  "prev_day y m d =
     (if 1 < d then (y, m, d - 1)
      else if 1 < m then (y, m - 1, days_in_month y (m - 1))
      else (y - 1, 12, 31))"

definition local_day :: "int \<Rightarrow> date_value \<Rightarrow> (int \<times> nat \<times> nat) option" where
  "local_day offset dv = (case dv of
      Invalid_date \<Rightarrow> None
    | Utc_day y m d \<Rightarrow> Some (if offset < 0 then prev_day y m d else (y, m, d)))"

text \<open>\<open>Date.prototype.toLocaleDateString()\<close> in the \<open>en-US\<close> locale:
  month/day/year of the local day.\<close>

definition toLocaleDateString :: "int \<Rightarrow> date_value \<Rightarrow> string" where
  "toLocaleDateString offset dv = (case local_day offset dv of
      None \<Rightarrow> ''Invalid Date''
    | Some (y, m, d) \<Rightarrow> nat_to_string m @ ''/'' @ nat_to_string d @ ''/'' @ int_to_string y)"

subsection \<open>Properties of the printing functions\<close>

lemma char_of_48: "char_of (48::nat) = CHR ''0''"
  by code_simp

lemma point_before_last: "take (length (xs @ [c]) - 1) (xs @ [c]) @ ''.'' @ drop (length (xs @ [c]) - 1) (xs @ [c]) =
    xs @ ''.'' @ [c]"
  by simp

lemma nat_to_string_padded:
  "(if length (nat_to_string n) \<le> 1 then replicate (2 - length (nat_to_string n)) CHR ''0'' @ nat_to_string n
    else nat_to_string n) = nat_to_string (n div 10) @ [char_of (48 + n mod 10)]"
proof (cases "n < 10")
  case True
  then show ?thesis by (simp add: nat_to_string.simps char_of_48)
next
  case False
  then have eq: "nat_to_string n = nat_to_string (n div 10) @ [char_of (48 + n mod 10)]"
    by (simp add: nat_to_string.simps [of n])
  have "nat_to_string (n div 10) \<noteq> []" by (rule nat_to_string_not_Nil)
  then have "\<not> length (nat_to_string n) \<le> 1" unfolding eq by (cases "nat_to_string (n div 10)") auto
  then show ?thesis using eq by simp
qed

lemma toFixed1_nonneg:
  assumes "0 \<le> r" and "r < 10 ^ 21"
  shows "toFixed1 r = Some (nat_to_string (nat \<lfloor>r * 10 + 1 / 2\<rfloor> div 10) @ ''.'' @
                            [char_of (48 + nat \<lfloor>r * 10 + 1 / 2\<rfloor> mod 10)])"
  using assms unfolding toFixed1_def Let_def nat_to_string_padded point_before_last by simp

lemma toFixed1_nearest:
  assumes "0 \<le> r" and "r < 10 ^ 21"
  shows "\<exists>q d. toFixed1 r = Some (nat_to_string q @ ''.'' @ [char_of (48 + d)]) \<and> d < 10 \<and>
               \<bar>of_nat (10 * q + d) / 10 - r\<bar> \<le> 1 / 20"
proof -
  let ?x = "r * 10 + 1 / 2"
  let ?n = "nat \<lfloor>?x\<rfloor>"
  have pos: "0 \<le> \<lfloor>?x\<rfloor>" using assms(1) by simp
  have lo: "of_int \<lfloor>?x\<rfloor> \<le> ?x" and hi: "?x < of_int \<lfloor>?x\<rfloor> + 1"
    using floor_correct [of ?x] by simp_all
  have n: "(of_nat ?n :: rat) = of_int \<lfloor>?x\<rfloor>" using pos by simp
  have "10 * (?n div 10) + ?n mod 10 = ?n" by simp
  then have "\<bar>of_nat (10 * (?n div 10) + ?n mod 10) / 10 - r\<bar> = \<bar>of_int \<lfloor>?x\<rfloor> / 10 - r\<bar>"
    using n by simp
  also have "\<dots> \<le> 1 / 20"
  proof -
    define F where "F = (of_int \<lfloor>?x\<rfloor> :: rat)"
    have "F - 10 * r \<le> 1 / 2" "- (1 / 2) \<le> F - 10 * r" using lo hi unfolding F_def by linarith+
    then have a: "\<bar>F - 10 * r\<bar> \<le> 1 / 2" by (intro abs_leI) linarith+
    have e: "F / 10 - r = (F - 10 * r) / 10" by (simp add: field_simps)
    have "\<bar>F / 10 - r\<bar> = \<bar>F - 10 * r\<bar> / 10" by (subst e) (simp only: abs_divide abs_numeral)
    then have "\<bar>F / 10 - r\<bar> \<le> 1 / 20" using a by simp
    then show ?thesis unfolding F_def .
  qed
  finally show ?thesis
    using toFixed1_nonneg [OF assms] by (intro exI [of _ "?n div 10"] exI [of _ "?n mod 10"]) simp
qed

lemma parse_date_only_nonempty: "parse_date_only s = Some (Utc_day y m d) \<Longrightarrow> s \<noteq> []"
  by (auto simp add: parse_date_only_def)

lemma num_text_int: "\<bar>of_int i :: rat\<bar> \<le> 2 ^ 53 \<Longrightarrow> num_text (of_int i) = Some (int_to_string i)"
  by (simp add: num_text_def)

end
