(* ===== verification/EpisodeViewer.thy ===== *)
theory EpisodeViewer
  imports Render "HOL-Library.Product_Lexorder"
begin

text \<open>
  The episode viewers: \<^verbatim>\<open>components/EpisodeViewer.tsx\<close> and the older
  \<^verbatim>\<open>components/episode-viewer.tsx\<close>. Both select, on every scroll of the episode
  list, the episode whose box centre is nearest the container's centre, by one
  \<open>forEach\<close> loop (\<open>closest_loop\<close>); the loop is proved equal to the least pair of
  distance and index (\<open>closest_ref\<close>). The newer viewer also keeps a scrolling flag
  that a 150 ms timeout clears; its state is a record and its events are scrolls and
  elapsed milliseconds. Layout values (\<open>scrollTop\<close>, \<open>offsetTop\<close>, heights) are
  rationals. What each viewer renders from its state is a record of labels
  (\<open>EpisodeViewer_render\<close>, \<open>LegacyEpisodeViewer\<close>).
\<close>

subsection \<open>The closest episode\<close>

text \<open>A rendered episode's box: \<open>offsetTop\<close> and \<open>clientHeight\<close>; \<open>None\<close> is a
  \<open>null\<close> entry of \<open>episodeRefs.current\<close> (an unmounted box).\<close>

type_synonym box = "rat \<times> rat"

definition distance :: "rat \<Rightarrow> box \<Rightarrow> rat" where
  "distance centerPoint b = \<bar>centerPoint - (fst b + snd b / 2)\<bar>"

text \<open>The \<open>forEach\<close> loop with its two accumulators; \<open>closestDistance = None\<close>
  is \<open>Number.POSITIVE_INFINITY\<close>.\<close>

fun closest_loop :: "rat \<Rightarrow> nat \<Rightarrow> box option list \<Rightarrow> nat \<times> rat option \<Rightarrow> nat \<times> rat option" where
  "closest_loop c i [] acc = acc"
| "closest_loop c i (r # rs) (ce, cd) =
     closest_loop c (Suc i) rs
       (case r of
          None \<Rightarrow> (ce, cd)
        | Some b \<Rightarrow>
            (if (case cd of None \<Rightarrow> True | Some d \<Rightarrow> distance c b < d)
             then (i, Some (distance c b)) else (ce, cd)))"

definition closest_episode :: "rat \<Rightarrow> box option list \<Rightarrow> nat" where
  "closest_episode centerPoint refs = fst (closest_loop centerPoint 0 refs (0, None))"

text \<open>The reference: among the present boxes, the least pair of distance and index
  (the nearest box, the first one on a tie); 0 when no box is present.\<close>

fun candidates :: "rat \<Rightarrow> nat \<Rightarrow> box option list \<Rightarrow> (rat \<times> nat) list" where
  "candidates c i [] = []"
| "candidates c i (None # rs) = candidates c (Suc i) rs"
| "candidates c i (Some b # rs) = (distance c b, i) # candidates c (Suc i) rs"

definition closest_ref :: "rat \<Rightarrow> box option list \<Rightarrow> nat" where
  "closest_ref c refs =
     (if candidates c 0 refs = [] then 0 else snd (Min (set (candidates c 0 refs))))"

subsection \<open>The viewer's state\<close>

record episode_viewer =
  currentEpisode :: nat
  isScrolling :: bool
  scroll_timeout :: "ms option"
  ev_clock :: ms

definition ev_init :: episode_viewer where
  "ev_init = \<lparr>currentEpisode = 0, isScrolling = False, scroll_timeout = None, ev_clock = 0\<rparr>"

text \<open>\<open>handleScroll\<close> on a scroll of the container (\<open>scrollTop\<close>,
  \<open>clientHeight\<close>) over the current boxes: scrolling on, the 150 ms timeout replaced,
  the closest episode selected.\<close>

definition handleScroll :: "rat \<Rightarrow> rat \<Rightarrow> box option list \<Rightarrow> episode_viewer \<Rightarrow> episode_viewer" where
  "handleScroll containerTop containerHeight boxes s =
     s\<lparr>isScrolling := True, scroll_timeout := Some (ev_clock s + 150),
       currentEpisode := closest_episode (containerTop + containerHeight / 2) boxes\<rparr>"

datatype ev_event = Scroll rat rat "box option list" | Ev_tick

text \<open>\<open>Ev_tick\<close>: one millisecond passes; the timeout, when due, turns scrolling off.\<close>

fun ev_step :: "episode_viewer \<Rightarrow> ev_event \<Rightarrow> episode_viewer" where
  "ev_step s (Scroll t h bs) = handleScroll t h bs s"
| "ev_step s Ev_tick =
     (case scroll_timeout s of
        Some t \<Rightarrow> if t \<le> Suc (ev_clock s)
                  then s\<lparr>ev_clock := Suc (ev_clock s), isScrolling := False, scroll_timeout := None\<rparr>
                  else s\<lparr>ev_clock := Suc (ev_clock s)\<rparr>
      | None \<Rightarrow> s\<lparr>ev_clock := Suc (ev_clock s)\<rparr>)"

fun ev_run :: "episode_viewer \<Rightarrow> ev_event list \<Rightarrow> episode_viewer" where
  "ev_run s [] = s"
| "ev_run s (e # es) = ev_run (ev_step s e) es"

text \<open>The boxes of a scroll event belong to the \<open>n\<close> rendered episodes: entries past
  them are \<open>null\<close> (React resets the ref of an unmounted box).\<close>

fun boxes_within :: "nat \<Rightarrow> ev_event \<Rightarrow> bool" where
  "boxes_within n (Scroll t h bs) = (\<forall>k < length bs. bs ! k \<noteq> None \<longrightarrow> k < n)"
| "boxes_within n Ev_tick = True"

subsection \<open>What the viewer renders\<close>

text \<open>\<open>if (!episodes.length)\<close> and \<open>episodes.map\<close>: an array is listed (or the empty
  view); \<open>undefined\<close> and \<open>null\<close> throw on \<open>.length\<close>; a non-empty string or an
  object with a truthy \<open>length\<close> throws on \<open>.map\<close>; other values have no
  \<open>length\<close> and give the empty view.\<close>

datatype ev_view = No_episodes | Episode_list nat | Ev_render_error

definition EpisodeViewer_view :: "json option \<Rightarrow> ev_view" where
  "EpisodeViewer_view episodes = (case episodes of
      None \<Rightarrow> Ev_render_error
    | Some JNull \<Rightarrow> Ev_render_error
    | Some (JArr xs) \<Rightarrow> if xs = [] then No_episodes else Episode_list (length xs)
    | Some (JStr t) \<Rightarrow> if t = [] then No_episodes else Ev_render_error
    | Some (JObj kvs) \<Rightarrow> if opt_truthy (map_of (rev kvs) ''length'') then Ev_render_error else No_episodes
    | Some _ \<Rightarrow> No_episodes)"

text \<open>The badge \<open>{currentEpisode + 1} of {episodes.length}\<close>.\<close>

definition episode_badge :: "episode_viewer \<Rightarrow> nat \<Rightarrow> nat \<times> nat" where
  "episode_badge s n = (Suc (currentEpisode s), n)"

text \<open>One episode's card (\<open>episodes.map((episode, index) => ...)\<close>): the still image,
  the \<^verbatim>\<open>Episode n\<close> badge, the rating badge (\<open>vote_average > 0 && ...toFixed(1)\<close>),
  the progress bar and the highlight of the current card, the name, the runtime
  (\<open>episode.runtime && ...\<close>), the air date (\<open>episode.air_date && ...\<close>, printed by
  \<open>toLocaleDateString\<close>), the overview with its fallback, and the arrow to the next
  card.\<close>

record episode_card =
  ec_still :: label
  ec_number_badge :: label
  ec_rating :: label
  ec_progress_bar :: bool
  ec_highlight :: bool
  ec_name :: label
  ec_runtime :: label
  ec_air_date :: label
  ec_overview :: label
  ec_next_arrow :: bool

text \<open>\<open>undefined > 0\<close> and \<open>null > 0\<close> are false; a rating that is not a number is
  outside the model.\<close>

definition episode_rating :: "json option \<Rightarrow> label" where
  "episode_rating v = (case v of
      None \<Rightarrow> No_label
    | Some JNull \<Rightarrow> No_label
    | Some (JNum r) \<Rightarrow> if 0 < r then label_of (toFixed1 r) else No_label
    | _ \<Rightarrow> Render_fail)"

definition render_episode :: "int \<Rightarrow> episode_viewer \<Rightarrow> nat \<Rightarrow> nat \<Rightarrow> json \<Rightarrow> episode_card" where
  "render_episode offset s n index e =
     \<lparr>ec_still = (case field e ''still_path'' of
                   None \<Rightarrow> Render_fail
                 | Some v \<Rightarrow> tmdb_image ''original'' ''/placeholder.svg?height=720&width=1280'' v),
      ec_number_badge = label_map (\<lambda>t. ''Episode '' @ t) (jsx_field e ''episode_number''),
      ec_rating = (case field e ''vote_average'' of None \<Rightarrow> Render_fail | Some v \<Rightarrow> episode_rating v),
      ec_progress_bar = (currentEpisode s = index),
      ec_highlight = (currentEpisode s = index \<and> \<not> isScrolling s),
      ec_name = jsx_field e ''name'',
      ec_runtime = (case field e ''runtime'' of
                      None \<Rightarrow> Render_fail
                    | Some v \<Rightarrow> jsx_and v (label_map (\<lambda>t. t @ ''m'') (label_of (jsx_text v)))),
      ec_air_date = (case field e ''air_date'' of
                       None \<Rightarrow> Render_fail
                     | Some v \<Rightarrow> jsx_and v (case js_new_Date v of
                                              Some d \<Rightarrow> Label (toLocaleDateString offset d)
                                            | None \<Rightarrow> Render_fail)),
      ec_overview = (case field e ''overview'' of
                       None \<Rightarrow> Render_fail
                     | Some v \<Rightarrow> if opt_truthy v then label_of (jsx_text v)
                                 else Label ''No description available for this episode.''),
      ec_next_arrow = (Suc index < n)\<rparr>"

text \<open>The page of a season: the sticky header (\<^verbatim>\<open>Season n\<close>, the count, the
  \<^verbatim>\<open>k of n\<close> badge, one button per episode and whether it is the current one)
  and the cards.\<close>

record episode_page =
  ep_season :: label
  ep_count :: label
  ep_badge :: label
  ep_buttons :: "(label \<times> bool) list"
  ep_cards :: "episode_card list"

datatype ev_render = Ev_empty | Ev_fail | Ev_page episode_page

definition episode_page_of :: "int \<Rightarrow> episode_viewer \<Rightarrow> json option \<Rightarrow> json list \<Rightarrow> episode_page" where
  "episode_page_of offset s seasonNumber xs =
     \<lparr>ep_season = label_map (\<lambda>t. ''Season '' @ t) (label_of (jsx_text seasonNumber)),
      ep_count = Label (nat_to_string (length xs) @ '' Episodes''),
      ep_badge = Label (nat_to_string (Suc (currentEpisode s)) @ '' of '' @ nat_to_string (length xs)),
      ep_buttons = map (\<lambda>i. (label_map (\<lambda>t. ''Episode '' @ t) (jsx_field (xs ! i) ''episode_number''),
                                currentEpisode s = i)) [0..<length xs],
      ep_cards = map (\<lambda>i. render_episode offset s (length xs) i (xs ! i)) [0..<length xs]\<rparr>"

definition EpisodeViewer_render :: "int \<Rightarrow> episode_viewer \<Rightarrow> json option \<Rightarrow> json option \<Rightarrow> ev_render" where
  "EpisodeViewer_render offset s seasonNumber episodes =
     (case EpisodeViewer_view episodes of
        No_episodes \<Rightarrow> Ev_empty
      | Ev_render_error \<Rightarrow> Ev_fail
      | Episode_list _ \<Rightarrow> (case episodes of
                              Some (JArr xs) \<Rightarrow> Ev_page (episode_page_of offset s seasonNumber xs)
                            | _ \<Rightarrow> Ev_fail))"

subsection \<open>The older viewer, \<^verbatim>\<open>components/episode-viewer.tsx\<close>\<close>

text \<open>The same loop, with no scrolling flag: the handler only selects.\<close>

definition legacy_handleScroll :: "rat \<Rightarrow> rat \<Rightarrow> box option list \<Rightarrow> nat \<Rightarrow> nat" where
  "legacy_handleScroll containerTop containerHeight boxes current =
     closest_episode (containerTop + containerHeight / 2) boxes"

text \<open>Its state is the selected episode only; a tick changes nothing (it has no timer).\<close>

fun legacy_ev_step :: "nat \<Rightarrow> ev_event \<Rightarrow> nat" where
  "legacy_ev_step cur (Scroll t h bs) = legacy_handleScroll t h bs cur"
| "legacy_ev_step cur Ev_tick = cur"

text \<open>What it renders: a header (\<^verbatim>\<open>Episodes\<close>) with one \<^verbatim>\<open>S{season}E{episode}\<close>
  button per episode (whether it is the current one), and one card per episode: the still
  (\<open>episode.still || "/placeholder.svg"\<close>), the same \<^verbatim>\<open>SxEy\<close> badge, the title,
  \<^verbatim>\<open>{runtime}m\<close>, the overview and the arrow to the next card. There is no empty
  state; \<open>episodes.map\<close> on a non-array throws (\<open>None\<close>).\<close>

definition se_label :: "json \<Rightarrow> label" where
  "se_label e = (case (jsx_field e ''season_number'', jsx_field e ''episode_number'') of
      (Label a, Label b) \<Rightarrow> Label (''S'' @ a @ ''E'' @ b)
    | _ \<Rightarrow> Render_fail)"

record legacy_episode_card =
  lc_still :: label
  lc_badge :: label
  lc_title :: label
  lc_runtime :: label
  lc_overview :: label
  lc_next_arrow :: bool

record legacy_episode_page =
  lp_buttons :: "(label \<times> bool) list"
  lp_cards :: "legacy_episode_card list"

definition legacy_render_episode :: "nat \<Rightarrow> nat \<Rightarrow> json \<Rightarrow> legacy_episode_card" where
  "legacy_render_episode n index e =
     \<lparr>lc_still = (case field e ''still'' of
                   None \<Rightarrow> Render_fail
                 | Some v \<Rightarrow> if opt_truthy v then label_of (js_text v) else Label ''/placeholder.svg''),
      lc_badge = se_label e, lc_title = jsx_field e ''title'',
      lc_runtime = label_map (\<lambda>t. t @ ''m'') (jsx_field e ''runtime''),
      lc_overview = jsx_field e ''overview'', lc_next_arrow = (Suc index < n)\<rparr>"

definition LegacyEpisodeViewer :: "nat \<Rightarrow> json option \<Rightarrow> legacy_episode_page option" where
  "LegacyEpisodeViewer cur episodes = (case episodes of
      Some (JArr xs) \<Rightarrow>
        Some \<lparr>lp_buttons = map (\<lambda>i. (se_label (xs ! i), cur = i)) [0..<length xs],
              lp_cards = map (\<lambda>i. legacy_render_episode (length xs) i (xs ! i)) [0..<length xs]\<rparr>
    | _ \<Rightarrow> None)"

text \<open>The pair the loop's accumulators stand for (none before the first box).\<close>

definition acc_pair :: "nat \<times> rat option \<Rightarrow> (rat \<times> nat) set" where
  "acc_pair a = (case snd a of None \<Rightarrow> {} | Some d \<Rightarrow> {(d, fst a)})"

subsection \<open>The loop and its reference\<close>

lemma candidates_nth:
  "(d, k) \<in> set (candidates c i rs) \<longleftrightarrow>
     i \<le> k \<and> k < i + length rs \<and>
     (case rs ! (k - i) of None \<Rightarrow> False | Some b \<Rightarrow> d = distance c b)"
proof (induction c i rs rule: candidates.induct)
  case (1 c i)
  then show ?case by simp
next
  case (2 c i rs)
  then show ?case by (auto simp add: nth_Cons' Suc_le_eq split: option.split)
next
  case (3 c i b rs)
  then show ?case by (auto simp add: nth_Cons' Suc_le_eq split: option.split)
qed

lemma Min_insert_Min:
  assumes "finite Y" "Y \<noteq> {}" "finite X"
  shows "Min (insert (Min Y) X) = Min (Y \<union> X)"
proof (cases "X = {}")
  case True
  then show ?thesis by simp
next
  case False
  then show ?thesis using assms by (simp add: Min_Un)
qed

lemma acc_pair_step:
  assumes "\<forall>d. cd = Some d \<longrightarrow> ce < i"
  shows "acc_pair (if (case cd of None \<Rightarrow> True | Some d \<Rightarrow> x < d) then (i, Some x) else (ce, cd)) =
         {Min (insert (x, i) (acc_pair (ce, cd)))}"
proof (cases cd)
  case None
  then show ?thesis by (simp add: acc_pair_def)
next
  case (Some d)
  with assms have "ce < i" by simp
  then show ?thesis using Some by (auto simp add: acc_pair_def min_def)
qed

lemma closest_loop_Min:
  assumes "\<forall>d. cd = Some d \<longrightarrow> ce < i"
  shows "closest_loop c i rs (ce, cd) =
     (if acc_pair (ce, cd) \<union> set (candidates c i rs) = {} then (ce, cd)
      else (snd (Min (acc_pair (ce, cd) \<union> set (candidates c i rs))),
            Some (fst (Min (acc_pair (ce, cd) \<union> set (candidates c i rs))))))"
  using assms
proof (induction c i rs arbitrary: ce cd rule: candidates.induct)
  case (1 c i)
  then show ?case by (cases cd) (auto simp add: acc_pair_def)
next
  case (2 c i rs)
  from "2.prems" have "\<forall>d. cd = Some d \<longrightarrow> ce < Suc i" by auto
  from "2.IH" [OF this] show ?case by simp
next
  case (3 c i b rs)
  let ?x = "distance c b"
  let ?a = "if (case cd of None \<Rightarrow> True | Some d \<Rightarrow> ?x < d) then (i, Some ?x) else (ce, cd)"
  obtain ce' cd' where a: "?a = (ce', cd')" by (cases ?a)
  have pre: "\<forall>d. cd' = Some d \<longrightarrow> ce' < Suc i"
    using "3.prems" a by (auto split: if_splits option.splits)
  have fin: "finite (insert (?x, i) (acc_pair (ce, cd)))" by (simp add: acc_pair_def split: option.split)
  have pair: "acc_pair (ce', cd') = {Min (insert (?x, i) (acc_pair (ce, cd)))}"
    using acc_pair_step [OF "3.prems", of ?x] a by simp
  have "acc_pair (ce', cd') \<union> set (candidates c (Suc i) rs) =
        insert (Min (insert (?x, i) (acc_pair (ce, cd)))) (set (candidates c (Suc i) rs))"
    using pair by simp
  also have "Min \<dots> = Min (acc_pair (ce, cd) \<union> set (candidates c i (Some b # rs)))"
    using Min_insert_Min [OF fin] by simp
  finally have m: "Min (acc_pair (ce', cd') \<union> set (candidates c (Suc i) rs)) =
                   Min (acc_pair (ce, cd) \<union> set (candidates c i (Some b # rs)))" .
  have "closest_loop c i (Some b # rs) (ce, cd) = closest_loop c (Suc i) rs (ce', cd')"
    using a by simp
  also have "\<dots> = (snd (Min (acc_pair (ce', cd') \<union> set (candidates c (Suc i) rs))),
                   Some (fst (Min (acc_pair (ce', cd') \<union> set (candidates c (Suc i) rs)))))"
    using "3.IH" [OF pre] pair by simp
  finally show ?case using m by simp
qed

lemma closest_episode_Min:
  "closest_episode c refs =
     (if candidates c 0 refs = [] then 0 else snd (Min (set (candidates c 0 refs))))"
  using closest_loop_Min [of None 0 0 c refs]
  by (simp add: closest_episode_def acc_pair_def)

text \<open>C14. The scroll handler's loop selects the least pair of distance and index among the present boxes: the nearest box, the first one on a tie, and episode 0 when no box is present.\<close>

theorem closest_episode_eq_ref: "closest_episode c refs = closest_ref c refs"
  unfolding closest_ref_def by (rule closest_episode_Min)

text \<open>Whenever some box is present, the selected episode is a present box, no box is nearer, and every earlier present box is strictly farther.\<close>

theorem closest_episode_nearest:
  assumes "k < length refs" and "refs ! k = Some b"
  shows "\<exists>b'. closest_episode c refs < length refs \<and> refs ! closest_episode c refs = Some b' \<and>
              distance c b' \<le> distance c b \<and>
              (\<forall>j < closest_episode c refs. \<forall>b''. refs ! j = Some b'' \<longrightarrow> distance c b' < distance c b'')"
proof -
  let ?C = "set (candidates c 0 refs)"
  have kin: "(distance c b, k) \<in> ?C" using assms by (simp add: candidates_nth)
  then have ne: "candidates c 0 refs \<noteq> []" by auto
  obtain d' i' where m: "Min ?C = (d', i')" by (cases "Min ?C")
  have "Min ?C \<in> ?C" using ne by simp
  then have i': "i' < length refs" and b': "case refs ! i' of None \<Rightarrow> False | Some b' \<Rightarrow> d' = distance c b'"
    using m by (simp_all add: candidates_nth)
  obtain b' where rb: "refs ! i' = Some b'" and db: "d' = distance c b'"
    using b' by (cases "refs ! i'") auto
  have le: "(d', i') \<le> (distance c b, k)" using kin m Min_le [of ?C] by (metis List.finite_set)
  have first: "distance c b' < distance c b''" if "j < i'" "refs ! j = Some b''" for j b''
  proof -
    have "(distance c b'', j) \<in> ?C" using that i' by (simp add: candidates_nth)
    then have "(d', i') \<le> (distance c b'', j)" using m Min_le [of ?C] by (metis List.finite_set)
    then show ?thesis using that(1) db by auto
  qed
  have "closest_episode c refs = i'" using ne m by (simp add: closest_episode_Min)
  then show ?thesis using i' rb db le first by auto
qed

subsection \<open>Properties of the viewer\<close>

lemma Min_candidates:
  assumes "candidates c 0 refs \<noteq> []"
  shows "snd (Min (set (candidates c 0 refs))) < length refs \<and>
         refs ! snd (Min (set (candidates c 0 refs))) \<noteq> None"
proof -
  obtain d' i' where m: "Min (set (candidates c 0 refs)) = (d', i')" by fastforce
  have "Min (set (candidates c 0 refs)) \<in> set (candidates c 0 refs)" using assms by simp
  then have "i' < length refs" "case refs ! i' of None \<Rightarrow> False | Some b' \<Rightarrow> d' = distance c b'"
    using m by (simp_all add: candidates_nth)
  then show ?thesis using m by (auto split: option.splits)
qed

lemma closest_episode_nearest_witness:
  "\<exists>b'. closest_episode 120 [Some (0, 100), None, Some (100, 100)] < length ([Some (0, 100), None, Some (100, 100)] :: box option list) \<and>
        [Some (0, 100), None, Some (100, 100)] ! closest_episode 120 [Some (0, 100), None, Some (100, 100)] = Some b' \<and>
        distance 120 b' \<le> distance 120 (0, 100) \<and>
        (\<forall>j < closest_episode 120 [Some (0, 100), None, Some (100, 100)].
           \<forall>b''. [Some (0, 100), None, Some (100, 100)] ! j = Some b'' \<longrightarrow> distance 120 b' < distance 120 b'')"
  by (rule closest_episode_nearest [where k = 0]) simp_all

lemma closest_episode_none:
  assumes "\<forall>k < length bs. bs ! k = None"
  shows "closest_episode c bs = 0"
proof -
  have "set (candidates c 0 bs) = {}"
  proof (rule equals0I)
    fix x assume x: "x \<in> set (candidates c 0 bs)"
    obtain d k where dk: "x = (d, k)" by fastforce
    from x have k: "k < length bs" and "bs ! k \<noteq> None"
      unfolding dk candidates_nth by (auto split: option.splits)
    moreover have "bs ! k = None" using assms k by blast
    ultimately show False by simp
  qed
  then show ?thesis by (simp add: closest_episode_Min)
qed

lemma closest_episode_within:
  assumes "\<forall>k < length bs. bs ! k \<noteq> None \<longrightarrow> k < n"
  shows "closest_episode c bs < max 1 n"
proof (cases "candidates c 0 bs = []")
  case True
  then show ?thesis by (simp add: closest_episode_Min)
next
  case False
  let ?i = "snd (Min (set (candidates c 0 bs)))"
  have "?i < length bs" "bs ! ?i \<noteq> None" using Min_candidates [OF False] by blast+
  then have "?i < n" using assms by blast
  then show ?thesis by (simp add: closest_episode_Min False)
qed

lemma ev_run_append [simp]: "ev_run s (xs @ ys) = ev_run (ev_run s xs) ys"
  by (induction xs arbitrary: s) auto

lemma currentEpisode_step:
  assumes "boxes_within n e" and "currentEpisode s < max 1 n"
  shows "currentEpisode (ev_step s e) < max 1 n"
proof (cases e)
  case (Scroll t h bs)
  have "\<forall>k < length bs. bs ! k \<noteq> None \<longrightarrow> k < n"
    using assms(1) unfolding Scroll by (simp only: boxes_within.simps)
  from closest_episode_within [OF this] show ?thesis
    by (simp add: Scroll handleScroll_def)
next
  case Ev_tick
  then show ?thesis using assms(2) by (simp split: option.split)
qed

lemma currentEpisode_run:
  assumes "\<forall>e \<in> set es. boxes_within n e" and "currentEpisode s < max 1 n"
  shows "currentEpisode (ev_run s es) < max 1 n"
  using assms
proof (induction es arbitrary: s)
  case Nil
  then show ?case by simp
next
  case (Cons e es)
  then show ?case using currentEpisode_step by simp
qed

text \<open>In every state reached by scrolls over the rendered episodes and elapsed time, the selected episode is one of the \<open>n\<close> rendered episodes (or 0), so the badge never reads past the count.\<close>

theorem episode_in_range:
  assumes "\<forall>e \<in> set es. boxes_within n e"
  shows "currentEpisode (ev_run ev_init es) < max 1 n"
  using currentEpisode_run [OF assms, of ev_init] by (simp add: ev_init_def)

lemma episode_in_range_witness:
  "currentEpisode (ev_run ev_init [Scroll 0 100 [Some (0, 100), Some (100, 100)], Ev_tick]) < max 1 2"
  by (rule episode_in_range) (simp add: nth_Cons')

lemma ticks_before:
  "scroll_timeout s = Some t \<Longrightarrow> ev_clock s + k < t \<Longrightarrow>
   ev_run s (replicate k Ev_tick) = s\<lparr>ev_clock := ev_clock s + k\<rparr>"
proof (induction k arbitrary: s)
  case 0
  then show ?case by simp
next
  case (Suc k)
  have "ev_step s Ev_tick = s\<lparr>ev_clock := Suc (ev_clock s)\<rparr>" using Suc.prems by simp
  moreover have "ev_run (s\<lparr>ev_clock := Suc (ev_clock s)\<rparr>) (replicate k Ev_tick) =
                 s\<lparr>ev_clock := Suc (ev_clock s) + k\<rparr>"
    using Suc.IH [of "s\<lparr>ev_clock := Suc (ev_clock s)\<rparr>"] Suc.prems by simp
  ultimately show ?case by simp
qed

lemma ticks_idle:
  "scroll_timeout s = None \<Longrightarrow> ev_run s (replicate k Ev_tick) = s\<lparr>ev_clock := ev_clock s + k\<rparr>"
proof (induction k arbitrary: s)
  case 0
  then show ?case by simp
next
  case (Suc k)
  then show ?case by simp
qed

text \<open>After a scroll, the scrolling flag stays on while less than 150 ms pass without another scroll, and is off from then on.\<close>

theorem scrolling_settles:
  "isScrolling (ev_run (handleScroll t h bs s) (replicate k Ev_tick)) \<longleftrightarrow> k < 150"
proof (cases "k < 150")
  case True
  let ?s = "handleScroll t h bs s"
  have "ev_run ?s (replicate k Ev_tick) = ?s\<lparr>ev_clock := ev_clock ?s + k\<rparr>"
    by (rule ticks_before [where t = "ev_clock s + 150"]) (simp_all add: handleScroll_def True)
  then show ?thesis using True by (simp add: handleScroll_def)
next
  case False
  let ?s = "handleScroll t h bs s"
  have "replicate k Ev_tick = replicate (149 + (1 + (k - 150))) Ev_tick"
    using False by simp
  also have "\<dots> = replicate 149 Ev_tick @ [Ev_tick] @ replicate (k - 150) Ev_tick"
    by (simp only: replicate_add) simp
  finally have k: "replicate k Ev_tick = replicate 149 Ev_tick @ [Ev_tick] @ replicate (k - 150) Ev_tick" .
  have a: "ev_run ?s (replicate 149 Ev_tick) = ?s\<lparr>ev_clock := ev_clock ?s + 149\<rparr>"
    by (rule ticks_before [where t = "ev_clock s + 150"]) (simp_all add: handleScroll_def)
  have b: "ev_step (?s\<lparr>ev_clock := ev_clock ?s + 149\<rparr>) Ev_tick =
           ?s\<lparr>ev_clock := ev_clock s + 150, isScrolling := False, scroll_timeout := None\<rparr>"
    by (simp add: handleScroll_def)
  have "ev_run ?s (replicate k Ev_tick) =
        ev_run (ev_step (ev_run ?s (replicate 149 Ev_tick)) Ev_tick) (replicate (k - 150) Ev_tick)"
    by (simp only: k ev_run_append ev_run.simps)
  also have "\<dots> = ev_run (?s\<lparr>ev_clock := ev_clock s + 150, isScrolling := False, scroll_timeout := None\<rparr>)
                     (replicate (k - 150) Ev_tick)"
    by (simp only: a b)
  finally show ?thesis using False by (simp add: ticks_idle)
qed

text \<open>C15. Whatever the scrolls and however much time passes, a season with episodes
  renders exactly one selected episode button and one progress bar, on the same episode,
  and the badge reads \<^verbatim>\<open>k of n\<close> for that episode.\<close>

theorem episode_page_one_selected:
  assumes "\<forall>e \<in> set es. boxes_within (length xs) e" and "xs \<noteq> []"
  shows "\<exists>p i. EpisodeViewer_render offset (ev_run ev_init es) season (Some (JArr xs)) = Ev_page p \<and>
           i < length xs \<and> map snd (ep_buttons p) = map (\<lambda>j. j = i) [0..<length xs] \<and>
           map ec_progress_bar (ep_cards p) = map snd (ep_buttons p) \<and>
           ep_badge p = Label (nat_to_string (Suc i) @ '' of '' @ nat_to_string (length xs))"
proof -
  let ?s = "ev_run ev_init es"
  have "currentEpisode ?s < max 1 (length xs)"
    using currentEpisode_run [OF assms(1), of ev_init] by (simp add: ev_init_def)
  then have i: "currentEpisode ?s < length xs" using assms(2) by (cases xs) auto
  have r: "EpisodeViewer_render offset ?s season (Some (JArr xs)) = Ev_page (episode_page_of offset ?s season xs)"
    using assms(2) by (simp add: EpisodeViewer_render_def EpisodeViewer_view_def)
  have "map (\<lambda>j. currentEpisode ?s = j) [0..<length xs] = map (\<lambda>j. j = currentEpisode ?s) [0..<length xs]"
    by auto
  then show ?thesis
    using i r
    by (intro exI [of _ "episode_page_of offset ?s season xs"] exI [of _ "currentEpisode ?s"])
       (simp add: episode_page_of_def render_episode_def comp_def)
qed

lemma episode_page_one_selected_witness:
  "\<exists>p i. EpisodeViewer_render 0 (ev_run ev_init [Scroll 0 100 [Some (0, 100), Some (100, 100)]]) (Some (JNum 1))
           (Some (JArr [JObj [], JObj []])) = Ev_page p \<and>
         i < length [JObj [], JObj []] \<and> map snd (ep_buttons p) = map (\<lambda>j. j = i) [0..<length [JObj [], JObj []]] \<and>
         map ec_progress_bar (ep_cards p) = map snd (ep_buttons p) \<and>
         ep_badge p = Label (nat_to_string (Suc i) @ '' of '' @ nat_to_string (length [JObj [], JObj []]))"
  by (rule episode_page_one_selected) (simp_all add: nth_Cons')

text \<open>C37. \<open>{episode.runtime && ...}\<close> with a runtime of 0 renders the number itself: the
  card shows a stray \<^verbatim>\<open>0\<close> where a positive runtime \<open>k\<close> shows
  \<^verbatim>\<open>km\<close>.\<close>

theorem zero_runtime_prints_zero:
  assumes "field e ''runtime'' = Some (Some (JNum (of_nat k)))" and "k \<le> 2 ^ 53"
  shows "ec_runtime (render_episode offset s n i e) =
           (if k = 0 then Label ''0'' else Label (nat_to_string k @ ''m''))"
proof -
  have n: "num_text (of_nat k) = Some (nat_to_string k)"
    using num_text_int [of "int k"] assms(2) by (simp add: int_to_string_def)
  show ?thesis
  proof (cases "k = 0")
    case True
    moreover have "nat_to_string 0 = ''0''" by (simp add: nat_to_string.simps [of 0] char_of_48)
    ultimately show ?thesis
      using assms(1) n by (simp add: render_episode_def jsx_and_def jsx_text_def opt_truthy_def label_of_def)
  next
    case False
    then show ?thesis
      using assms(1) n
      by (simp add: render_episode_def jsx_and_def jsx_text_def opt_truthy_def label_map_def label_of_def)
  qed
qed

lemma zero_runtime_prints_zero_witness:
  "ec_runtime (render_episode 0 ev_init 1 0 (JObj [(''runtime'', JNum 0)])) = Label ''0''"
  using zero_runtime_prints_zero [of "JObj [(''runtime'', JNum 0)]" 0] by (simp add: field_def)

end
