(* ===== verification/HeroSlider.thy ===== *)
theory HeroSlider
  imports Render
begin

text \<open>
  The hero slider, \<^verbatim>\<open>components/HeroSlider.tsx\<close>: the current slide, the autoplay
  flag and the load flag, with the timers the component starts: the autoplay interval
  (5000 ms, restarted by its effect whenever \<open>isAutoPlaying\<close> changes), the 100 ms
  load timeout, and one 10000 ms resume timeout per click, never cleared. Time passes in
  1 ms ticks; every timer due at the new time fires. What it renders from its state is
  \<open>HeroSlider_view\<close>.
\<close>

text \<open>JavaScript's \<open>%\<close> on integers: the sign of the dividend. (The divisor is the
  number of slides, at least 1 wherever the slider calls it.)\<close>

definition js_rem :: "int \<Rightarrow> int \<Rightarrow> int" where
  "js_rem a b = sgn a * (\<bar>a\<bar> mod \<bar>b\<bar>)"

record hero =
  slider_shows :: "json list"
  currentSlide :: int
  isAutoPlaying :: bool
  isLoaded :: bool
  hclock :: ms
  interval_due :: "ms option"
  resume_timers :: "ms list"
  load_timer :: "ms option"

definition AUTOPLAY_MS :: ms where "AUTOPLAY_MS = 5000"
definition RESUME_MS :: ms where "RESUME_MS = 10000"
definition LOAD_MS :: ms where "LOAD_MS = 100"

text \<open>The effect on \<open>[isAutoPlaying, shows.length]\<close>: its cleanup clears the interval;
  it starts a new one when autoplay is on and there are at least two slides.\<close>

definition autoplay_effect :: "hero \<Rightarrow> hero" where
  "autoplay_effect s =
     s\<lparr>interval_due := (if isAutoPlaying s \<and> 1 < length (slider_shows s)
                        then Some (hclock s + AUTOPLAY_MS) else None)\<rparr>"

definition set_auto :: "bool \<Rightarrow> hero \<Rightarrow> hero" where
  "set_auto b s = (if b = isAutoPlaying s then s else autoplay_effect (s\<lparr>isAutoPlaying := b\<rparr>))"

definition hero_mount :: "json list \<Rightarrow> hero" where
  "hero_mount xs =
     autoplay_effect \<lparr>slider_shows = xs, currentSlide = 0, isAutoPlaying = True, isLoaded = False,
        hclock = 0, interval_due = None, resume_timers = [], load_timer = Some LOAD_MS\<rparr>"

text \<open>\<open>goToSlide\<close>, \<open>nextSlide\<close>, \<open>prevSlide\<close>: set the slide, stop autoplay, and
  schedule its resumption.\<close>

definition pause_and_show :: "int \<Rightarrow> hero \<Rightarrow> hero" where
  "pause_and_show i s =
     (let s1 = set_auto False (s\<lparr>currentSlide := i\<rparr>) in
      s1\<lparr>resume_timers := resume_timers s1 @ [hclock s + RESUME_MS]\<rparr>)"

definition goToSlide :: "nat \<Rightarrow> hero \<Rightarrow> hero" where
  "goToSlide index s = pause_and_show (int index) s"

definition nextSlide :: "hero \<Rightarrow> hero" where
  "nextSlide s = pause_and_show (js_rem (currentSlide s + 1) (int (length (slider_shows s)))) s"

definition prevSlide :: "hero \<Rightarrow> hero" where
  "prevSlide s =
     pause_and_show (js_rem (currentSlide s - 1 + int (length (slider_shows s))) (int (length (slider_shows s)))) s"

text \<open>The timer callbacks at time \<open>t\<close>: the load timeout (\<open>setIsLoaded(true)\<close>),
  the due resume timeouts (\<open>setIsAutoPlaying(true)\<close>, which re-runs the autoplay effect
  when it changes the flag), and the interval (\<open>(prev + 1) % shows.length\<close>, due
  again 5000 ms later).\<close>

definition load_done :: "ms \<Rightarrow> hero \<Rightarrow> hero" where
  "load_done t s = (case load_timer s of
      Some d \<Rightarrow> if d \<le> t then s\<lparr>isLoaded := True, load_timer := None\<rparr> else s
    | None \<Rightarrow> s)"

definition resume_due :: "ms \<Rightarrow> hero \<Rightarrow> hero" where
  "resume_due t s =
     (if filter (\<lambda>d. d \<le> t) (resume_timers s) = [] then s
      else set_auto True (s\<lparr>resume_timers := filter (\<lambda>d. \<not> d \<le> t) (resume_timers s)\<rparr>))"

definition interval_fire :: "ms \<Rightarrow> hero \<Rightarrow> hero" where
  "interval_fire t s = (case interval_due s of
      Some d \<Rightarrow> if d \<le> t
                then s\<lparr>currentSlide := js_rem (currentSlide s + 1) (int (length (slider_shows s))),
                       interval_due := Some (d + AUTOPLAY_MS)\<rparr>
                else s
    | None \<Rightarrow> s)"

text \<open>One millisecond passes and every timer due at the new time fires.\<close>

definition hero_tick :: "hero \<Rightarrow> hero" where
  "hero_tick s =
     (let t = Suc (hclock s) in interval_fire t (resume_due t (load_done t (s\<lparr>hclock := t\<rparr>))))"

datatype hero_event = Hero_next | Hero_prev | Hero_dot nat | Hero_tick

text \<open>The arrows and dots exist only when there are slides (\<open>if (!shows.length) return
  null\<close>); there is one dot per slide.\<close>

fun hero_step :: "hero \<Rightarrow> hero_event \<Rightarrow> hero" where
  "hero_step s Hero_next = (if slider_shows s = [] then s else nextSlide s)"
| "hero_step s Hero_prev = (if slider_shows s = [] then s else prevSlide s)"
| "hero_step s (Hero_dot i) = (if i < length (slider_shows s) then goToSlide i s else s)"
| "hero_step s Hero_tick = hero_tick s"

fun hero_run :: "hero \<Rightarrow> hero_event list \<Rightarrow> hero" where
  "hero_run s [] = s"
| "hero_run s (e # es) = hero_run (hero_step s e) es"

text \<open>\<open>const currentShow = shows[currentSlide]\<close> (\<open>None\<close>: \<open>undefined\<close>).\<close>

definition currentShow :: "hero \<Rightarrow> json option" where
  "currentShow s =
     (if 0 \<le> currentSlide s \<and> nat (currentSlide s) < length (slider_shows s)
      then Some (slider_shows s ! nat (currentSlide s)) else None)"

subsection \<open>What the slider renders\<close>

text \<open>One backdrop per show (its image and whether it is the opaque one,
  \<open>index === currentSlide\<close>), the current show's name and overview, the \<open>href\<close> of
  its three links, one dot per show (whether it is the active one), and whether the
  content has slid in (\<open>isLoaded\<close>). A failing label anywhere is a render that throws.\<close>

record hero_view =
  hv_backdrops :: "(label \<times> bool) list"
  hv_name :: label
  hv_overview :: label
  hv_href :: label
  hv_dots :: "bool list"
  hv_content_shown :: bool

text \<open>\<open>Hero_null\<close>: \<open>return null\<close> without shows; \<open>Hero_fail\<close>: \<open>currentShow\<close>
  is \<open>undefined\<close> and \<open>currentShow.name\<close> throws.\<close>

datatype hero_render = Hero_null | Hero_fail | Hero_shown hero_view

definition hero_backdrop :: "json \<Rightarrow> label" where
  "hero_backdrop sh = (case field sh ''backdrop_path'' of
      None \<Rightarrow> Render_fail
    | Some v \<Rightarrow> tmdb_image ''original'' ''/placeholder.svg?height=1080&width=1920'' v)"

definition HeroSlider_view :: "hero \<Rightarrow> hero_render" where
  "HeroSlider_view s =
     (if slider_shows s = [] then Hero_null
      else case currentShow s of
        None \<Rightarrow> Hero_fail
      | Some sh \<Rightarrow> Hero_shown
          \<lparr>hv_backdrops = map (\<lambda>i. (hero_backdrop (slider_shows s ! i), int i = currentSlide s))
                             [0..<length (slider_shows s)],
           hv_name = jsx_field sh ''name'', hv_overview = jsx_field sh ''overview'',
           hv_href = (case field sh ''id'' of
                        None \<Rightarrow> Render_fail
                      | Some v \<Rightarrow> label_of (map_option (\<lambda>t. ''/tv/'' @ t) (js_text v))),
           hv_dots = map (\<lambda>i. int i = currentSlide s) [0..<length (slider_shows s)],
           hv_content_shown = isLoaded s\<rparr>)"

subsection \<open>An abstract specification of the slide position\<close>

text \<open>What a slider promises: a position on a cycle of \<open>n\<close> slides, moved one forward,
  one back, to a chosen slide, or left alone.\<close>

datatype slide_op = Advance | Back | Jump nat | Stay

fun slide_spec :: "nat \<Rightarrow> nat \<Rightarrow> slide_op \<Rightarrow> nat" where
  "slide_spec n i Advance = (i + 1) mod n"
| "slide_spec n i Back = (i + n - 1) mod n"
| "slide_spec n i (Jump j) = (if j < n then j else i)"
| "slide_spec n i Stay = i"

text \<open>The abstract operation an event performs: the arrows and dots as labelled, a tick
  advances exactly when the interval is due.\<close>

fun hero_op :: "hero \<Rightarrow> hero_event \<Rightarrow> slide_op" where
  "hero_op s Hero_next = Advance"
| "hero_op s Hero_prev = Back"
| "hero_op s (Hero_dot j) = Jump j"
| "hero_op s Hero_tick =
     (case interval_due s of Some d \<Rightarrow> if d \<le> Suc (hclock s) then Advance else Stay | None \<Rightarrow> Stay)"

text \<open>The state invariant: the slide is a valid index (0 when there are no slides), and
  an interval runs only while autoplay is on with at least two slides.\<close>

definition hero_inv :: "hero \<Rightarrow> bool" where
  "hero_inv s \<longleftrightarrow> 0 \<le> currentSlide s \<and> currentSlide s < int (max 1 (length (slider_shows s))) \<and>
                  (interval_due s \<noteq> None \<longrightarrow> isAutoPlaying s \<and> 1 < length (slider_shows s))"

subsection \<open>Properties of the slider\<close>

lemma js_rem_nonneg: "0 \<le> a \<Longrightarrow> 0 < b \<Longrightarrow> js_rem a b = a mod b"
  by (cases "a = 0") (simp_all add: js_rem_def)

lemma hero_run_append [simp]: "hero_run s (xs @ ys) = hero_run (hero_run s xs) ys"
  by (induction xs arbitrary: s) auto

lemma slider_shows_set_auto [simp]: "slider_shows (set_auto b s) = slider_shows s"
  by (simp add: set_auto_def autoplay_effect_def)

lemma currentSlide_set_auto [simp]: "currentSlide (set_auto b s) = currentSlide s"
  by (simp add: set_auto_def autoplay_effect_def)

lemma hero_inv_set_auto: "hero_inv s \<Longrightarrow> hero_inv (set_auto b s)"
  by (auto simp add: hero_inv_def set_auto_def autoplay_effect_def)

lemma hero_inv_pause:
  assumes "hero_inv s" and "0 \<le> i" and "i < int (max 1 (length (slider_shows s)))"
  shows "hero_inv (pause_and_show i s)"
proof -
  have "hero_inv (s\<lparr>currentSlide := i\<rparr>)" using assms by (simp add: hero_inv_def)
  from hero_inv_set_auto [OF this, of False] show ?thesis
    by (simp add: hero_inv_def pause_and_show_def Let_def)
qed

lemma mod_range: "0 < (n::int) \<Longrightarrow> 0 \<le> a mod n \<and> a mod n < n"
  by simp

lemma hero_inv_load: "hero_inv s \<Longrightarrow> hero_inv (load_done t s)"
  by (simp add: hero_inv_def load_done_def split: option.split)

lemma hero_inv_resume: "hero_inv s \<Longrightarrow> hero_inv (resume_due t s)"
  unfolding resume_due_def
  using hero_inv_set_auto [of "s\<lparr>resume_timers := filter (\<lambda>d. \<not> d \<le> t) (resume_timers s)\<rparr>" True]
  by (simp add: hero_inv_def)

lemma hero_inv_interval: "hero_inv s \<Longrightarrow> hero_inv (interval_fire t s)"
proof (cases "interval_due s")
  case (Some d)
  assume inv: "hero_inv s"
  with Some have n: "0 < int (length (slider_shows s))" "1 < length (slider_shows s)"
    by (auto simp add: hero_inv_def)
  have "0 \<le> currentSlide s + 1" using inv by (simp add: hero_inv_def)
  then have "js_rem (currentSlide s + 1) (int (length (slider_shows s))) =
             (currentSlide s + 1) mod int (length (slider_shows s))"
    using n js_rem_nonneg by blast
  then show ?thesis using inv n Some by (simp add: interval_fire_def hero_inv_def)
qed (simp add: interval_fire_def)

lemma hero_inv_step: "hero_inv s \<Longrightarrow> hero_inv (hero_step s e)"
proof (cases e)
  case Hero_next
  assume inv: "hero_inv s"
  show ?thesis
  proof (cases "slider_shows s = []")
    case False
    then have n: "0 < int (length (slider_shows s))" by simp
    have "0 \<le> currentSlide s + 1" using inv by (simp add: hero_inv_def)
    then have "js_rem (currentSlide s + 1) (int (length (slider_shows s))) =
               (currentSlide s + 1) mod int (length (slider_shows s))"
      using n js_rem_nonneg by blast
    moreover have "0 \<le> (currentSlide s + 1) mod int (length (slider_shows s))"
      and "(currentSlide s + 1) mod int (length (slider_shows s)) < int (max 1 (length (slider_shows s)))"
      using n False by (simp_all add: max_def Suc_le_eq)
    ultimately show ?thesis using False Hero_next hero_inv_pause [OF inv]
      by (simp add: nextSlide_def)
  qed (simp add: Hero_next inv)
next
  case Hero_prev
  assume inv: "hero_inv s"
  show ?thesis
  proof (cases "slider_shows s = []")
    case False
    then have n: "0 < int (length (slider_shows s))" by simp
    have "0 \<le> currentSlide s - 1 + int (length (slider_shows s))" using inv n by (simp add: hero_inv_def)
    then have "js_rem (currentSlide s - 1 + int (length (slider_shows s))) (int (length (slider_shows s))) =
               (currentSlide s - 1 + int (length (slider_shows s))) mod int (length (slider_shows s))"
      using n js_rem_nonneg by blast
    moreover have "0 \<le> (currentSlide s - 1 + int (length (slider_shows s))) mod int (length (slider_shows s))"
      and "(currentSlide s - 1 + int (length (slider_shows s))) mod int (length (slider_shows s)) < int (max 1 (length (slider_shows s)))"
      using n False by (simp_all add: max_def Suc_le_eq)
    ultimately show ?thesis using False Hero_prev hero_inv_pause [OF inv]
      by (simp add: prevSlide_def)
  qed (simp add: Hero_prev inv)
next
  case (Hero_dot i)
  assume inv: "hero_inv s"
  then show ?thesis using Hero_dot by (simp add: goToSlide_def hero_inv_pause)
next
  case Hero_tick
  assume inv: "hero_inv s"
  then have "hero_inv (s\<lparr>hclock := Suc (hclock s)\<rparr>)" by (simp add: hero_inv_def)
  then show ?thesis
    using Hero_tick by (simp add: hero_tick_def hero_inv_interval hero_inv_resume hero_inv_load)
qed

lemma slider_shows_step [simp]: "slider_shows (hero_step s e) = slider_shows s"
  by (cases e) (simp_all add: nextSlide_def prevSlide_def goToSlide_def pause_and_show_def Let_def
      hero_tick_def interval_fire_def resume_due_def load_done_def split: option.split)

lemma hero_inv_run: "hero_inv s \<Longrightarrow> hero_inv (hero_run s es) \<and> slider_shows (hero_run s es) = slider_shows s"
  by (induction es arbitrary: s) (simp_all add: hero_inv_step)

lemma hero_inv_mount: "hero_inv (hero_mount xs) \<and> slider_shows (hero_mount xs) = xs"
  by (auto simp add: hero_inv_def hero_mount_def autoplay_effect_def)

lemma hero_mount_run:
  "hero_inv (hero_run (hero_mount xs) es) \<and> slider_shows (hero_run (hero_mount xs) es) = xs"
  using hero_inv_run [of "hero_mount xs" es] hero_inv_mount [of xs] by simp

text \<open>C16. In every state reached from mounting, by clicks on the arrows and dots and by elapsed time, \<open>shows[currentSlide]\<close> is defined exactly when there are slides.\<close>

theorem current_show_defined:
  "currentShow (hero_run (hero_mount xs) es) = None \<longleftrightarrow> xs = []"
proof -
  have inv: "hero_inv (hero_run (hero_mount xs) es)"
    and sh: "slider_shows (hero_run (hero_mount xs) es) = xs"
    using hero_mount_run by blast+
  show ?thesis
  proof (cases xs)
    case Nil
    then show ?thesis using sh by (simp add: currentShow_def)
  next
    case (Cons x xs')
    then have "int (max 1 (length xs)) = int (length xs)" by simp
    then have "0 \<le> currentSlide (hero_run (hero_mount xs) es) \<and>
               nat (currentSlide (hero_run (hero_mount xs) es)) < length xs"
      using inv sh by (simp add: hero_inv_def nat_less_iff)
    then show ?thesis using sh Cons by (simp add: currentShow_def)
  qed
qed

lemma slider_shows_pause [simp]: "slider_shows (pause_and_show i s) = slider_shows s"
  by (simp add: pause_and_show_def Let_def)

lemma currentSlide_pause [simp]: "currentSlide (pause_and_show i s) = i"
  by (simp add: pause_and_show_def Let_def)

text \<open>The previous-arrow undoes the next-arrow: from any valid slide, next then previous returns to it (also across the wrap from the last slide to the first).\<close>

theorem prev_undoes_next:
  assumes "0 \<le> currentSlide s" and "currentSlide s < int (length (slider_shows s))"
  shows "currentSlide (prevSlide (nextSlide s)) = currentSlide s"
proof -
  let ?c = "currentSlide s" and ?n = "int (length (slider_shows s))"
  have n: "0 < ?n" using assms by linarith
  have c1: "0 \<le> ?c + 1" using assms(1) by linarith
  have next_eq: "currentSlide (nextSlide s) = (?c + 1) mod ?n"
    unfolding nextSlide_def currentSlide_pause by (rule js_rem_nonneg [OF c1 n])
  have "0 \<le> (?c + 1) mod ?n" using n by simp
  then have nn: "0 \<le> (?c + 1) mod ?n - 1 + ?n" using n by linarith
  have ns: "slider_shows (nextSlide s) = slider_shows s" by (simp add: nextSlide_def)
  have "currentSlide (prevSlide (nextSlide s)) = js_rem ((?c + 1) mod ?n - 1 + ?n) ?n"
    by (simp only: prevSlide_def currentSlide_pause ns next_eq)
  also have "\<dots> = ((?c + 1) mod ?n - 1 + ?n) mod ?n" by (rule js_rem_nonneg [OF nn n])
  also have "\<dots> = ((?c + 1) mod ?n + (?n - 1)) mod ?n" by (simp only: diff_add_eq add_diff_eq)
  also have "\<dots> = ((?c + 1) + (?n - 1)) mod ?n" by (rule mod_add_left_eq)
  also have "\<dots> = (?c + ?n) mod ?n" by (simp only: add.assoc) simp
  also have "\<dots> = ?c" using assms by simp
  finally show ?thesis .
qed

lemma prev_undoes_next_witness:
  "currentSlide (prevSlide (nextSlide (hero_mount [JNum 1, JNum 2, JNum 3]))) =
   currentSlide (hero_mount [JNum 1, JNum 2, JNum 3])"
  by (rule prev_undoes_next) (simp_all add: hero_mount_def autoplay_effect_def)

lemma hero_tick_quiet:
  assumes "\<forall>d. load_timer s = Some d \<longrightarrow> Suc (hclock s) < d"
    and "\<forall>d \<in> set (resume_timers s). Suc (hclock s) < d"
    and "\<forall>d. interval_due s = Some d \<longrightarrow> Suc (hclock s) < d"
  shows "hero_tick s = s\<lparr>hclock := Suc (hclock s)\<rparr>"
proof -
  have "filter (\<lambda>d. d \<le> Suc (hclock s)) (resume_timers s) = []"
    using assms(2) by (auto simp add: filter_empty_conv)
  then show ?thesis using assms(1,3)
    by (auto simp add: hero_tick_def load_done_def resume_due_def interval_fire_def split: option.split)
qed

lemma hero_ticks_quiet:
  assumes "\<forall>d. load_timer s = Some d \<longrightarrow> hclock s + k < d"
    and "\<forall>d \<in> set (resume_timers s). hclock s + k < d"
    and "\<forall>d. interval_due s = Some d \<longrightarrow> hclock s + k < d"
  shows "hero_run s (replicate k Hero_tick) = s\<lparr>hclock := hclock s + k\<rparr>"
  using assms
proof (induction k arbitrary: s)
  case 0
  then show ?case by simp
next
  case (Suc k)
  have t: "hero_tick s = s\<lparr>hclock := Suc (hclock s)\<rparr>"
    by (rule hero_tick_quiet) (use Suc.prems in auto)
  have "hero_run (s\<lparr>hclock := Suc (hclock s)\<rparr>) (replicate k Hero_tick) =
        s\<lparr>hclock := Suc (hclock s) + k\<rparr>"
    using Suc.IH [of "s\<lparr>hclock := Suc (hclock s)\<rparr>"] Suc.prems by simp
  then show ?case using t by simp
qed

text \<open>C18. With autoplay on and no pending timeouts, 5000 ms after the interval started the slider shows the next slide, cyclically, and the interval is due again 5000 ms later.\<close>

theorem autoplay_advances:
  assumes "isAutoPlaying s" and "interval_due s = Some (hclock s + 5000)"
    and "resume_timers s = []" and "load_timer s = None"
    and "0 \<le> currentSlide s" and "1 < length (slider_shows s)"
  shows "currentSlide (hero_run s (replicate 5000 Hero_tick)) =
           (currentSlide s + 1) mod int (length (slider_shows s)) \<and>
         interval_due (hero_run s (replicate 5000 Hero_tick)) = Some (hclock s + 10000)"
proof -
  have "replicate 5000 Hero_tick = replicate (Suc 4999) Hero_tick" by simp
  also have "\<dots> = replicate 4999 Hero_tick @ [Hero_tick]"
    by (simp only: replicate_Suc replicate_append_same)
  finally have split: "replicate 5000 Hero_tick = replicate 4999 Hero_tick @ [Hero_tick]" .
  have q: "hero_run s (replicate 4999 Hero_tick) = s\<lparr>hclock := hclock s + 4999\<rparr>"
    by (rule hero_ticks_quiet) (use assms in auto)
  have "0 < int (length (slider_shows s))" using assms(6) by linarith
  then have r: "js_rem (currentSlide s + 1) (int (length (slider_shows s))) =
                (currentSlide s + 1) mod int (length (slider_shows s))"
    using assms(5) js_rem_nonneg by simp
  show ?thesis
    unfolding split hero_run_append q
    using assms r
    by (simp add: hero_tick_def load_done_def resume_due_def interval_fire_def AUTOPLAY_MS_def)
qed

lemma autoplay_advances_witness:
  "currentSlide (hero_run \<lparr>slider_shows = [JNum 1, JNum 2], currentSlide = 1, isAutoPlaying = True,
       isLoaded = True, hclock = 200, interval_due = Some (200 + 5000), resume_timers = [], load_timer = None\<rparr>
       (replicate 5000 Hero_tick)) =
     (1 + 1) mod int (length [JNum 1, JNum 2]) \<and>
   interval_due (hero_run \<lparr>slider_shows = [JNum 1, JNum 2], currentSlide = 1, isAutoPlaying = True,
       isLoaded = True, hclock = 200, interval_due = Some (200 + 5000), resume_timers = [], load_timer = None\<rparr>
       (replicate 5000 Hero_tick)) = Some (200 + 10000)"
  using autoplay_advances [of "\<lparr>slider_shows = [JNum 1, JNum 2], currentSlide = 1,
       isAutoPlaying = True, isLoaded = True, hclock = 200, interval_due = Some (200 + 5000),
       resume_timers = [], load_timer = None\<rparr>"] by simp

text \<open>C32. The resume timeouts are never cleared: after clicks at 0 ms and 9000 ms autoplay is back on at 10000 ms, 1000 ms after the last click rather than 10000 ms.\<close>

theorem resume_after_last_click:
  "let s = hero_run (hero_mount [JNum 1, JNum 2, JNum 3])
             ([Hero_next] @ replicate 9000 Hero_tick @ [Hero_next] @ replicate 1000 Hero_tick)
   in isAutoPlaying s \<and> hclock s = 10000 \<and> currentSlide s = 2"
proof -
  let ?xs = "[JNum 1, JNum 2, JNum 3]"
  let ?s1 = "\<lparr>slider_shows = ?xs, currentSlide = 1, isAutoPlaying = False, isLoaded = False, hclock = 0,
              interval_due = None, resume_timers = [10000], load_timer = Some 100\<rparr>"
  have s1: "hero_step (hero_mount ?xs) Hero_next = ?s1"
    by (simp add: hero_mount_def autoplay_effect_def nextSlide_def pause_and_show_def set_auto_def
        js_rem_def LOAD_MS_def AUTOPLAY_MS_def RESUME_MS_def)
  have r9000: "replicate 9000 Hero_tick = replicate 99 Hero_tick @ [Hero_tick] @ replicate 8900 Hero_tick"
    using replicate_split3 [of 99 8900 Hero_tick] by simp
  have r1000: "replicate 1000 Hero_tick = replicate 999 Hero_tick @ [Hero_tick] @ replicate 0 Hero_tick"
    using replicate_split3 [of 999 0 Hero_tick] by simp
  have q1: "hero_run ?s1 (replicate 99 Hero_tick) = ?s1\<lparr>hclock := 99\<rparr>"
    using hero_ticks_quiet [of ?s1 99] by simp
  have t1: "hero_step (?s1\<lparr>hclock := 99\<rparr>) Hero_tick = ?s1\<lparr>hclock := 100, isLoaded := True, load_timer := None\<rparr>"
    by (simp add: hero_tick_def load_done_def resume_due_def interval_fire_def)
  have q2: "hero_run (?s1\<lparr>hclock := 100, isLoaded := True, load_timer := None\<rparr>) (replicate 8900 Hero_tick) =
            ?s1\<lparr>hclock := 9000, isLoaded := True, load_timer := None\<rparr>"
    using hero_ticks_quiet [of "?s1\<lparr>hclock := 100, isLoaded := True, load_timer := None\<rparr>" 8900] by simp
  have n2: "hero_step (?s1\<lparr>hclock := 9000, isLoaded := True, load_timer := None\<rparr>) Hero_next =
            ?s1\<lparr>hclock := 9000, isLoaded := True, load_timer := None, currentSlide := 2,
                 resume_timers := [10000, 19000]\<rparr>"
    by (simp add: nextSlide_def pause_and_show_def set_auto_def js_rem_def RESUME_MS_def)
  have q3: "hero_run (?s1\<lparr>hclock := 9000, isLoaded := True, load_timer := None, currentSlide := 2,
                 resume_timers := [10000, 19000]\<rparr>) (replicate 999 Hero_tick) =
            ?s1\<lparr>hclock := 9999, isLoaded := True, load_timer := None, currentSlide := 2,
                 resume_timers := [10000, 19000]\<rparr>"
    using hero_ticks_quiet [of "?s1\<lparr>hclock := 9000, isLoaded := True, load_timer := None, currentSlide := 2,
                 resume_timers := [10000, 19000]\<rparr>" 999] by simp
  have t2: "hero_step (?s1\<lparr>hclock := 9999, isLoaded := True, load_timer := None, currentSlide := 2,
                 resume_timers := [10000, 19000]\<rparr>) Hero_tick =
            ?s1\<lparr>hclock := 10000, isLoaded := True, load_timer := None, currentSlide := 2,
                 resume_timers := [19000], isAutoPlaying := True, interval_due := Some 15000\<rparr>"
    by (simp add: hero_tick_def load_done_def resume_due_def interval_fire_def set_auto_def
        autoplay_effect_def AUTOPLAY_MS_def)
  show ?thesis
    unfolding Let_def r9000 r1000
    by (simp only: hero_run_append hero_run.simps s1 q1 t1 q2 n2 q3 t2 replicate_0) simp
qed

lemma interval_load_done [simp]: "interval_due (load_done t s) = interval_due s"
  and currentSlide_load_done [simp]: "currentSlide (load_done t s) = currentSlide s"
  and auto_load_done [simp]: "isAutoPlaying (load_done t s) = isAutoPlaying s"
  and shows_load_done [simp]: "slider_shows (load_done t s) = slider_shows s"
  by (simp_all add: load_done_def split: option.split)

lemma resume_due_fields:
  assumes "interval_due s \<noteq> None \<longrightarrow> isAutoPlaying s"
  shows "currentSlide (resume_due t s) = currentSlide s \<and> slider_shows (resume_due t s) = slider_shows s \<and>
         interval_due (resume_due t s) =
           (if interval_due s = None \<and> filter (\<lambda>d. d \<le> t) (resume_timers s) \<noteq> [] \<and> \<not> isAutoPlaying s
            then (if 1 < length (slider_shows s) then Some (hclock s + AUTOPLAY_MS) else None)
            else interval_due s)"
  using assms by (auto simp add: resume_due_def set_auto_def autoplay_effect_def)

lemma currentSlide_tick:
  assumes "hero_inv s"
  shows "currentSlide (hero_tick s) =
           (case interval_due s of
              Some d \<Rightarrow> if d \<le> Suc (hclock s)
                        then js_rem (currentSlide s + 1) (int (length (slider_shows s)))
                        else currentSlide s
            | None \<Rightarrow> currentSlide s)"
proof -
  let ?t = "Suc (hclock s)"
  let ?s2 = "load_done ?t (s\<lparr>hclock := ?t\<rparr>)"
  have pre: "interval_due ?s2 \<noteq> None \<longrightarrow> isAutoPlaying ?s2"
    using assms by (simp add: hero_inv_def)
  note r = resume_due_fields [OF pre, of ?t]
  have "hclock ?s2 = ?t" by (simp add: load_done_def split: option.split)
  then show ?thesis
    using r by (auto simp add: hero_tick_def interval_fire_def AUTOPLAY_MS_def split: option.split)
qed

text \<open>C17. The slider refines the abstract cyclic position: on every valid state each event moves \<open>currentSlide\<close> exactly as its abstract operation (advance, back, jump, stay) moves a position on a cycle of \<open>n\<close> slides.\<close>

theorem hero_refines_spec:
  assumes "hero_inv s" and "slider_shows s \<noteq> []"
  shows "nat (currentSlide (hero_step s e)) =
           slide_spec (length (slider_shows s)) (nat (currentSlide s)) (hero_op s e)"
proof -
  let ?c = "currentSlide s" and ?n = "length (slider_shows s)"
  have c: "0 \<le> ?c" and n: "0 < ?n" using assms by (auto simp add: hero_inv_def)
  have adv: "nat (js_rem (?c + 1) (int ?n)) = (nat ?c + 1) mod ?n"
    using c n by (simp add: js_rem_nonneg nat_mod_distrib nat_add_distrib)
  show ?thesis
  proof (cases e)
    case Hero_next
    then show ?thesis using assms adv by (simp add: nextSlide_def)
  next
    case Hero_prev
    have nn: "0 \<le> ?c - 1 + int ?n" using c n by linarith
    have ni: "0 < int ?n" using n by simp
    have "nat (js_rem (?c - 1 + int ?n) (int ?n)) = nat ((?c - 1 + int ?n) mod int ?n)"
      by (simp only: js_rem_nonneg [OF nn ni])
    also have "\<dots> = nat (?c - 1 + int ?n) mod nat (int ?n)"
      using nn ni by (simp only: nat_mod_distrib less_imp_le)
    finally have "nat (js_rem (?c - 1 + int ?n) (int ?n)) = nat (?c - 1 + int ?n) mod ?n"
      by (simp only: nat_int)
    moreover have "nat (?c - 1 + int ?n) = nat ?c + ?n - 1" using c n by linarith
    ultimately show ?thesis using Hero_prev assms by (simp add: prevSlide_def)
  next
    case (Hero_dot j)
    then show ?thesis by (simp add: goToSlide_def)
  next
    case Hero_tick
    then show ?thesis
      using currentSlide_tick [OF assms(1)] adv by (simp split: option.split)
  qed
qed

lemma hero_refines_spec_witness:
  "nat (currentSlide (hero_step (hero_mount [JNum 1, JNum 2, JNum 3]) Hero_prev)) =
   slide_spec (length (slider_shows (hero_mount [JNum 1, JNum 2, JNum 3])))
     (nat (currentSlide (hero_mount [JNum 1, JNum 2, JNum 3])))
     (hero_op (hero_mount [JNum 1, JNum 2, JNum 3]) Hero_prev)"
  by (rule hero_refines_spec) (simp_all add: hero_inv_def hero_mount_def autoplay_effect_def)

text \<open>C20. The arrows keep the slide index within the shows: from a slide in
  \<open>[0, n)\<close>, \<open>(prev + 1) % n\<close> and \<open>(prev - 1 + n) % n\<close> are again in \<open>[0, n)\<close>
  (JavaScript's \<open>%\<close> keeps the dividend's sign, so the \<open>+ n\<close> is what keeps the
  previous arrow off \<open>-1\<close> at the first slide).\<close>

theorem arrow_slide_bounds:
  assumes "0 \<le> currentSlide s" and "currentSlide s < int (length (slider_shows s))"
  shows "0 \<le> currentSlide (nextSlide s) \<and> currentSlide (nextSlide s) < int (length (slider_shows s)) \<and>
         0 \<le> currentSlide (prevSlide s) \<and> currentSlide (prevSlide s) < int (length (slider_shows s))"
proof -
  let ?n = "int (length (slider_shows s))"
  have n: "0 < ?n" using assms by linarith
  have "currentSlide (nextSlide s) = (currentSlide s + 1) mod ?n"
    using assms(1) n by (simp add: nextSlide_def js_rem_nonneg)
  moreover have "currentSlide (prevSlide s) = (currentSlide s - 1 + ?n) mod ?n"
    using assms n by (simp add: prevSlide_def js_rem_nonneg)
  ultimately show ?thesis using mod_range [OF n] by simp
qed

lemma arrow_slide_bounds_witness:
  "0 \<le> currentSlide (nextSlide (hero_mount [JNull, JNull])) \<and>
   currentSlide (nextSlide (hero_mount [JNull, JNull])) < int (length (slider_shows (hero_mount [JNull, JNull]))) \<and>
   0 \<le> currentSlide (prevSlide (hero_mount [JNull, JNull])) \<and>
   currentSlide (prevSlide (hero_mount [JNull, JNull])) < int (length (slider_shows (hero_mount [JNull, JNull])))"
  by (rule arrow_slide_bounds) (simp_all add: hero_mount_def autoplay_effect_def)

lemma HeroSlider_view_shown:
  assumes "hero_inv s" and "slider_shows s \<noteq> []"
  shows "\<exists>v. HeroSlider_view s = Hero_shown v \<and> nat (currentSlide s) < length (slider_shows s) \<and>
             hv_dots v = map (\<lambda>j. j = nat (currentSlide s)) [0..<length (slider_shows s)] \<and>
             map snd (hv_backdrops v) = hv_dots v \<and>
             hv_name v = jsx_field (slider_shows s ! nat (currentSlide s)) ''name'' \<and>
             hv_content_shown v = isLoaded s"
proof -
  have m: "int (max 1 (length (slider_shows s))) = int (length (slider_shows s))"
    using assms(2) by (cases "slider_shows s") auto
  have c0: "0 \<le> currentSlide s" and il: "nat (currentSlide s) < length (slider_shows s)"
    using assms(1) m unfolding hero_inv_def by auto
  have "currentShow s = Some (slider_shows s ! nat (currentSlide s))"
    using c0 il by (simp add: currentShow_def)
  moreover have "map (\<lambda>j. int j = currentSlide s) [0..<length (slider_shows s)] =
                 map (\<lambda>j. j = nat (currentSlide s)) [0..<length (slider_shows s)]"
    using c0 by (intro map_cong) auto
  ultimately show ?thesis
    using assms(2) il by (simp add: HeroSlider_view_def comp_def)
qed

text \<open>C19. Whatever the clicks and however much time passes, a slider with shows renders
  exactly one active dot and one opaque backdrop, both at the same slide, and the heading is
  that slide's show's name.\<close>

theorem hero_view_one_active:
  assumes "xs \<noteq> []"
  shows "\<exists>v i. HeroSlider_view (hero_run (hero_mount xs) es) = Hero_shown v \<and> i < length xs \<and>
           hv_dots v = map (\<lambda>j. j = i) [0..<length xs] \<and> map snd (hv_backdrops v) = hv_dots v \<and>
           hv_name v = jsx_field (xs ! i) ''name''"
  using HeroSlider_view_shown [of "hero_run (hero_mount xs) es"] hero_mount_run [of xs es] assms
  by auto

lemma hero_view_one_active_witness:
  "\<exists>v i. HeroSlider_view (hero_run (hero_mount [JObj [(''name'', JStr ''A'')], JObj [(''name'', JStr ''B'')]])
           [Hero_next, Hero_tick]) = Hero_shown v \<and> i < length [JObj [(''name'', JStr ''A'')], JObj [(''name'', JStr ''B'')]] \<and>
         hv_dots v = map (\<lambda>j. j = i) [0..<length [JObj [(''name'', JStr ''A'')], JObj [(''name'', JStr ''B'')]]] \<and>
         map snd (hv_backdrops v) = hv_dots v \<and>
         hv_name v = jsx_field ([JObj [(''name'', JStr ''A'')], JObj [(''name'', JStr ''B'')]] ! i) ''name''"
  by (rule hero_view_one_active) simp

end
