(* ===== verification/Carousel.thy ===== *)
theory Carousel
  imports Prelude
begin

text \<open>
  The list carousels, \<^verbatim>\<open>components/Carousel.tsx\<close>: the section id derived from the
  title, and the scroll state: the two arrow flags computed from the scroll container's
  geometry (\<open>checkScrollButtons\<close>), the \<open>isScrolling\<close> guard an arrow press sets for
  500 ms, and the \<open>scrollTo\<close> targets the presses ask the browser for. The geometry
  (\<open>scrollLeft\<close>, \<open>scrollWidth\<close>, \<open>clientWidth\<close>) is the browser's: it arrives with
  the scroll and resize events. \<open>String.prototype.toLowerCase\<close> and the regular
  expression \<open>/\s+/g\<close> are modelled from ECMAScript on Latin-1 strings.
\<close>

subsection \<open>The section id\<close>

text \<open>\<open>replace(/\s+/g, "-")\<close>: every maximal run of white space becomes one dash.\<close>

function ws_to_dash :: "string \<Rightarrow> string" where
  "ws_to_dash [] = []"
| "ws_to_dash (c # cs) =
     (if is_js_space c then CHR ''-'' # ws_to_dash (dropWhile is_js_space cs) else c # ws_to_dash cs)"
  by pat_completeness auto
termination
  by (relation "measure length") (auto simp add: le_imp_less_Suc length_dropWhile_le)

definition carousel_id :: "string \<Rightarrow> string" where
  "carousel_id title = ws_to_dash (js_toLowerCase title)"

subsection \<open>The scroll state\<close>

type_synonym geometry = "rat \<times> rat \<times> rat"

record carousel =
  canScrollLeft :: bool
  canScrollRight :: bool
  cIsScrolling :: bool
  c_geometry :: geometry
  c_timer :: "ms option"
  c_clock :: ms
  scroll_targets :: "rat list"

definition checkScrollButtons :: "carousel \<Rightarrow> carousel" where
  "checkScrollButtons s =
     (case c_geometry s of (scrollLeft, scrollWidth, clientWidth) \<Rightarrow>
        s\<lparr>canScrollLeft := 0 < scrollLeft,
          canScrollRight := scrollLeft < scrollWidth - clientWidth - 10\<rparr>)"

text \<open>Mounting: the initial flags, then the effect on \<open>[shows]\<close> checks the geometry.\<close>

definition carousel_mount :: "geometry \<Rightarrow> carousel" where
  "carousel_mount g =
     checkScrollButtons \<lparr>canScrollLeft = False, canScrollRight = True, cIsScrolling = False,
        c_geometry = g, c_timer = None, c_clock = 0, scroll_targets = []\<rparr>"

datatype direction = Left | Right

text \<open>\<open>scroll(direction)\<close> with the window's \<open>innerWidth\<close>.\<close>

definition carousel_scroll :: "direction \<Rightarrow> rat \<Rightarrow> carousel \<Rightarrow> carousel" where
  "carousel_scroll dir innerWidth s =
     (if \<not> cIsScrolling s then
        (let scrollAmount = (if innerWidth < 768 then 200 else 320);
             newScrollLeft = fst (c_geometry s) + (if dir = Left then - scrollAmount else scrollAmount)
         in s\<lparr>cIsScrolling := True, scroll_targets := scroll_targets s @ [newScrollLeft],
              c_timer := Some (c_clock s + 500)\<rparr>)
      else s)"

datatype carousel_event =
    C_scroll geometry
  | C_resize geometry
  | C_arrow direction rat
  | C_tick

text \<open>An arrow is rendered only while its flag is set (and is \<open>disabled\<close> while
  scrolling, which \<open>scroll\<close> also checks). One tick is one millisecond; the timeout
  callback clears the guard and checks the geometry again.\<close>

fun carousel_step :: "carousel \<Rightarrow> carousel_event \<Rightarrow> carousel" where
  "carousel_step s (C_scroll g) = checkScrollButtons (s\<lparr>c_geometry := g\<rparr>)"
| "carousel_step s (C_resize g) = checkScrollButtons (s\<lparr>c_geometry := g\<rparr>)"
| "carousel_step s (C_arrow dir w) =
     (if (dir = Left \<and> canScrollLeft s) \<or> (dir = Right \<and> canScrollRight s)
      then carousel_scroll dir w s else s)"
| "carousel_step s C_tick =
     (case c_timer s of
        Some t \<Rightarrow> if t \<le> Suc (c_clock s)
                  then checkScrollButtons (s\<lparr>c_clock := Suc (c_clock s), cIsScrolling := False, c_timer := None\<rparr>)
                  else s\<lparr>c_clock := Suc (c_clock s)\<rparr>
      | None \<Rightarrow> s\<lparr>c_clock := Suc (c_clock s)\<rparr>)"

fun carousel_run :: "carousel \<Rightarrow> carousel_event list \<Rightarrow> carousel" where
  "carousel_run s [] = s"
| "carousel_run s (e # es) = carousel_run (carousel_step s e) es"

subsection \<open>Properties of the carousel\<close>

lemma ws_to_dash_no_space: "c \<in> set (ws_to_dash s) \<Longrightarrow> \<not> is_js_space c"
  by (induction s rule: ws_to_dash.induct) (auto simp add: is_js_space_def split: if_splits)

lemma length_js_toLowerCase [simp]: "length (js_toLowerCase s) = length s"
  by (simp add: js_toLowerCase_def)

lemma ws_to_dash_word:
  "\<forall>c \<in> set w. \<not> is_js_space c \<Longrightarrow> ws_to_dash (w @ r) = w @ ws_to_dash r"
  by (induction w) auto

lemma ws_to_dash_gap:
  assumes "g \<noteq> []" and "\<forall>c \<in> set g. is_js_space c" and "w \<noteq> []" and "\<not> is_js_space (hd w)"
  shows "ws_to_dash (g @ w @ r) = CHR ''-'' # ws_to_dash (w @ r)"
proof -
  obtain c g' where g: "g = c # g'" using assms(1) by (cases g) auto
  obtain d w' where w: "w = d # w'" using assms(3) by (cases w) auto
  have "dropWhile is_js_space (g' @ w @ r) = w @ r"
    using assms(2,4) unfolding g w by (simp add: dropWhile_append2)
  then show ?thesis using assms(2) unfolding g by simp
qed

lemma ws_to_dash_words:
  assumes "\<forall>c \<in> set w0. \<not> is_js_space c"
    and "\<forall>(g, w) \<in> set ps. g \<noteq> [] \<and> (\<forall>c \<in> set g. is_js_space c) \<and> w \<noteq> [] \<and> (\<forall>c \<in> set w. \<not> is_js_space c)"
  shows "ws_to_dash (w0 @ concat (map (\<lambda>(g, w). g @ w) ps)) = w0 @ concat (map (\<lambda>(g, w). ''-'' @ w) ps)"
  using assms
proof (induction ps arbitrary: w0)
  case Nil
  then show ?case using ws_to_dash_word [of w0 "[]"] by simp
next
  case (Cons p ps)
  obtain g w where p: "p = (g, w)" by (cases p)
  have gw: "g \<noteq> []" "\<forall>c \<in> set g. is_js_space c" "w \<noteq> []" "\<forall>c \<in> set w. \<not> is_js_space c"
    using Cons.prems(2) unfolding p by auto
  then have "\<not> is_js_space (hd w)" by (cases w) auto
  then have "ws_to_dash (g @ w @ concat (map (\<lambda>(g, w). g @ w) ps)) =
             CHR ''-'' # ws_to_dash (w @ concat (map (\<lambda>(g, w). g @ w) ps))"
    using gw by (rule_tac ws_to_dash_gap) auto
  moreover have "ws_to_dash (w @ concat (map (\<lambda>(g, w). g @ w) ps)) = w @ concat (map (\<lambda>(g, w). ''-'' @ w) ps)"
    using Cons.IH [of w] Cons.prems(2) gw(4) by simp
  ultimately show ?case
    using ws_to_dash_word [OF Cons.prems(1)] unfolding p by simp
qed

lemma js_toLowerCase_append: "js_toLowerCase (a @ b) = js_toLowerCase a @ js_toLowerCase b"
  by (simp add: js_toLowerCase_def)

lemma js_toLowerCase_space: "c' \<in> set (js_toLowerCase s) \<Longrightarrow> \<exists>c \<in> set s. is_js_space c' = is_js_space c"
proof -
  assume "c' \<in> set (js_toLowerCase s)"
  then obtain c where c: "c \<in> set s" and c': "c' = (let n = (of_char c :: nat) in
      if (65 \<le> n \<and> n \<le> 90) \<or> (192 \<le> n \<and> n \<le> 222 \<and> n \<noteq> 215) then char_of (n + 32) else c)"
    unfolding js_toLowerCase_def by auto
  show ?thesis
  proof (cases "(65 \<le> (of_char c :: nat) \<and> (of_char c :: nat) \<le> 90) \<or>
                (192 \<le> (of_char c :: nat) \<and> (of_char c :: nat) \<le> 222 \<and> (of_char c :: nat) \<noteq> 215)")
    case True
    then have "(of_char c' :: nat) = of_char c + 32" using c' by (auto simp add: Let_def)
    then have "\<not> is_js_space c'" and "\<not> is_js_space c" using True by (auto simp add: is_js_space_def)
    then show ?thesis using c by blast
  next
    case False
    then show ?thesis using c c' by (auto simp add: Let_def)
  qed
qed

lemma js_toLowerCase_props:
  "(\<forall>c \<in> set s. is_js_space c) \<Longrightarrow> \<forall>c \<in> set (js_toLowerCase s). is_js_space c"
  "(\<forall>c \<in> set s. \<not> is_js_space c) \<Longrightarrow> \<forall>c \<in> set (js_toLowerCase s). \<not> is_js_space c"
  "s \<noteq> [] \<Longrightarrow> js_toLowerCase s \<noteq> []"
proof -
  show "(\<forall>c \<in> set s. is_js_space c) \<Longrightarrow> \<forall>c \<in> set (js_toLowerCase s). is_js_space c"
    by (metis js_toLowerCase_space)
  show "(\<forall>c \<in> set s. \<not> is_js_space c) \<Longrightarrow> \<forall>c \<in> set (js_toLowerCase s). \<not> is_js_space c"
    by (metis js_toLowerCase_space)
  show "s \<noteq> [] \<Longrightarrow> js_toLowerCase s \<noteq> []" by (simp add: js_toLowerCase_def)
qed

text \<open>C23. A title of words separated by runs of white space gets as its id the
  lower-cased words joined by single dashes: every run, however long, becomes one dash
  (\<open>/\s+/g\<close>), and nothing else is changed.\<close>

theorem carousel_id_words:
  assumes "\<forall>c \<in> set w0. \<not> is_js_space c"
    and "\<forall>(g, w) \<in> set ps. g \<noteq> [] \<and> (\<forall>c \<in> set g. is_js_space c) \<and> w \<noteq> [] \<and> (\<forall>c \<in> set w. \<not> is_js_space c)"
  shows "carousel_id (w0 @ concat (map (\<lambda>(g, w). g @ w) ps)) =
           js_toLowerCase w0 @ concat (map (\<lambda>(g, w). ''-'' @ js_toLowerCase w) ps)"
proof -
  let ?ps = "map (\<lambda>(g, w). (js_toLowerCase g, js_toLowerCase w)) ps"
  have l: "js_toLowerCase (concat (map (\<lambda>(g, w). g @ w) ps)) = concat (map (\<lambda>(g, w). g @ w) ?ps)"
    by (induction ps) (auto simp add: js_toLowerCase_append js_toLowerCase_def)
  have h1: "\<forall>c \<in> set (js_toLowerCase w0). \<not> is_js_space c"
    using assms(1) by (rule js_toLowerCase_props(2))
  have h2: "\<forall>(g, w) \<in> set ?ps. g \<noteq> [] \<and> (\<forall>c \<in> set g. is_js_space c) \<and> w \<noteq> [] \<and> (\<forall>c \<in> set w. \<not> is_js_space c)"
  proof
    fix p assume "p \<in> set ?ps"
    then obtain g w where gw: "(g, w) \<in> set ps" and p: "p = (js_toLowerCase g, js_toLowerCase w)" by auto
    have "g \<noteq> [] \<and> (\<forall>c \<in> set g. is_js_space c) \<and> w \<noteq> [] \<and> (\<forall>c \<in> set w. \<not> is_js_space c)"
      using assms(2) gw by blast
    then show "case p of (g, w) \<Rightarrow> g \<noteq> [] \<and> (\<forall>c \<in> set g. is_js_space c) \<and> w \<noteq> [] \<and> (\<forall>c \<in> set w. \<not> is_js_space c)"
      unfolding p
      using js_toLowerCase_props(1) [of g] js_toLowerCase_props(2) [of w] js_toLowerCase_props(3) [of g]
        js_toLowerCase_props(3) [of w]
      by simp
  qed
  have "ws_to_dash (js_toLowerCase w0 @ concat (map (\<lambda>(g, w). g @ w) ?ps)) =
        js_toLowerCase w0 @ concat (map (\<lambda>(g, w). ''-'' @ w) ?ps)"
    by (rule ws_to_dash_words [OF h1 h2])
  moreover have "concat (map (\<lambda>(g, w). ''-'' @ w) ?ps) = concat (map (\<lambda>(g, w). ''-'' @ js_toLowerCase w) ps)"
    by (induction ps) auto
  ultimately show ?thesis unfolding carousel_id_def js_toLowerCase_append l by simp
qed

lemma carousel_id_words_witness:
  "carousel_id (''Trending'' @ concat (map (\<lambda>(g, w). g @ w) [(''  '', ''Now'')])) =
     js_toLowerCase ''Trending'' @ concat (map (\<lambda>(g, w). ''-'' @ js_toLowerCase w) [(''  '', ''Now'')])"
  by (rule carousel_id_words) (simp_all add: is_js_space_def)

lemma home_carousel_ids:
  "carousel_id ''Trending Now'' = ''trending-now'' \<and> carousel_id ''Top Rated'' = ''top-rated'' \<and>
   carousel_id ''Airing Today'' = ''airing-today''"
  by code_simp

lemma carousel_ticks_pending:
  "c_timer s = Some t \<Longrightarrow> c_clock s + k < t \<Longrightarrow>
   carousel_run s (replicate k C_tick) = s\<lparr>c_clock := c_clock s + k\<rparr>"
proof (induction k arbitrary: s)
  case 0
  then show ?case by simp
next
  case (Suc k)
  have "carousel_step s C_tick = s\<lparr>c_clock := Suc (c_clock s)\<rparr>" using Suc.prems by simp
  moreover have "carousel_run (s\<lparr>c_clock := Suc (c_clock s)\<rparr>) (replicate k C_tick) =
                 s\<lparr>c_clock := Suc (c_clock s) + k\<rparr>"
    using Suc.IH [of "s\<lparr>c_clock := Suc (c_clock s)\<rparr>"] Suc.prems by simp
  ultimately show ?case by simp
qed

lemma carousel_run_append [simp]: "carousel_run s (xs @ ys) = carousel_run (carousel_run s xs) ys"
  by (induction xs arbitrary: s) auto

lemma carousel_step_scrolling:
  "cIsScrolling s \<Longrightarrow> carousel_step s (C_arrow d w) = s"
  by (simp add: carousel_scroll_def)

text \<open>C22. An arrow press starts at most one scroll per 500 ms: a second press within
  that time, of either arrow, asks the browser for nothing.\<close>

theorem arrow_rate_limited:
  assumes "\<not> cIsScrolling s" and "canScrollRight s" and "k < 500"
  shows "scroll_targets (carousel_run s ([C_arrow Right w] @ replicate k C_tick @ [C_arrow d w'])) =
           scroll_targets s @ [fst (c_geometry s) + (if w < 768 then 200 else 320)]"
proof -
  let ?s1 = "s\<lparr>cIsScrolling := True,
               scroll_targets := scroll_targets s @ [fst (c_geometry s) + (if w < 768 then 200 else 320)],
               c_timer := Some (c_clock s + 500)\<rparr>"
  have s1: "carousel_step s (C_arrow Right w) = ?s1"
    using assms by (simp add: carousel_scroll_def Let_def)
  have t: "carousel_run ?s1 (replicate k C_tick) = ?s1\<lparr>c_clock := c_clock s + k\<rparr>"
    using carousel_ticks_pending [of ?s1 "c_clock s + 500" k] assms(3) by simp
  have "carousel_run s ([C_arrow Right w] @ replicate k C_tick @ [C_arrow d w']) =
        carousel_step (carousel_run (carousel_step s (C_arrow Right w)) (replicate k C_tick)) (C_arrow d w')"
    by (simp only: carousel_run_append carousel_run.simps)
  also have "\<dots> = ?s1\<lparr>c_clock := c_clock s + k\<rparr>"
    unfolding s1 t by (rule carousel_step_scrolling) simp
  finally show ?thesis by simp
qed

lemma arrow_rate_limited_witness:
  "scroll_targets (carousel_run (carousel_mount (0, 2000, 800))
       ([C_arrow Right 1024] @ replicate 100 C_tick @ [C_arrow Left 1024])) =
   scroll_targets (carousel_mount (0, 2000, 800)) @
     [fst (c_geometry (carousel_mount (0, 2000, 800))) + (if (1024::rat) < 768 then 200 else 320)]"
  by (rule arrow_rate_limited) (simp_all add: carousel_mount_def checkScrollButtons_def)

end
