(* ===== verification/Header.thy ===== *)
theory Header
  imports SearchBar
begin

text \<open>
  The site header, \<^verbatim>\<open>components/Header.tsx\<close>: the menu and search toggles, the
  navigation anchors, and the two search boxes it renders: the desktop one, always
  mounted, and the mobile one, mounted while the search panel is open and given an
  \<open>onClose\<close> that closes the panel. Each box is a \<open>search_bar\<close> (theory
  \<open>SearchBar\<close>) stepped by the header; the navigations the boxes start are collected in
  \<open>nav_log\<close> (the mobile box's state disappears when it is unmounted).
\<close>

definition header_nav_anchors :: "string list" where
  "header_nav_anchors = [''#trending'', ''#top-rated'', ''#airing-today'']"

record header =
  isMenuOpen :: bool
  isSearchOpen :: bool
  desk_search :: search_bar
  mobile_search :: "search_bar option"
  nav_log :: "json option list"

definition header_init :: header where
  "header_init = \<lparr>isMenuOpen = False, isSearchOpen = False, desk_search = sb_init,
                  mobile_search = None, nav_log = []\<rparr>"

datatype header_event =
    Toggle_search
  | Toggle_menu
  | Menu_link
  | Desk sb_event
  | Mobile sb_event

text \<open>The navigations a box started during one step.\<close>

definition new_pushes :: "search_bar \<Rightarrow> search_bar \<Rightarrow> json option list" where
  "new_pushes sb sb' = drop (length (pushed sb)) (pushed sb')"

text \<open>\<open>setIsSearchOpen(!isSearchOpen)\<close> mounts or unmounts the mobile box;
  \<open>setIsMenuOpen(!isMenuOpen)\<close>; a link of the open menu closes it. The desktop box has no
  \<open>onClose\<close>; a call of the mobile box's \<open>onClose\<close> (\<open>closes\<close> grew) closes the panel,
  which unmounts the box.\<close>

fun header_step :: "header \<Rightarrow> header_event \<Rightarrow> header" where
  "header_step h Toggle_search =
     (if isSearchOpen h then h\<lparr>isSearchOpen := False, mobile_search := None\<rparr>
      else h\<lparr>isSearchOpen := True, mobile_search := Some sb_init\<rparr>)"
| "header_step h Toggle_menu = h\<lparr>isMenuOpen := \<not> isMenuOpen h\<rparr>"
| "header_step h Menu_link = (if isMenuOpen h then h\<lparr>isMenuOpen := False\<rparr> else h)"
| "header_step h (Desk e) =
     (let sb' = sb_step (desk_search h) e in
      h\<lparr>desk_search := sb', nav_log := nav_log h @ new_pushes (desk_search h) sb'\<rparr>)"
| "header_step h (Mobile e) =
     (case mobile_search h of
        None \<Rightarrow> h
      | Some sb \<Rightarrow>
          (let sb' = sb_step sb e in
           if closes sb' \<noteq> closes sb
           then h\<lparr>isSearchOpen := False, mobile_search := None, nav_log := nav_log h @ new_pushes sb sb'\<rparr>
           else h\<lparr>mobile_search := Some sb', nav_log := nav_log h @ new_pushes sb sb'\<rparr>))"

fun header_run :: "header \<Rightarrow> header_event list \<Rightarrow> header" where
  "header_run h [] = h"
| "header_run h (e # es) = header_run (header_step h e) es"

subsection \<open>Properties of the header\<close>

lemma header_panel_step:
  "(isSearchOpen h \<longleftrightarrow> mobile_search h \<noteq> None) \<Longrightarrow>
   (isSearchOpen (header_step h e) \<longleftrightarrow> mobile_search (header_step h e) \<noteq> None)"
  by (cases e) (auto simp add: Let_def split: option.split)

text \<open>In every state of the header the mobile search box is mounted exactly while the
  search panel is open.\<close>

theorem search_panel_mounted:
  "isSearchOpen (header_run header_init es) \<longleftrightarrow> mobile_search (header_run header_init es) \<noteq> None"
proof -
  have "(isSearchOpen h \<longleftrightarrow> mobile_search h \<noteq> None) \<Longrightarrow>
        (isSearchOpen (header_run h es) \<longleftrightarrow> mobile_search (header_run h es) \<noteq> None)" for h
    by (induction es arbitrary: h) (simp_all add: header_panel_step)
  then show ?thesis by (simp add: header_init_def)
qed

text \<open>C21. Choosing a result in the mobile search box navigates to the show and, through
  \<open>onClose\<close>, closes the search panel, unmounting the box.\<close>

theorem mobile_result_closes_panel:
  assumes "mobile_search h = Some sb"
    and "dropdown_open sb" and "\<not> isLoading sb" and "js_trim (query sb) \<noteq> []"
    and "results sb = JArr xs" and "k < length xs" and "xs ! k = JObj kvs"
    and "map_of (rev kvs) ''id'' = Some i"
  shows "\<not> isSearchOpen (header_step h (Mobile (Result_click k))) \<and>
         mobile_search (header_step h (Mobile (Result_click k))) = None \<and>
         nav_log (header_step h (Mobile (Result_click k))) = nav_log h @ [Some i]"
proof -
  have "sb_step sb (Result_click k) = handleResultClick (Some i) sb"
    by (rule sb_step_Result_click) (use assms in simp_all)
  then show ?thesis
    using assms(1) by (simp add: handleResultClick_fields new_pushes_def)
qed

lemma mobile_result_closes_panel_witness:
  "let h = header_run header_init [Toggle_search, Mobile (Type ''x''), Mobile (Tick 500),
             Mobile (Respond 0 (Some (JObj [(''results'', JArr [JObj [(''id'', JNum 42)]])])))] in
   \<not> isSearchOpen (header_step h (Mobile (Result_click 0))) \<and>
   mobile_search (header_step h (Mobile (Result_click 0))) = None \<and>
   nav_log (header_step h (Mobile (Result_click 0))) = nav_log h @ [Some (JNum 42)]"
  unfolding Let_def
proof (rule mobile_result_closes_panel
    [where sb = "sb_run sb_init [Type ''x'', Tick 500,
                   Respond 0 (Some (JObj [(''results'', JArr [JObj [(''id'', JNum 42)]])]))]"
       and xs = "[JObj [(''id'', JNum 42)]]" and kvs = "[(''id'', JNum 42)]"])
  let ?s = "sb_run sb_init [Type ''x'', Tick 500,
              Respond 0 (Some (JObj [(''results'', JArr [JObj [(''id'', JNum 42)]])]))]"
  show "mobile_search (header_run header_init [Toggle_search, Mobile (Type ''x''), Mobile (Tick 500),
          Mobile (Respond 0 (Some (JObj [(''results'', JArr [JObj [(''id'', JNum 42)]])])))]) = Some ?s"
    by code_simp
  show "dropdown_open ?s" by code_simp
  show "\<not> isLoading ?s" by code_simp
  show "js_trim (query ?s) \<noteq> []" by code_simp
  show "results ?s = JArr [JObj [(''id'', JNum 42)]]" by code_simp
qed simp_all

end
