(* ===== verification/LegacySearch.thy ===== *)
theory LegacySearch
  imports Prelude
begin

text \<open>
  The older mock search box, \<^verbatim>\<open>components/search-bar.tsx\<close>, with its view
  \<^verbatim>\<open>components/search-results.tsx\<close>. No module imports it. It filters two fixed shows
  instead of calling the endpoint: the effect on \<open>[query]\<close> clears the results for a
  blank query, and otherwise turns loading on and starts a 300 ms timeout. Its cleanup
  cancels the timeout at the next change. When the timeout fires, the results are the
  shows whose lower-cased title includes the lower-cased query captured by the timeout.
  Time passes in 1 ms ticks.
\<close>

definition mockResults :: "json list" where
  "mockResults =
     [JObj [(''id'', JNum 1), (''title'', JStr ''Stranger Things''),
            (''poster'', JStr ''/placeholder.svg?height=300&width=200''), (''year'', JNum 2016),
            (''rating'', JNum (87 / 10))],
      JObj [(''id'', JNum 2), (''title'', JStr ''The Crown''),
            (''poster'', JStr ''/placeholder.svg?height=300&width=200''), (''year'', JNum 2016),
            (''rating'', JNum (86 / 10))]]"

text \<open>\<open>show.title.toLowerCase().includes(query.toLowerCase())\<close>.\<close>

definition title_matches :: "string \<Rightarrow> json \<Rightarrow> bool" where
  "title_matches q sh = (case json_prop sh ''title'' of
      Inr (Some (JStr t)) \<Rightarrow> js_includes (js_toLowerCase t) (js_toLowerCase q)
    | _ \<Rightarrow> False)"

record legacy_search =
  lquery :: string
  lisOpen :: bool
  lresults :: "json list"
  lisLoading :: bool
  ltimer :: "(ms \<times> string) option"
  lclock :: ms
  lnav :: "json option list"

text \<open>The effect on \<open>[query]\<close>, after the cleanup of its previous run.\<close>

definition legacy_effect :: "legacy_search \<Rightarrow> legacy_search" where
  "legacy_effect s =
     (let s0 = s\<lparr>ltimer := None\<rparr> in
      if js_trim (lquery s) = [] then s0\<lparr>lresults := []\<rparr>
      else s0\<lparr>lisLoading := True, ltimer := Some (lclock s + 300, lquery s)\<rparr>)"

definition legacy_init :: legacy_search where
  "legacy_init = legacy_effect \<lparr>lquery = [], lisOpen = False, lresults = [], lisLoading = False,
                                ltimer = None, lclock = 0, lnav = []\<rparr>"

definition legacy_set_query :: "string \<Rightarrow> legacy_search \<Rightarrow> legacy_search" where
  "legacy_set_query v s = (if v = lquery s then s else legacy_effect (s\<lparr>lquery := v\<rparr>))"

text \<open>The timeout's callback with the query it captured.\<close>

definition legacy_fire :: "string \<Rightarrow> legacy_search \<Rightarrow> legacy_search" where
  "legacy_fire q s = s\<lparr>lresults := filter (title_matches q) mockResults, lisLoading := False, ltimer := None\<rparr>"

datatype legacy_view = L_searching | L_start_typing | L_no_shows string | L_list "json list"

definition legacy_view :: "json list \<Rightarrow> bool \<Rightarrow> string \<Rightarrow> legacy_view" where
  "legacy_view rs loading q =
     (if loading then L_searching
      else if js_trim q = [] then L_start_typing
      else if rs = [] then L_no_shows q
      else L_list rs)"

definition legacy_dropdown :: "legacy_search \<Rightarrow> bool" where
  "legacy_dropdown s \<longleftrightarrow> lisOpen s \<and> (lquery s \<noteq> [] \<or> lresults s \<noteq> [])"

datatype legacy_event =
    L_type string
  | L_focus
  | L_outside
  | L_clear
  | L_tick
  | L_result_click nat

text \<open>A result is a link to \<^verbatim>\<open>/show/${id}\<close> whose \<open>onClick\<close> closes the dropdown;
  it exists only while the dropdown shows the list.\<close>

fun legacy_step :: "legacy_search \<Rightarrow> legacy_event \<Rightarrow> legacy_search" where
  "legacy_step s (L_type v) = legacy_set_query v (s\<lparr>lisOpen := True\<rparr>)"
| "legacy_step s L_focus = s\<lparr>lisOpen := True\<rparr>"
| "legacy_step s L_outside = s\<lparr>lisOpen := False\<rparr>"
| "legacy_step s L_clear =
     (if lquery s \<noteq> [] then legacy_set_query [] (s\<lparr>lresults := [], lisOpen := False\<rparr>) else s)"
| "legacy_step s L_tick =
     (case ltimer s of
        Some (t, q) \<Rightarrow> if t \<le> Suc (lclock s) then legacy_fire q (s\<lparr>lclock := Suc (lclock s)\<rparr>)
                       else s\<lparr>lclock := Suc (lclock s)\<rparr>
      | None \<Rightarrow> s\<lparr>lclock := Suc (lclock s)\<rparr>)"
| "legacy_step s (L_result_click k) =
     (if legacy_dropdown s
      then (case legacy_view (lresults s) (lisLoading s) (lquery s) of
              L_list rs \<Rightarrow>
                if k < length rs
                then (case json_prop (rs ! k) ''id'' of
                        Inr i \<Rightarrow> s\<lparr>lisOpen := False, lnav := lnav s @ [i]\<rparr>
                      | Inl _ \<Rightarrow> s)
                else s
            | _ \<Rightarrow> s)
      else s)"

fun legacy_run :: "legacy_search \<Rightarrow> legacy_event list \<Rightarrow> legacy_search" where
  "legacy_run s [] = s"
| "legacy_run s (e # es) = legacy_run (legacy_step s e) es"



subsection \<open>Properties\<close>

lemma legacy_run_append [simp]: "legacy_run s (xs @ ys) = legacy_run (legacy_run s xs) ys"
  by (induction xs arbitrary: s) auto

lemma legacy_ticks_quiet:
  "\<forall>t q. ltimer s = Some (t, q) \<longrightarrow> lclock s + k < t \<Longrightarrow>
   legacy_run s (replicate k L_tick) = s\<lparr>lclock := lclock s + k\<rparr>"
proof (induction k arbitrary: s)
  case 0
  then show ?case by simp
next
  case (Suc k)
  have "legacy_step s L_tick = s\<lparr>lclock := Suc (lclock s)\<rparr>"
    using Suc.prems by (auto split: option.split)
  moreover have "legacy_run (s\<lparr>lclock := Suc (lclock s)\<rparr>) (replicate k L_tick) =
                 s\<lparr>lclock := Suc (lclock s) + k\<rparr>"
    using Suc.IH [of "s\<lparr>lclock := Suc (lclock s)\<rparr>"] Suc.prems by simp
  ultimately show ?case by simp
qed

text \<open>C34. The legacy box can show its spinner for ever: a query that starts the timeout,
  then a blank query before it fires, cancels the timeout (the cleanup) while the blank branch
  of the effect never turns loading off. However long one waits, the dropdown stays open on
  the spinner.\<close>

theorem legacy_loading_stuck:
  "let s = legacy_run legacy_init ([L_type ''a''] @ replicate 100 L_tick @ [L_type '' ''] @ replicate k L_tick)
   in legacy_dropdown s \<and> legacy_view (lresults s) (lisLoading s) (lquery s) = L_searching"
proof -
  let ?s1 = "\<lparr>lquery = ''a'', lisOpen = True, lresults = [], lisLoading = True,
              ltimer = Some (300, ''a''), lclock = 0, lnav = []\<rparr>"
  let ?s2 = "?s1\<lparr>lquery := '' '', lclock := 100, ltimer := None\<rparr>"
  have s1: "legacy_step legacy_init (L_type ''a'') = ?s1"
    by (simp add: legacy_init_def legacy_effect_def legacy_set_query_def js_trim_def is_js_space_def)
  have q1: "legacy_run ?s1 (replicate 100 L_tick) = ?s1\<lparr>lclock := 100\<rparr>"
    using legacy_ticks_quiet [of ?s1 100] by simp
  have s2: "legacy_step (?s1\<lparr>lclock := 100\<rparr>) (L_type '' '') = ?s2"
    by (simp add: legacy_effect_def legacy_set_query_def js_trim_def is_js_space_def)
  have q2: "legacy_run ?s2 (replicate k L_tick) = ?s2\<lparr>lclock := 100 + k\<rparr>"
    using legacy_ticks_quiet [of ?s2 k] by simp
  show ?thesis
    unfolding Let_def
    by (simp only: legacy_run_append legacy_run.simps s1 q1 s2 q2)
       (simp add: legacy_dropdown_def legacy_view_def)
qed

text \<open>C24. A new non-blank query, left alone for 300 ms, shows exactly the mock shows whose
  lower-cased title contains the lower-cased query, and loading is off.\<close>

theorem legacy_filter:
  assumes "q \<noteq> lquery s" and "js_trim q \<noteq> []"
  shows "lresults (legacy_run s ([L_type q] @ replicate 300 L_tick)) =
           filter (\<lambda>sh. \<exists>t. json_prop sh ''title'' = Inr (Some (JStr t)) \<and>
                           (\<exists>a b. js_toLowerCase t = a @ js_toLowerCase q @ b)) mockResults \<and>
         \<not> lisLoading (legacy_run s ([L_type q] @ replicate 300 L_tick))"
proof -
  have tm: "title_matches q = (\<lambda>sh. \<exists>t. json_prop sh ''title'' = Inr (Some (JStr t)) \<and>
                                 (\<exists>a b. js_toLowerCase t = a @ js_toLowerCase q @ b))"
    by (auto simp add: fun_eq_iff title_matches_def js_includes_iff split: sum.split option.split json.split)
  let ?s1 = "s\<lparr>lisOpen := True, lquery := q, lisLoading := True, ltimer := Some (lclock s + 300, q)\<rparr>"
  have s1: "legacy_step s (L_type q) = ?s1"
    using assms by (simp add: legacy_effect_def legacy_set_query_def)
  have r: "replicate 300 L_tick = replicate 299 L_tick @ [L_tick] @ replicate 0 L_tick"
    using replicate_split3 [of 299 0 L_tick] by simp
  have q: "legacy_run ?s1 (replicate 299 L_tick) = ?s1\<lparr>lclock := lclock s + 299\<rparr>"
    using legacy_ticks_quiet [of ?s1 299] by simp
  show ?thesis
    unfolding r
    by (simp only: legacy_run_append legacy_run.simps s1 q) (simp add: legacy_fire_def tm)
qed

lemma legacy_filter_witness:
  "lresults (legacy_run legacy_init ([L_type ''crown''] @ replicate 300 L_tick)) =
     filter (\<lambda>sh. \<exists>t. json_prop sh ''title'' = Inr (Some (JStr t)) \<and>
                     (\<exists>a b. js_toLowerCase t = a @ js_toLowerCase ''crown'' @ b)) mockResults \<and>
   \<not> lisLoading (legacy_run legacy_init ([L_type ''crown''] @ replicate 300 L_tick))"
  by (rule legacy_filter) (simp_all add: legacy_init_def legacy_effect_def js_trim_def is_js_space_def)

end
