(* ===== verification/Cards.thy ===== *)
theory Cards
  imports Render Carousel
begin

text \<open>
  What the cards and show headers compute from a show's JSON:
  \<^verbatim>\<open>components/PosterCard.tsx\<close> and \<^verbatim>\<open>components/ShowHeader.tsx\<close> (TMDB data),
  \<^verbatim>\<open>components/show-card.tsx\<close> and \<^verbatim>\<open>components/show-header.tsx\<close> (mock data).
  Each component is a function from the show (and the UI state: hover, image loaded) to
  a record of what it renders; the state's handlers are step functions.
  The printing of numbers and dates comes from \<open>Render\<close>. Also the older carousel
  \<^verbatim>\<open>components/show-carousel.tsx\<close>, which renders \<open>ShowCard\<close>s.
\<close>

subsubsection \<open>\<^verbatim>\<open>PosterCard.tsx\<close>\<close>

definition poster_href :: "json \<Rightarrow> label" where
  "poster_href sh = (case field sh ''id'' of
      None \<Rightarrow> Render_fail
    | Some v \<Rightarrow> label_of (map_option (\<lambda>t. ''/tv/'' @ t) (js_text v)))"

definition poster_src :: "json \<Rightarrow> label" where
  "poster_src sh = (case field sh ''poster_path'' of
      None \<Rightarrow> Render_fail
    | Some v \<Rightarrow> tmdb_image ''w500'' ''/placeholder.svg?height=750&width=500'' v)"

text \<open>\<open>show.vote_average.toFixed(1)\<close>: a method call on a non-number fails.\<close>

definition rating_label :: "json \<Rightarrow> label" where
  "rating_label sh = (case field sh ''vote_average'' of
      Some (Some (JNum r)) \<Rightarrow> label_of (toFixed1 r)
    | _ \<Rightarrow> Render_fail)"

text \<open>\<open>show.first_air_date ? new Date(show.first_air_date).getFullYear() : "TBA"\<close>.\<close>

definition poster_year_label :: "int \<Rightarrow> json \<Rightarrow> label" where
  "poster_year_label offset sh = (case field sh ''first_air_date'' of
      None \<Rightarrow> Render_fail
    | Some v \<Rightarrow> if opt_truthy v
                then (case js_new_Date v of
                        Some d \<Rightarrow> Label (year_text (getFullYear offset d))
                      | None \<Rightarrow> Render_fail)
                else Label ''TBA'')"

subsubsection \<open>\<^verbatim>\<open>ShowHeader.tsx\<close>\<close>

text \<open>\<open>new Date(show.first_air_date).getFullYear()\<close>, with no check of the date.\<close>

definition header_year_label :: "int \<Rightarrow> json \<Rightarrow> label" where
  "header_year_label offset sh = (case field sh ''first_air_date'' of
      None \<Rightarrow> Render_fail
    | Some v \<Rightarrow> (case js_new_Date v of
                  Some d \<Rightarrow> Label (year_text (getFullYear offset d))
                | None \<Rightarrow> Render_fail))"

text \<open>\<open>show.episode_run_time.length > 0 && ...{show.episode_run_time[0]}min\<close>.\<close>

definition runtime_label :: "json \<Rightarrow> label" where
  "runtime_label sh = (case field sh ''episode_run_time'' of
      Some (Some (JArr [])) \<Rightarrow> No_label
    | Some (Some (JArr (x # _))) \<Rightarrow> label_of (map_option (\<lambda>t. t @ ''min'') (jsx_text (Some x)))
    | _ \<Rightarrow> Render_fail)"

text \<open>\<open>{show.number_of_seasons} Season{show.number_of_seasons !== 1 ? "s" : ""}\<close>.\<close>

definition seasons_label :: "json \<Rightarrow> label" where
  "seasons_label sh = (case field sh ''number_of_seasons'' of
      None \<Rightarrow> Render_fail
    | Some v \<Rightarrow> label_of (map_option (\<lambda>t. t @ '' Season'' @ (if v = Some (JNum 1) then [] else ''s''))
                                      (jsx_text v)))"

definition backdrop_src :: "json \<Rightarrow> label" where
  "backdrop_src sh = (case field sh ''backdrop_path'' of
      None \<Rightarrow> Render_fail
    | Some v \<Rightarrow> tmdb_image ''original'' ''/placeholder.svg?height=1080&width=1920'' v)"

text \<open>\<open>show.genres.map((genre) => genre.name)\<close>: one badge per genre.\<close>

definition genre_badges :: "json \<Rightarrow> label list option" where
  "genre_badges sh = (case field sh ''genres'' of
      Some (Some (JArr gs)) \<Rightarrow>
        Some (map (\<lambda>g. case field g ''name'' of None \<Rightarrow> Render_fail | Some n \<Rightarrow> label_of (jsx_text n)) gs)
    | _ \<Rightarrow> None)"

subsubsection \<open>\<^verbatim>\<open>show-card.tsx\<close> and \<^verbatim>\<open>show-header.tsx\<close>\<close>

definition legacy_card_href :: "json \<Rightarrow> label" where
  "legacy_card_href sh = (case field sh ''id'' of
      None \<Rightarrow> Render_fail
    | Some v \<Rightarrow> label_of (map_option (\<lambda>t. ''/show/'' @ t) (js_text v)))"

text \<open>\<open>show.poster || "/placeholder.svg"\<close> (and \<open>show.backdrop || ...\<close>).\<close>

definition legacy_image_src :: "string \<Rightarrow> json \<Rightarrow> label" where
  "legacy_image_src f sh = (case field sh f of
      None \<Rightarrow> Render_fail
    | Some v \<Rightarrow> if opt_truthy v then label_of (js_text v) else Label ''/placeholder.svg'')"

text \<open>\<open>show.genres.map((genre) => ...{genre})\<close>: the mock show's genres are strings.\<close>

definition legacy_genre_badges :: "json \<Rightarrow> label list option" where
  "legacy_genre_badges sh = (case field sh ''genres'' of
      Some (Some (JArr gs)) \<Rightarrow> Some (map (\<lambda>g. label_of (jsx_text (Some g))) gs)
    | _ \<Rightarrow> None)"

subsection \<open>The components\<close>

text \<open>The cards' own state: \<open>isHovered\<close> (set by \<open>onMouseEnter\<close> and
  \<open>onMouseLeave\<close>) and \<open>imageLoaded\<close> (set by the image's \<open>onLoad\<close>).
  A component without one of these handlers ignores the event.\<close>

record card_ui =
  isHovered :: bool
  imageLoaded :: bool

datatype card_event = Mouse_enter | Mouse_leave | Image_load

definition card_ui_init :: card_ui where
  "card_ui_init = \<lparr>isHovered = False, imageLoaded = False\<rparr>"

text \<open>\<^verbatim>\<open>PosterCard.tsx\<close> has the three handlers, \<^verbatim>\<open>show-card.tsx\<close> the mouse
  ones, both show headers only \<open>onLoad\<close>.\<close>

fun poster_card_step :: "card_ui \<Rightarrow> card_event \<Rightarrow> card_ui" where
  "poster_card_step ui Mouse_enter = ui\<lparr>isHovered := True\<rparr>"
| "poster_card_step ui Mouse_leave = ui\<lparr>isHovered := False\<rparr>"
| "poster_card_step ui Image_load = ui\<lparr>imageLoaded := True\<rparr>"

fun show_card_step :: "card_ui \<Rightarrow> card_event \<Rightarrow> card_ui" where
  "show_card_step ui Mouse_enter = ui\<lparr>isHovered := True\<rparr>"
| "show_card_step ui Mouse_leave = ui\<lparr>isHovered := False\<rparr>"
| "show_card_step ui Image_load = ui"

fun header_ui_step :: "card_ui \<Rightarrow> card_event \<Rightarrow> card_ui" where
  "header_ui_step ui Image_load = ui\<lparr>imageLoaded := True\<rparr>"
| "header_ui_step ui _ = ui"

text \<open>What \<open>PosterCard\<close> renders: the link, the poster, whether the image is opaque,
  the loading spinner (\<open>!imageLoaded\<close>), the hover overlay, the rating badge, the name and
  the year line.\<close>

record poster_card_view =
  pc_href :: label
  pc_poster :: label
  pc_image_opaque :: bool
  pc_spinner :: bool
  pc_overlay :: bool
  pc_rating :: label
  pc_name :: label
  pc_year :: label

definition PosterCard :: "int \<Rightarrow> json \<Rightarrow> card_ui \<Rightarrow> poster_card_view" where
  "PosterCard offset sh ui =
     \<lparr>pc_href = poster_href sh, pc_poster = poster_src sh, pc_image_opaque = imageLoaded ui,
      pc_spinner = \<not> imageLoaded ui, pc_overlay = isHovered ui, pc_rating = rating_label sh,
      pc_name = jsx_field sh ''name'', pc_year = poster_year_label offset sh\<rparr>"

text \<open>What \<^verbatim>\<open>ShowHeader.tsx\<close> renders; \<open>genres\<close> is \<open>None\<close> when
  \<open>show.genres.map\<close> throws.\<close>

record show_header_view =
  hd_backdrop :: label
  hd_backdrop_opaque :: bool
  hd_poster :: label
  hd_name :: label
  hd_rating :: label
  hd_year :: label
  hd_runtime :: label
  hd_status :: label
  hd_genres :: "label list option"
  hd_overview :: label
  hd_seasons :: label
  hd_episodes :: label

definition ShowHeader :: "int \<Rightarrow> json \<Rightarrow> card_ui \<Rightarrow> show_header_view" where
  "ShowHeader offset sh ui =
     \<lparr>hd_backdrop = backdrop_src sh, hd_backdrop_opaque = imageLoaded ui, hd_poster = poster_src sh,
      hd_name = jsx_field sh ''name'', hd_rating = rating_label sh,
      hd_year = header_year_label offset sh, hd_runtime = runtime_label sh,
      hd_status = jsx_field sh ''status'', hd_genres = genre_badges sh,
      hd_overview = jsx_field sh ''overview'', hd_seasons = seasons_label sh,
      hd_episodes = (case jsx_field sh ''number_of_episodes'' of
                       Label t \<Rightarrow> Label (t @ '' Episodes'') | l \<Rightarrow> l)\<rparr>"

text \<open>What \<^verbatim>\<open>show-card.tsx\<close> renders for a mock show.\<close>

record show_card_view =
  sc_href :: label
  sc_poster :: label
  sc_overlay :: bool
  sc_title :: label
  sc_year :: label
  sc_rating :: label

definition ShowCard :: "json \<Rightarrow> card_ui \<Rightarrow> show_card_view" where
  "ShowCard sh ui =
     \<lparr>sc_href = legacy_card_href sh, sc_poster = legacy_image_src ''poster'' sh,
      sc_overlay = isHovered ui, sc_title = jsx_field sh ''title'', sc_year = jsx_field sh ''year'',
      sc_rating = jsx_field sh ''rating''\<rparr>"

text \<open>What \<^verbatim>\<open>show-header.tsx\<close> renders for a mock show (its back link is the
  constant \<^verbatim>\<open>/\<close>).\<close>

record legacy_header_view =
  lh_backdrop :: label
  lh_backdrop_opaque :: bool
  lh_poster :: label
  lh_title :: label
  lh_rating :: label
  lh_year :: label
  lh_genres :: "label list option"
  lh_overview :: label

definition LegacyShowHeader :: "json \<Rightarrow> card_ui \<Rightarrow> legacy_header_view" where
  "LegacyShowHeader sh ui =
     \<lparr>lh_backdrop = legacy_image_src ''backdrop'' sh, lh_backdrop_opaque = imageLoaded ui,
      lh_poster = legacy_image_src ''poster'' sh, lh_title = jsx_field sh ''title'',
      lh_rating = jsx_field sh ''rating'', lh_year = jsx_field sh ''year'',
      lh_genres = legacy_genre_badges sh, lh_overview = jsx_field sh ''overview''\<rparr>"

subsubsection \<open>\<^verbatim>\<open>show-carousel.tsx\<close>\<close>

text \<open>The older carousel keeps no state of its own: its arrows are always rendered and
  always enabled, and \<open>scroll(direction)\<close> asks the browser to scroll to the current
  \<open>scrollLeft\<close> plus or minus 320 (\<open>scrollRef.current\<close> is set once mounted). The
  browser's geometry reaches the model through scroll events, as for
  \<^verbatim>\<open>Carousel.tsx\<close>; the requested targets are recorded.\<close>

record show_carousel =
  sc_geometry :: geometry
  sc_targets :: "rat list"

datatype show_carousel_event = SC_arrow direction | SC_scroll geometry

fun show_carousel_step :: "show_carousel \<Rightarrow> show_carousel_event \<Rightarrow> show_carousel" where
  "show_carousel_step s (SC_arrow dir) =
     s\<lparr>sc_targets := sc_targets s @ [fst (sc_geometry s) + (if dir = Left then - 320 else 320)]\<rparr>"
| "show_carousel_step s (SC_scroll g) = s\<lparr>sc_geometry := g\<rparr>"

text \<open>What it renders: the heading and one \<open>ShowCard\<close> per show, each with its
  own UI state.\<close>

definition ShowCarousel :: "json \<Rightarrow> json list \<Rightarrow> card_ui list \<Rightarrow> label \<times> show_card_view list" where
  "ShowCarousel title shows uis = (label_of (jsx_text (Some title)), map2 ShowCard shows uis)"

subsubsection \<open>\<^verbatim>\<open>Carousel.tsx\<close>\<close>

text \<open>What \<open>Carousel\<close> renders from its state (theory \<open>Carousel\<close>): the section id,
  the heading, each arrow when its flag is set (\<open>Some d\<close>, with \<open>disabled={isScrolling}\<close>
  as \<open>d\<close>) and one \<open>PosterCard\<close> per show, each with its own UI state.\<close>

record carousel_view =
  cv_id :: string
  cv_title :: string
  cv_left_arrow :: "bool option"
  cv_right_arrow :: "bool option"
  cv_cards :: "poster_card_view list"

definition Carousel_view :: "int \<Rightarrow> string \<Rightarrow> json list \<Rightarrow> card_ui list \<Rightarrow> carousel \<Rightarrow> carousel_view" where
  "Carousel_view offset title shows uis s =
     \<lparr>cv_id = carousel_id title, cv_title = title,
      cv_left_arrow = (if canScrollLeft s then Some (cIsScrolling s) else None),
      cv_right_arrow = (if canScrollRight s then Some (cIsScrolling s) else None),
      cv_cards = map2 (PosterCard offset) shows uis\<rparr>"

subsection \<open>Properties\<close>


text \<open>C25. The rating badge of a card or show header, for a non-negative
  \<open>vote_average\<close> below \<open>10^21\<close>, is \<open>toFixed(1)\<close>: a decimal with one
  fraction digit within 1/20 of the rating, the nearest tenth.\<close>

theorem rating_label_nearest:
  assumes "field sh ''vote_average'' = Some (Some (JNum r))" and "0 \<le> r" and "r < 10 ^ 21"
  shows "\<exists>q d. rating_label sh = Label (nat_to_string q @ ''.'' @ [char_of (48 + d)]) \<and> d < 10 \<and>
               \<bar>of_nat (10 * q + d) / 10 - r\<bar> \<le> 1 / 20"
proof -
  obtain q d where "toFixed1 r = Some (nat_to_string q @ ''.'' @ [char_of (48 + d)])" and
      "d < 10" and "\<bar>of_nat (10 * q + d) / 10 - r\<bar> \<le> 1 / 20"
    using toFixed1_nearest [OF assms(2,3)] by blast
  then show ?thesis
    using assms(1) by (intro exI [of _ q] exI [of _ d]) (simp add: rating_label_def label_of_def)
qed

lemma rating_label_nearest_witness:
  "\<exists>q d. rating_label (JObj [(''vote_average'', JNum (865 / 100))]) =
           Label (nat_to_string q @ ''.'' @ [char_of (48 + d)]) \<and> d < 10 \<and>
         \<bar>of_nat (10 * q + d) / 10 - (865 / 100 :: rat)\<bar> \<le> 1 / 20"
  by (rule rating_label_nearest) (simp_all add: field_def)

text \<open>C35. A show first aired on January 1st of year \<open>y\<close> (a date-only string, which
  ECMAScript reads as UTC midnight) is labelled \<open>y - 1\<close> by both the poster card and the
  show header in any time zone west of UTC: \<open>getFullYear\<close> reads local time.\<close>

theorem year_label_timezone:
  assumes "field sh ''first_air_date'' = Some (Some (JStr s))"
    and "parse_date_only s = Some (Utc_day y 1 1)" and "offset < 0"
  shows "poster_year_label offset sh = Label (int_to_string (y - 1)) \<and>
         header_year_label offset sh = Label (int_to_string (y - 1))"
  using assms parse_date_only_nonempty [OF assms(2)]
  by (simp add: poster_year_label_def header_year_label_def js_new_Date_def getFullYear_def
                year_text_def opt_truthy_def)

lemma year_label_timezone_witness:
  "poster_year_label (-300) (JObj [(''first_air_date'', JStr ''2016-01-01'')]) = Label (int_to_string 2015) \<and>
   header_year_label (-300) (JObj [(''first_air_date'', JStr ''2016-01-01'')]) = Label (int_to_string 2015)"
proof -
  have "parse_date_only ''2016-01-01'' = Some (Utc_day 2016 1 1)" by code_simp
  then show ?thesis
    using year_label_timezone [of "JObj [(''first_air_date'', JStr ''2016-01-01'')]" "''2016-01-01''" 2016 "-300"]
    by (simp add: field_def)
qed

text \<open>C36. The two TMDB components disagree on a show without a date: the poster card
  prints \<^verbatim>\<open>TBA\<close> for an empty \<open>first_air_date\<close> while the show header prints
  \<^verbatim>\<open>NaN\<close>, and for a null date the header prints 1970, or 1969 west of UTC.\<close>

theorem missing_date_labels:
  "poster_year_label offset (JObj [(''first_air_date'', JStr [])]) = Label ''TBA'' \<and>
   header_year_label offset (JObj [(''first_air_date'', JStr [])]) = Label ''NaN'' \<and>
   header_year_label 0 (JObj [(''first_air_date'', JNull)]) = Label ''1970'' \<and>
   header_year_label (-300) (JObj [(''first_air_date'', JNull)]) = Label ''1969''"
proof (intro conjI)
  show "header_year_label 0 (JObj [(''first_air_date'', JNull)]) = Label ''1970''"
    and "header_year_label (-300) (JObj [(''first_air_date'', JNull)]) = Label ''1969''"
    by code_simp+
qed (simp_all add: poster_year_label_def header_year_label_def js_new_Date_def getFullYear_def
                   year_text_def opt_truthy_def field_def parse_date_only_def)

end
