(* ===== verification/Home.thy ===== *)
theory Home
  imports Cards HeroSlider EpisodeViewer
begin

text \<open>
  The home page as rendered, \<^verbatim>\<open>app/page.tsx\<close>: when the three list calls succeed
  (\<open>HomePage\<close>, theory \<open>Pages\<close>), the hero slider on the first five trending shows
  (theory \<open>HeroSlider\<close>), the three carousels in the page's order (theories
  \<open>Carousel\<close> and \<open>Cards\<close>) and the footer. Each component is rendered in its first
  state: the slider just mounted, each carousel mounted on the geometry its container
  reports, every card not hovered and not loaded. The \<open>Suspense\<close> fallbacks
  (\<^verbatim>\<open>LoadingSkeleton\<close>) never show: nothing inside them suspends. The header is
  theory \<open>Header\<close>.

  The mock show page as rendered, \<^verbatim>\<open>app/show/[id]/page.tsx\<close>: the looked-up show
  (\<open>MockShowPage\<close>) in the older show header and the older episode viewer.
\<close>

text \<open>\<open>shows.map\<close> on a value that is not an array throws (\<open>None\<close>).\<close>

definition carousel_section ::
  "int \<Rightarrow> string \<Rightarrow> json option \<Rightarrow> geometry \<Rightarrow> carousel_view option" where
  "carousel_section offset title shows g = (case shows of
      Some (JArr xs) \<Rightarrow>
        Some (Carousel_view offset title xs (replicate (length xs) card_ui_init) (carousel_mount g))
    | _ \<Rightarrow> None)"

definition hero_section :: "json \<Rightarrow> hero_render" where
  "hero_section h = (case h of JArr xs \<Rightarrow> HeroSlider_view (hero_mount xs) | _ \<Rightarrow> Hero_fail)"

record home_render =
  hr_hero :: hero_render
  hr_sections :: "carousel_view option list"
  hr_footer_link :: string

datatype home_view = Home_error | Home_shown home_render

definition HomePage_render ::
  "int \<Rightarrow> geometry \<times> geometry \<times> geometry \<Rightarrow> tmdb_env \<Rightarrow> upstream \<Rightarrow> home_view" where
  "HomePage_render offset gs env up = (case HomePage env up of
      Home_failed \<Rightarrow> Home_error
    | Home_view h t r a \<Rightarrow>
        (case gs of (g1, g2, g3) \<Rightarrow>
          Home_shown
            \<lparr>hr_hero = hero_section h,
             hr_sections = [carousel_section offset (home_carousel_titles ! 0) t g1,
                            carousel_section offset (home_carousel_titles ! 1) r g2,
                            carousel_section offset (home_carousel_titles ! 2) a g3],
             hr_footer_link = ''https://www.linkedin.com/in/kanishjn''\<rparr>))"

text \<open>\<open><ShowHeader show={show} /><EpisodeViewer episodes={show.episodes} />\<close>, the
  viewer on its first episode. \<open>notFound()\<close> gives the 404 page; a render that throws
  (\<open>show.genres.map\<close> or \<open>episodes.map\<close> on a non-array) gives the error page. An
  inherited value (a function, or \<open>Object.prototype\<close>) has none of the fields the page
  reads, so it is read as the empty object.\<close>

datatype mock_render = Mock_404 | Mock_error | Mock_rendered legacy_header_view legacy_episode_page

definition mock_show_render :: "json \<Rightarrow> mock_render" where
  "mock_show_render sh =
     (let h = LegacyShowHeader sh card_ui_init in
      case (lh_genres h, LegacyEpisodeViewer 0 (case field sh ''episodes'' of Some v \<Rightarrow> v | None \<Rightarrow> None)) of
        (Some _, Some p) \<Rightarrow> Mock_rendered h p
      | _ \<Rightarrow> Mock_error)"

definition MockShowPage_render :: "string \<Rightarrow> mock_render" where
  "MockShowPage_render params_id = (case MockShowPage params_id of
      Mock_not_found \<Rightarrow> Mock_404
    | Mock_prototype _ \<Rightarrow> mock_show_render (JObj [])
    | Mock_view sh \<Rightarrow> mock_show_render sh)"

subsection \<open>Properties of the home page\<close>

lemma hero_mount_view:
  assumes "xs \<noteq> []"
  shows "\<exists>v. HeroSlider_view (hero_mount xs) = Hero_shown v \<and> hv_name v = jsx_field (hd xs) ''name'' \<and>
             \<not> hv_content_shown v"
proof -
  have "currentSlide (hero_mount xs) = 0" "\<not> isLoaded (hero_mount xs)"
    by (simp_all add: hero_mount_def autoplay_effect_def)
  then show ?thesis
    using HeroSlider_view_shown [of "hero_mount xs"] hero_inv_mount [of xs] assms by (auto simp add: hd_conv_nth)
qed

text \<open>C26. When the three lists load as arrays and some show is trending, the home page
  shows the first trending show in the hero slider (its content not yet slid in) and three
  sections with the ids \<^verbatim>\<open>trending-now\<close>, \<^verbatim>\<open>top-rated\<close> and
  \<^verbatim>\<open>airing-today\<close>, each with one poster card per show of its list.\<close>

theorem home_page_composition:
  assumes "getTrendingShows env up = Inr (Some (JArr t))" and "getTopRatedShows env up = Inr (Some (JArr r))"
    and "getAiringTodayShows env up = Inr (Some (JArr a))" and "t \<noteq> []"
  shows "\<exists>p v cs. HomePage_render offset gs env up = Home_shown p \<and>
           hr_hero p = Hero_shown v \<and> hv_name v = jsx_field (hd t) ''name'' \<and> \<not> hv_content_shown v \<and>
           hr_sections p = map Some cs \<and>
           map cv_id cs = [''trending-now'', ''top-rated'', ''airing-today''] \<and>
           map (\<lambda>c. length (cv_cards c)) cs = [length t, length r, length a]"
proof -
  obtain g1 g2 g3 where gs: "gs = (g1, g2, g3)" by (cases gs) auto
  have h: "HomePage env up = Home_view (JArr (take 5 t)) (Some (JArr t)) (Some (JArr r)) (Some (JArr a))"
    using assms(1-3) by (simp add: HomePage_def js_slice_prefix_def)
  obtain v where v: "HeroSlider_view (hero_mount (take 5 t)) = Hero_shown v"
    and n: "hv_name v = jsx_field (hd t) ''name''" and l: "\<not> hv_content_shown v"
    using hero_mount_view [of "take 5 t"] assms(4) by (cases t) auto
  let ?c = "\<lambda>title xs g. Carousel_view offset title xs (replicate (length xs) card_ui_init) (carousel_mount g)"
  have ids: "carousel_id ''Trending Now'' = ''trending-now'' \<and> carousel_id ''Top Rated'' = ''top-rated'' \<and>
             carousel_id ''Airing Today'' = ''airing-today''"
    by (rule home_carousel_ids)
  show ?thesis
    using v n l ids
    by (intro exI [of _ "\<lparr>hr_hero = Hero_shown v,
                          hr_sections = [Some (?c ''Trending Now'' t g1), Some (?c ''Top Rated'' r g2),
                                         Some (?c ''Airing Today'' a g3)],
                          hr_footer_link = ''https://www.linkedin.com/in/kanishjn''\<rparr>"]
              exI [of _ v] exI [of _ "[?c ''Trending Now'' t g1, ?c ''Top Rated'' r g2, ?c ''Airing Today'' a g3]"])
       (simp add: HomePage_render_def h gs hero_section_def carousel_section_def home_carousel_titles_def
                  Carousel_view_def)
qed

lemma home_page_composition_witness:
  "\<exists>p v cs. HomePage_render 0 ((0, 0, 0), (0, 0, 0), (0, 0, 0)) \<lparr>V3_KEY = Some ''k'', V4_TOKEN = None\<rparr>
             (\<lambda>_. Some \<lparr>res_status = 200,
                        res_body = Some (JObj [(''results'', JArr [JObj [(''name'', JStr ''A'')]])])\<rparr>) = Home_shown p \<and>
           hr_hero p = Hero_shown v \<and> hv_name v = jsx_field (hd [JObj [(''name'', JStr ''A'')]]) ''name'' \<and>
           \<not> hv_content_shown v \<and> hr_sections p = map Some cs \<and>
           map cv_id cs = [''trending-now'', ''top-rated'', ''airing-today''] \<and>
           map (\<lambda>c. length (cv_cards c)) cs =
             [length [JObj [(''name'', JStr ''A'')]], length [JObj [(''name'', JStr ''A'')]],
              length [JObj [(''name'', JStr ''A'')]]]"
  by (rule home_page_composition) code_simp+

subsection \<open>Properties of the mock show page\<close>

lemma mock_show_render_inherited: "mock_show_render (JObj []) = Mock_error"
  by (simp add: mock_show_render_def LegacyShowHeader_def legacy_genre_badges_def field_def)

text \<open>C31. For every path segment: \<^verbatim>\<open>/show/1\<close> renders its mock show, a key that
  \<open>Object.prototype\<close> supplies (\<^verbatim>\<open>constructor\<close>, \<^verbatim>\<open>__proto__\<close>,
  \<^verbatim>\<open>toString\<close>, ...) passes the page's \<open>!show\<close> check and then throws while
  rendering, so it gives the error page and not a 404, and every other segment is the 404
  page. The rendered \<^verbatim>\<open>/show/1\<close> is the header of Stranger Things (rating 8.7, year
  2016, three genres) with six episode buttons, the first selected.\<close>

theorem mock_page_render:
  "MockShowPage_render k =
     (if k = ''1'' then MockShowPage_render ''1''
      else if k \<in> set object_prototype_keys then Mock_error else Mock_404) \<and>
   (case MockShowPage_render ''1'' of
      Mock_rendered h p \<Rightarrow> lh_title h = Label ''Stranger Things'' \<and>
          lh_rating h = Label ''8.7'' \<and> lh_year h = Label ''2016'' \<and>
          lh_genres h = Some [Label ''Drama'', Label ''Fantasy'', Label ''Horror''] \<and>
          lp_buttons p = [(Label ''S1E1'', True), (Label ''S1E2'', False), (Label ''S1E3'', False),
                          (Label ''S1E4'', False), (Label ''S2E5'', False), (Label ''S2E6'', False)]
    | _ \<Rightarrow> False)"
proof
  show "MockShowPage_render k =
          (if k = ''1'' then MockShowPage_render ''1''
           else if k \<in> set object_prototype_keys then Mock_error else Mock_404)"
    by (simp add: MockShowPage_render_def MockShowPage_def obj_get_def mockShows_def
                  mock_show_render_inherited)
  show "case MockShowPage_render ''1'' of
      Mock_rendered h p \<Rightarrow> lh_title h = Label ''Stranger Things'' \<and>
          lh_rating h = Label ''8.7'' \<and> lh_year h = Label ''2016'' \<and>
          lh_genres h = Some [Label ''Drama'', Label ''Fantasy'', Label ''Horror''] \<and>
          lp_buttons p = [(Label ''S1E1'', True), (Label ''S1E2'', False), (Label ''S1E3'', False),
                          (Label ''S1E4'', False), (Label ''S2E5'', False), (Label ''S2E6'', False)]
    | _ \<Rightarrow> False"
    by code_simp
qed

end
