(* ===== verification/Spec2Isabelle.thy ===== *)
theory Spec2Isabelle
  imports SearchRoute SearchBar Pages EpisodeViewer HeroSlider Carousel Header LegacySearch Cards Home
begin

text \<open>
  \<^bold>\<open>Vertica: a verification development.\<close>

  Vertica (the repository's \<^verbatim>\<open>src/\<close>) is a Next.js front end for a TV-show
  catalogue. Its parts: a server-side access shim to the TMDB metadata API
  (\<^verbatim>\<open>lib/tmdb.ts\<close>), a pass-through search endpoint (\<^verbatim>\<open>app/api/search/route.ts\<close>),
  pages that fetch and compose data (\<^verbatim>\<open>app/page.tsx\<close>, \<^verbatim>\<open>app/tv/[id]/page.tsx\<close>,
  \<^verbatim>\<open>app/show/[id]/page.tsx\<close>), and client components with local state: the search
  box with its debounce (\<^verbatim>\<open>components/SearchBar.tsx\<close>, \<^verbatim>\<open>SearchResults.tsx\<close>),
  the hero slider, the carousels, the episode viewer, the header, the poster cards and
  show headers; an older mock search box (\<^verbatim>\<open>components/search-bar.tsx\<close>) that no
  module imports. Control flows one
  way: the search box calls the endpoint, the endpoint calls the shim, the shim calls the
  upstream API; pages call the shim and pass the data to components.

  \<^bold>\<open>Theories.\<close>
  \<^item> \<open>Prelude\<close>: JSON values (\<open>json\<close>), JavaScript's \<open>trim\<close> (\<open>js_trim\<close>),
    property access on parsed JSON (\<open>json_prop\<close>), integer printing
    (\<open>int_to_string\<close>), \<open>toLowerCase\<close> and \<open>includes\<close>, JavaScript truthiness;
    the \<open>js_simps\<close> collection.
  \<^item> \<open>Url\<close>: the web-platform built-ins the program calls, modelled from their
    standards: \<open>encodeURIComponent\<close>, percent-decoding, UTF-8, the form-urlencoded
    serializer and parser of \<open>URLSearchParams\<close>, \<open>new URL\<close> on the program's URLs
    (\<open>new_url\<close>), \<open>searchParams.set/get\<close>, \<open>toString\<close>. Round trips:
    \<open>utf8_decode_encode\<close>, \<open>percent_decode_encodeURIComponent\<close>,
    \<open>form_parse_serialize\<close>, \<open>new_url_encoded_param\<close>.
  \<^item> \<open>Tmdb\<close> (\<^verbatim>\<open>lib/tmdb.ts\<close>): the credentials as a record read once
    (\<open>tmdb_env\<close>), \<open>buildUrl\<close>, \<open>auth_headers\<close>, \<open>tmdbFetch\<close> against an
    upstream given as a function from request to response (\<open>upstream\<close>; \<open>None\<close> is a
    rejected \<open>fetch\<close>), every \<open>throw\<close> an \<open>Inl\<close> of \<open>tmdb_error\<close>; the typed
    calls \<open>getTrendingShows\<close> \<dots> \<open>searchShows\<close>.
  \<^item> \<open>SearchRoute\<close> (\<^verbatim>\<open>app/api/search/route.ts\<close>): \<open>GET\<close> on the parsed request
    URL, returning status and JSON body.
  \<^item> \<open>Debounce\<close>: the \<open>useDebounce\<close> hook (imported from \<^verbatim>\<open>hooks/useDebounce\<close>,
    which the repository does not contain; modelled from the spec): a settled value and
    at most one pending timer with its deadline; a change restarts the timer.
  \<^item> \<open>SearchBar\<close> (\<^verbatim>\<open>components/SearchBar.tsx\<close>, \<^verbatim>\<open>SearchResults.tsx\<close>):
    the component's state, the hook's state, the clock and what the component did to
    the world (requests sent, requests in flight, \<open>router.push\<close> and \<open>onClose\<close>
    calls) as one record \<open>search_bar\<close>; user actions, elapsed time and response arrivals
    as \<open>sb_event\<close>s; \<open>sb_step\<close> runs the handler of an event and the effects whose
    dependencies changed (\<open>set_query\<close>, \<open>debounced_update\<close>, \<open>search_effect\<close>,
    \<open>performSearch_start\<close>/\<open>performSearch_finish\<close> for the two halves of the
    \<open>async\<close> function, \<open>handleResultClick\<close>, \<open>handleSubmit\<close>); \<open>sb_run\<close> folds
    a list of events. \<open>SearchResults\<close> is the dropdown's choice of view.
  \<^item> \<open>Pages\<close> (\<^verbatim>\<open>app/tv/[id]/page.tsx\<close>, \<^verbatim>\<open>app/page.tsx\<close>,
    \<^verbatim>\<open>app/show/[id]/page.tsx\<close>): \<open>Number.parseInt\<close> (modelled from ECMAScript),
    \<open>ShowPage\<close>, \<open>HomePage\<close> with its \<open>Promise.all\<close>, and the mock page's object
    lookup along the prototype chain (\<open>obj_get\<close>, \<open>MockShowPage\<close>).
  \<^item> \<open>EpisodeViewer\<close> (\<^verbatim>\<open>components/EpisodeViewer.tsx\<close>, \<^verbatim>\<open>episode-viewer.tsx\<close>):
    the closest-episode loop (\<open>closest_loop\<close>) against its reference
    (\<open>closest_ref\<close>), the viewer's state under scroll and time events, and what it
    renders (\<open>EpisodeViewer_render\<close>: the season header, one button and one card per
    episode); the older viewer's handler and render (\<open>LegacyEpisodeViewer\<close>).
  \<^item> \<open>HeroSlider\<close> (\<^verbatim>\<open>components/HeroSlider.tsx\<close>): slide index, autoplay and load
    flags and all the component's timers as one record, stepped by arrow and dot clicks and
    1 ms ticks; the abstract specification \<open>slide_spec\<close> it refines; what it renders
    (\<open>HeroSlider_view\<close>: backdrops, heading, links, dots).
  \<^item> \<open>Carousel\<close> (\<^verbatim>\<open>components/Carousel.tsx\<close>): the section id, the arrow flags, the
    500 ms scroll guard and the requested scroll targets.
  \<^item> \<open>Header\<close> (\<^verbatim>\<open>components/Header.tsx\<close>): the toggles and the two search boxes it
    renders, each a \<open>search_bar\<close> stepped inside the header.
  \<^item> \<open>LegacySearch\<close> (\<^verbatim>\<open>components/search-bar.tsx\<close>,
    \<^verbatim>\<open>search-results.tsx\<close>): the mock box's state with its 300 ms timeout and the
    query the timeout captured, stepped by typing, focus, outside clicks, Clear, 1 ms ticks
    and result clicks (\<open>legacy_step\<close>); the results view (\<open>legacy_view\<close>).
  \<^item> \<open>Render\<close>: what the components print, from ECMAScript and React:
    \<open>toFixed\<close>, \<open>Number::toString\<close>, date-only \<open>new Date\<close>, \<open>getFullYear\<close>,
    \<open>toLocaleDateString\<close> (en-US), values in template literals and as JSX children,
    \<open>cond && element\<close>, the TMDB image URLs; a rendered piece of text is a \<open>label\<close>.
  \<^item> \<open>Cards\<close> (\<^verbatim>\<open>PosterCard.tsx\<close>, \<^verbatim>\<open>ShowHeader.tsx\<close>,
    \<^verbatim>\<open>show-card.tsx\<close>, \<^verbatim>\<open>show-header.tsx\<close>, \<^verbatim>\<open>show-carousel.tsx\<close>):
    each component as a function from the show JSON and its UI state (hover, image loaded,
    stepped by its handlers) to a record of what it renders (\<open>PosterCard\<close>,
    \<open>ShowHeader\<close>, \<open>ShowCard\<close>, \<open>LegacyShowHeader\<close>, \<open>ShowCarousel\<close>), and the
    render of \<^verbatim>\<open>Carousel.tsx\<close> (\<open>Carousel_view\<close>).
  \<^item> \<open>Home\<close> (\<^verbatim>\<open>app/page.tsx\<close>, \<^verbatim>\<open>app/show/[id]/page.tsx\<close>): the pages as
    rendered, composing the components: the home page from the three lists
    (\<open>HomePage_render\<close>: hero slider, three carousels of poster cards, footer) and the
    mock show page (\<open>MockShowPage_render\<close>: 404, error page, or the older header and
    episode viewer).
  \<^item> This theory: properties across components (search path, show page, header anchors).

  \<^bold>\<open>What is proved.\<close> The endpoint answers a blank query itself (\<open>GET_blank\<close>),
  relays the upstream body on success (\<open>GET_forwards\<close>) and hides every upstream
  failure behind one fixed 500 answer (\<open>GET_failure_generic\<close>). The search box sends
  nothing while keystrokes come within 500 ms (\<open>typing_sends_nothing\<close>), exactly one
  request once the value settles and is new and non-blank (\<open>settle_sends_one_request\<close>),
  none for a blank one, whose results it clears (\<open>blank_settle_clears\<close>); it never
  holds more than eight results (\<open>results_at_most_eight\<close>, by induction over event
  sequences), keeps the first eight of a response and clears them on a failure;
  selecting or submitting navigates as the spec says. Across components, the box's
  request reaches the upstream with exactly the trimmed text
  (\<open>search_box_reaches_upstream\<close>) and an endpoint failure shows as an empty result
  list (\<open>endpoint_failure_empties_box\<close>). The shim fails fast without credentials,
  turns a non-2xx status into an error with the code, and sends the query so that the
  upstream reads back exactly the text, with the language and, only without a token,
  the key.

  The pages: a segment that is not a number is not found without any fetch
  (\<open>show_page_not_a_number\<close>), a link \<^verbatim>\<open>/tv/${id}\<close> reads back its id
  (\<open>show_page_link\<close>), failures give not-found. The episode viewer's loop equals the
  argmin reference (\<open>closest_episode_eq_ref\<close>), and in every reachable state its page
  shows exactly one selected button and progress bar, with the badge \<^verbatim>\<open>k of n\<close>
  for that episode (\<open>episode_page_one_selected\<close>). The
  hero slider's current show is always defined (\<open>current_show_defined\<close>, an invariant
  over all event sequences), it refines the cyclic-position specification
  (\<open>hero_refines_spec\<close>), autoplay advances after 5000 ms (\<open>autoplay_advances\<close>),
  both arrows keep the index in \<open>[0, n)\<close> under JavaScript's sign-keeping \<open>%\<close>
  (\<open>arrow_slide_bounds\<close>), and every reachable state renders exactly one active dot and
  one opaque backdrop, on the slide whose name is the heading (\<open>hero_view_one_active\<close>).
  The carousel starts at most one scroll per 500 ms, and its section id is the title's
  lower-cased words joined by single dashes, each run of white space one dash
  (\<open>carousel_id_words\<close>); the
  header keeps its mobile search box mounted exactly while the panel is open and closes it
  when a result is chosen. The legacy box shows, 300 ms after a new query, exactly the
  mock shows whose lower-cased title contains the lower-cased query as a substring
  (\<open>legacy_filter\<close>). The rating badge is the nearest tenth (\<open>rating_label_nearest\<close>). Composed, the home
  page shows the first trending show in the slider and three sections with the ids
  \<^verbatim>\<open>trending-now\<close>, \<^verbatim>\<open>top-rated\<close>, \<^verbatim>\<open>airing-today\<close>, one card per
  show (\<open>home_page_composition\<close>); of the mock pages, \<^verbatim>\<open>/show/1\<close> renders its
  show, a key of \<open>Object.prototype\<close> the error page, every other id a 404
  (\<open>mock_page_render\<close>).

  \<^bold>\<open>Findings.\<close> A set but empty token sends a request without any credential
  (\<open>empty_token_sends_no_credential\<close>). Nothing cancels a search request: in every
  state with two requests in flight, the first answer turns loading off while the other is
  pending, and the later answer, whichever is older, overwrites the results (\<open>out_of_order_responses\<close>); an answer arriving
  after Clear refills the list and Enter on the empty input opens that stale show
  (\<open>stale_result_after_clear\<close>). \<^verbatim>\<open>/tv/12abc\<close> is show 12
  (\<open>show_page_lenient_ids\<close>); \<^verbatim>\<open>/show/constructor\<close> passes the
  \<open>!show\<close> check and then throws, the error page instead of a 404
  (\<open>mock_page_render\<close>); a season without episodes crashes the viewer; the hero's resume timeouts are never cleared
  (\<open>resume_after_last_click\<close>); on every rendered home page the header's Trending
  link is the one anchor that names no section (\<open>broken_trending_anchor\<close>). The legacy box's spinner can stay for ever: a blank
  query cancels the timeout that would turn loading off (\<open>legacy_loading_stuck\<close>);
  its results view imports a module that is not in the repository. A show first aired on
  January 1st is labelled with the previous year west of UTC (\<open>year_label_timezone\<close>),
  and a show without a date is \<^verbatim>\<open>TBA\<close> on its card but \<^verbatim>\<open>NaN\<close> or 1970
  on its page (\<open>missing_date_labels\<close>). An episode with runtime 0 shows a stray
  \<^verbatim>\<open>0\<close> (\<open>zero_runtime_prints_zero\<close>).

  \<^bold>\<open>Modelling choices and bounds.\<close> Strings are lists of 8-bit \<open>char\<close>s read as
  code points U+0000..U+00FF; UTF-8 is modelled for those (one or two bytes), and a
  decoded code point of 256 or more is outside the model. JSON numbers are rationals.
  Integers printed into URLs are assumed below 10^21 in magnitude (JavaScript prints
  larger ones in exponent form). Time is a natural number of milliseconds advanced by
  \<open>Tick\<close> events; the debounce delay is the source's 500 ms and the result cap its 8.
  React's batching is not observable here: each handler's updates are applied together
  and the effects run after them, in source order. The upstream API, the network, the
  Next.js response cache (\<open>revalidate\<close>: only the value 3600 passed with the request
  is modelled), logging, styling and images are not modelled.

  Layout values of the browser (scroll offsets, box sizes, window width) are inputs of
  the scroll and resize events, as rationals. Time advances in 1 ms ticks where several
  timers interact (hero slider, carousel, episode viewer) and by \<open>Tick d\<close> in the
  search box, whose single debounce timer fires at most once per step.

  Rendered text: \<open>toFixed(1)\<close> is modelled below 10^21 (above, JavaScript switches to
  exponent form), \<open>Number::toString\<close> for integers up to 2^53 and for decimals of at
  most 15 significant digits not below 10^-6, which covers the ratings, years and ids the
  components print; the exact rational stands for the double. The local time zone is an
  input (its offset from UTC in minutes, for a date within a day of midnight), and
  \<open>toLocaleDateString\<close> is modelled for the \<open>en-US\<close> locale. Each component is
  rendered from its state; a failing label anywhere stands for a render that throws.

  \<^bold>\<open>Not modelled.\<close> The static views (\<^verbatim>\<open>layout.tsx\<close>, \<^verbatim>\<open>loading.tsx\<close>,
  \<^verbatim>\<open>not-found.tsx\<close>, \<^verbatim>\<open>LoadingSkeleton.tsx\<close>) are fixed markup with no state,
  input or logic: there is nothing in them a theorem could be about. CSS classes,
  animations and image loading are not modelled beyond the flags that select them;
  \<open>scrollIntoView\<close> and smooth scrolling are the browser's, and reach the model only as
  the geometry of later scroll events.
\<close>

section \<open>Across components: the search path\<close>

lemma search_url_route:
  "\<exists>u. new_url origin (search_url v) = Some u \<and> route_query u = js_trim v"
  unfolding search_url_def new_url_api_search by (simp add: params_get_def route_query_def)

text \<open>C7. End to end, the search box's request reaches the upstream with the trimmed
  text: the URL the box fetches, parsed by the endpoint, gives the trimmed query, and the
  upstream URL the shim builds for it holds exactly that query, as the upstream parses it.\<close>

theorem search_box_reaches_upstream:
  "\<exists>u ps. new_url origin (search_url v) = Some u \<and> route_query u = js_trim v \<and>
     buildUrl env (''/search/tv?query='' @ encodeURIComponent (route_query u)) =
       Some (TMDB_ORIGIN @ ''/3/search/tv?'' @ form_serialize ps) \<and>
     form_parse (form_serialize ps) = Some ps \<and> params_get ''query'' ps = Some (js_trim v)"
proof -
  obtain u where u: "new_url origin (search_url v) = Some u" "route_query u = js_trim v"
    using search_url_route by blast
  let ?ps = "tmdb_params env [(''query'', js_trim v)]"
  have "buildUrl env (''/search/tv?query='' @ encodeURIComponent (js_trim v)) =
          Some (TMDB_ORIGIN @ ''/3/search/tv?'' @ form_serialize ?ps) \<and>
        params_get ''query'' ?ps = Some (js_trim v)"
    using search_params_tmdb [of env "js_trim v"] by simp
  with u form_parse_serialize [of ?ps] show ?thesis by auto
qed

text \<open>C8. Whatever fails upstream, the endpoint's answer empties the search box's result
  list and turns loading off when it arrives: the box cannot tell a failure from a search
  with no match.\<close>

theorem endpoint_failure_empties_box:
  assumes "i \<in> set (map fst (inflight s))"
    and "route_query u \<noteq> []" and "searchShows env up (route_query u) = Inl e"
  shows "results (sb_step s (Respond i (Some (resp_body (GET env up u))))) = JArr [] \<and>
         \<not> isLoading (sb_step s (Respond i (Some (resp_body (GET env up u)))))"
  using assms
  by (simp add: GET_def search_failed_def performSearch_finish_def slice_results_def)

lemma endpoint_failure_empties_box_witness:
  "let s = sb_run sb_init [Type ''x'', Tick 500];
       u = \<lparr>url_origin = ''http://localhost'', url_path = ''/api/search'', url_query = Some ''q=x'',
            url_params = [(''q'', ''x'')]\<rparr>;
       env = \<lparr>V3_KEY = None, V4_TOKEN = None\<rparr> in
   results (sb_step s (Respond 0 (Some (resp_body (GET env (\<lambda>_. None) u))))) = JArr [] \<and>
   \<not> isLoading (sb_step s (Respond 0 (Some (resp_body (GET env (\<lambda>_. None) u)))))"
  unfolding Let_def
proof (rule endpoint_failure_empties_box)
  show "0 \<in> set (map fst (inflight (sb_run sb_init [Type ''x'', Tick 500])))" by code_simp
  show "route_query \<lparr>url_origin = ''http://localhost'', url_path = ''/api/search'', url_query = Some ''q=x'',
            url_params = [(''q'', ''x'')]\<rparr> \<noteq> []"
    by (simp add: route_query_def params_get_def js_trim_def is_js_space_def)
  show "searchShows \<lparr>V3_KEY = None, V4_TOKEN = None\<rparr> (\<lambda>_. None)
          (route_query \<lparr>url_origin = ''http://localhost'', url_path = ''/api/search'', url_query = Some ''q=x'',
            url_params = [(''q'', ''x'')]\<rparr>) = Inl Credential_missing"
    by code_simp
qed

section \<open>Across components: the header's anchors and the home page\<close>

lemma carousel_section_id:
  "carousel_section offset title shows g = Some v \<Longrightarrow> cv_id v = carousel_id title"
  by (auto simp add: carousel_section_def Carousel_view_def split: option.splits json.splits)

lemma home_section_ids:
  assumes "HomePage_render offset gs env up = Home_shown p"
  shows "length (hr_sections p) = 3 \<and>
         (\<forall>k < 3. \<forall>v. hr_sections p ! k = Some v \<longrightarrow> cv_id v = carousel_id (home_carousel_titles ! k))"
proof -
  obtain h t r a where hp: "HomePage env up = Home_view h t r a"
    using assms by (cases "HomePage env up") (auto simp add: HomePage_render_def)
  obtain g1 g2 g3 where gs: "gs = (g1, g2, g3)" by (cases gs) auto
  have "hr_sections p = [carousel_section offset (home_carousel_titles ! 0) t g1,
                         carousel_section offset (home_carousel_titles ! 1) r g2,
                         carousel_section offset (home_carousel_titles ! 2) a g3]"
    using assms by (auto simp add: HomePage_render_def hp gs)
  then show ?thesis
    using carousel_section_id by (auto simp add: less_Suc_eq numeral_3_eq_3 numeral_2_eq_2)
qed

text \<open>C33. On every home page that renders its three sections, whatever the upstream
  returned, the header's anchor \<^verbatim>\<open>#trending\<close> names no section (the section's id is
  \<^verbatim>\<open>trending-now\<close>, its title lower-cased with blanks turned into dashes), while
  \<^verbatim>\<open>#top-rated\<close> and \<^verbatim>\<open>#airing-today\<close> do.\<close>

theorem broken_trending_anchor:
  assumes "HomePage_render offset gs env up = Home_shown p" and "hr_sections p = map Some cs"
  shows "filter (\<lambda>a. tl a \<notin> set (map cv_id cs)) header_nav_anchors = [''#trending'']"
proof -
  have l: "length cs = 3"
    and i: "\<forall>k < 3. cv_id (cs ! k) = carousel_id (home_carousel_titles ! k)"
    using home_section_ids [OF assms(1)] assms(2) by auto
  have t: "length home_carousel_titles = 3" by (simp add: home_carousel_titles_def)
  have "map cv_id cs = map carousel_id home_carousel_titles"
  proof (rule nth_equalityI)
    show "length (map cv_id cs) = length (map carousel_id home_carousel_titles)" using l t by simp
    fix k assume "k < length (map cv_id cs)"
    then show "map cv_id cs ! k = map carousel_id home_carousel_titles ! k" using l t i by simp
  qed
  then show ?thesis
    using home_carousel_ids by (simp add: home_carousel_titles_def header_nav_anchors_def)
qed

lemma broken_trending_anchor_witness:
  "filter (\<lambda>a. tl a \<notin> set (map cv_id
      [\<lparr>cv_id = carousel_id ''Trending Now'', cv_title = ''Trending Now'', cv_left_arrow = None,
        cv_right_arrow = None, cv_cards = []\<rparr>,
       \<lparr>cv_id = carousel_id ''Top Rated'', cv_title = ''Top Rated'', cv_left_arrow = None,
        cv_right_arrow = None, cv_cards = []\<rparr>,
       \<lparr>cv_id = carousel_id ''Airing Today'', cv_title = ''Airing Today'', cv_left_arrow = None,
        cv_right_arrow = None, cv_cards = []\<rparr>])) header_nav_anchors = [''#trending'']"
  by (rule broken_trending_anchor
        [where offset = 0 and gs = "((0, 0, 0), (0, 0, 0), (0, 0, 0))"
           and env = "\<lparr>V3_KEY = Some ''k'', V4_TOKEN = None\<rparr>"
           and up = "\<lambda>_. Some \<lparr>res_status = 200, res_body = Some (JObj [(''results'', JArr [])])\<rparr>"
           and p = "\<lparr>hr_hero = Hero_null,
                    hr_sections = map Some
                      [\<lparr>cv_id = carousel_id ''Trending Now'', cv_title = ''Trending Now'', cv_left_arrow = None,
                        cv_right_arrow = None, cv_cards = []\<rparr>,
                       \<lparr>cv_id = carousel_id ''Top Rated'', cv_title = ''Top Rated'', cv_left_arrow = None,
                        cv_right_arrow = None, cv_cards = []\<rparr>,
                       \<lparr>cv_id = carousel_id ''Airing Today'', cv_title = ''Airing Today'', cv_left_arrow = None,
                        cv_right_arrow = None, cv_cards = []\<rparr>],
                    hr_footer_link = ''https://www.linkedin.com/in/kanishjn''\<rparr>"])
     code_simp+

end
